theory Spec2Isabelle
  imports Complex_Main "HOL-Library.Word"
begin

section \<open>The procedural animation core of the VRM avatar scene\<close>

text \<open>
  A shallow embedding of \<^verbatim>\<open>src/ui/components/app/vrm-avatar-scene.tsx\<close>: the easing
  functions, \<^verbatim>\<open>smoothLerp\<close>, the closure variables of the effect, one call of
  \<^verbatim>\<open>animate\<close> and the cleanup function of the effect.

  In the model of the frame JavaScript numbers are idealised as \<^typ>\<open>real\<close>: rounding,
  infinities and NaN are not modelled there. \<^verbatim>\<open>smoothLerp\<close> is modelled a second time
  in binary64, as \<open>smoothLerp64\<close>, and what is stated about the smoothing step and about
  runs of it is stated of that model. \<^verbatim>\<open>Math.random()\<close>, the clock and the analyser's
  spectrum are inputs of a frame.
\<close>

subsection \<open>Easing and smoothing\<close>

text \<open>
  \<^verbatim>\<open>Math.pow(b, e)\<close> for a real exponent. The model is the source's for a positive
  base, and for base 0 with an exponent \<open>\<ge> 0\<close> (\<^verbatim>\<open>Math.pow(0, 0)\<close> is 1, while
  \<open>0 powr 0\<close> is 0); every call of \<^verbatim>\<open>smoothLerp\<close> in the source passes a factor
  in \<open>(0, 1)\<close>, so the base is positive there.
\<close>

definition Math_pow :: "real \<Rightarrow> real \<Rightarrow> real" where
  "Math_pow b e = (if e = 0 then 1 else b powr e)"

definition easeInOutCubic :: "real \<Rightarrow> real" where
  "easeInOutCubic t = (if t < 0.5 then 4 * t * t * t else 1 - (- 2 * t + 2) ^ 3 / 2)"

definition easeOutQuad :: "real \<Rightarrow> real" where
  "easeOutQuad t = 1 - (1 - t) * (1 - t)"

definition easeInOutQuad :: "real \<Rightarrow> real" where
  "easeInOutQuad t = (if t < 0.5 then 2 * t * t else 1 - (- 2 * t + 2) ^ 2 / 2)"

definition smoothLerp :: "real \<Rightarrow> real \<Rightarrow> real \<Rightarrow> real \<Rightarrow> real" where
  "smoothLerp current target factor deltaTime =
     (let adjustedFactor = 1 - Math_pow (1 - factor) (deltaTime * 60)
      in current + (target - current) * adjustedFactor)"

subsection \<open>The smoothing utility in binary64\<close>

text \<open>
  Where a statement about \<^verbatim>\<open>smoothLerp\<close> depends on rounding, the utility is modelled
  as the engine evaluates it: a JavaScript number is a binary64 value, and every
  arithmetic operation returns the exact result rounded to the nearest binary64 value,
  ties to the even significand.

  \<open>fl x\<close> is that rounding of the real \<open>x\<close>. \<open>binade x\<close> is the exponent of \<open>x\<close>, at
  least \<open>-1022\<close> so that the subnormal numbers share the spacing \<open>2 powr -1074\<close>, and
  \<open>x\<close> is rounded to a multiple of \<open>pow2 (binade x - 52)\<close>. A real \<open>x\<close> is a binary64
  value when \<open>fl x = x\<close>. Overflow to \<^verbatim>\<open>Infinity\<close> is not modelled: \<open>fl\<close> is the
  rounding of the source for results of magnitude below \<open>2 ^ 1024\<close>, and the theorems
  bound their inputs so that every intermediate result is.
\<close>

definition pow2 :: "int \<Rightarrow> real" where
  "pow2 k = 2 powr real_of_int k"

definition roundEven :: "real \<Rightarrow> int" where
  "roundEven y =
     (let n = \<lfloor>y\<rfloor>
      in if y - real_of_int n < 1 / 2 then n
         else if 1 / 2 < y - real_of_int n then n + 1
         else if even n then n else n + 1)"

definition binade :: "real \<Rightarrow> int" where
  "binade x = max \<lfloor>log 2 \<bar>x\<bar>\<rfloor> (- 1022)"

definition fl :: "real \<Rightarrow> real" where
  "fl x =
     (if x = 0 then 0
      else real_of_int (roundEven (x / pow2 (binade x - 52))) * pow2 (binade x - 52))"

text \<open>
  ECMAScript leaves \<^verbatim>\<open>Math.pow\<close> implementation-approximated, so the binary64 step takes
  the function of the engine as a parameter \<open>pw\<close>. \<open>unitPow pw\<close> is what is assumed of
  it: a base in \<open>[0, 1]\<close> raised to an exponent \<open>\<ge> 0\<close> gives a value in \<open>[0, 1]\<close>.
  \<open>Math_pow64\<close> is the correctly rounded function.
\<close>

definition Math_pow64 :: "real \<Rightarrow> real \<Rightarrow> real" where
  "Math_pow64 b e = fl (Math_pow b e)"

definition unitPow :: "(real \<Rightarrow> real \<Rightarrow> real) \<Rightarrow> bool" where
  "unitPow pw = (\<forall>b e. 0 \<le> b \<and> b \<le> 1 \<and> 0 \<le> e \<longrightarrow> 0 \<le> pw b e \<and> pw b e \<le> 1)"

text \<open>
  \<^verbatim>\<open>smoothLerp\<close> with the rounding of each operation: the subtraction \<^verbatim>\<open>1 - factor\<close>,
  the product \<^verbatim>\<open>deltaTime * 60\<close>, the subtraction from 1, the difference
  \<^verbatim>\<open>target - current\<close>, the product and the sum.
\<close>

definition smoothLerp64 ::
  "(real \<Rightarrow> real \<Rightarrow> real) \<Rightarrow> real \<Rightarrow> real \<Rightarrow> real \<Rightarrow> real \<Rightarrow> real" where
  "smoothLerp64 pw current target factor deltaTime =
     (let adjustedFactor = fl (1 - pw (fl (1 - factor)) (fl (deltaTime * 60)))
      in fl (current + fl (fl (target - current) * adjustedFactor)))"


subsection \<open>The closure variables\<close>

text \<open>
  Rotation objects \<^verbatim>\<open>{ x, y, z }\<close>; the fields carry a prefix because \<open>x\<close>, \<open>y\<close>
  and \<open>z\<close> would otherwise no longer be usable as variables.
\<close>

record vec3 =
  vec_x :: real
  vec_y :: real
  vec_z :: real

abbreviation V :: "real \<Rightarrow> real \<Rightarrow> real \<Rightarrow> vec3" where
  "V a b c \<equiv> \<lparr>vec_x = a, vec_y = b, vec_z = c\<rparr>"

record hands =
  left :: vec3
  right :: vec3

record mouth =
  aa :: real
  ih :: real
  ou :: real
  oh :: real

record expression_weights =
  happy :: real
  surprised :: real
  relaxed :: real
  neutral :: real
  sad :: real
  angry :: real
  blink :: real

type_synonym byte = "8 word"

text \<open>
  The rig: \<^verbatim>\<open>vrm.expressionManager\<close> (absent on some models) as the weights last
  passed to \<^verbatim>\<open>setValue\<close>, and \<^verbatim>\<open>vrm.humanoid\<close> as the rotation of every
  normalized bone node; a bone the model lacks maps to \<open>None\<close>, as
  \<^verbatim>\<open>getNormalizedBoneNode\<close> returns null for it.
\<close>

record VRM =
  expressionManager :: "(string \<rightharpoonup> real) option"
  humanoid :: "(string \<rightharpoonup> vec3) option"

record scene_state =
  vrm :: "VRM option"
  nextBlinkTime :: real
  analyser :: bool
  dataArray :: "byte list"
  isSpeaking :: bool
  speechIntensity :: real
  targetSpeechIntensity :: real
  gesturePhase :: real
  currentGesture :: int
  nextGestureTime :: real
  gestureTransitionProgress :: real
  previousGesture :: int
  headRotation :: vec3
  targetHeadRotation :: vec3
  previousHeadRotation :: vec3
  leftArmRotation :: vec3
  rightArmRotation :: vec3
  targetLeftArmRotation :: vec3
  targetRightArmRotation :: vec3
  leftLowerArmRotation :: real
  rightLowerArmRotation :: real
  targetLeftLowerArmRotation :: real
  targetRightLowerArmRotation :: real
  handRotation :: hands
  targetHandRotation :: hands
  eyebrowIntensity :: real
  targetEyebrowIntensity :: real
  neckRotation :: vec3
  targetNeckRotation :: vec3
  currentExpression :: string
  previousExpression :: string
  expressionIntensity :: real
  targetExpressionIntensity :: real
  nextExpressionTime :: real
  expressionTransitionProgress :: real
  mouthShapes :: mouth
  targetMouthShapes :: mouth
  expressionValues :: expression_weights
  targetExpressionValues :: expression_weights

text \<open>
  What one call of \<^verbatim>\<open>animate\<close> reads from outside: the clock, the result of
  \<^verbatim>\<open>analyser.getByteFrequencyData\<close> (\<open>None\<close> when it throws) and one value
  for each call site of \<^verbatim>\<open>Math.random()\<close>, which the language puts in \<open>[0, 1)\<close>.
\<close>

record frame =
  deltaTime :: real
  elapsedTime :: real
  spectrum :: "byte list option"
  rndExpression :: real
  rndExpressionIntensity :: real
  rndExpressionTime :: real
  rndBlink :: real
  rndGesture :: real
  rndGestureTime :: real

text \<open>The closure variables as the effect initialises them; \<open>r\<close> is \<^verbatim>\<open>Math.random()\<close>.\<close>

definition zeroWeights :: expression_weights where
  "zeroWeights = \<lparr>happy = 0, surprised = 0, relaxed = 0, neutral = 0, sad = 0, angry = 0, blink = 0\<rparr>"

definition initialState :: "real \<Rightarrow> scene_state" where
  "initialState r =
     \<lparr>vrm = None,
      nextBlinkTime = 2 + r * 3,
      analyser = False,
      dataArray = [],
      isSpeaking = False,
      speechIntensity = 0,
      targetSpeechIntensity = 0,
      gesturePhase = 0,
      currentGesture = 0,
      nextGestureTime = 0,
      gestureTransitionProgress = 0,
      previousGesture = 0,
      headRotation = V 0 0 0,
      targetHeadRotation = V 0 0 0,
      previousHeadRotation = V 0 0 0,
      leftArmRotation = V 0 0 (- 1.2),
      rightArmRotation = V 0 0 1.2,
      targetLeftArmRotation = V 0 0 (- 1.2),
      targetRightArmRotation = V 0 0 1.2,
      leftLowerArmRotation = - 0.2,
      rightLowerArmRotation = - 0.2,
      targetLeftLowerArmRotation = - 0.2,
      targetRightLowerArmRotation = - 0.2,
      handRotation = \<lparr>left = V 0 0 0, right = V 0 0 0\<rparr>,
      targetHandRotation = \<lparr>left = V 0 0 0, right = V 0 0 0\<rparr>,
      eyebrowIntensity = 0,
      targetEyebrowIntensity = 0,
      neckRotation = V 0 0 0,
      targetNeckRotation = V 0 0 0,
      currentExpression = ''neutral'',
      previousExpression = ''neutral'',
      expressionIntensity = 0,
      targetExpressionIntensity = 0,
      nextExpressionTime = 0,
      expressionTransitionProgress = 1,
      mouthShapes = \<lparr>aa = 0, ih = 0, ou = 0, oh = 0\<rparr>,
      targetMouthShapes = \<lparr>aa = 0, ih = 0, ou = 0, oh = 0\<rparr>,
      expressionValues = zeroWeights,
      targetExpressionValues = zeroWeights\<rparr>"

subsection \<open>Audio analysis\<close>

text \<open>
  \<^verbatim>\<open>getByteFrequencyData\<close> copies the analyser's bins into the array it is given,
  as many as fit. \<^verbatim>\<open>slice\<close> and the sums are those of the typed array; the sum is a
  JavaScript number and does not wrap.
\<close>

definition getByteFrequencyData :: "byte list \<Rightarrow> byte list \<Rightarrow> byte list" where
  "getByteFrequencyData bins array = take (length array) bins @ drop (length bins) array"

definition byteSum :: "byte list \<Rightarrow> real" where
  "byteSum xs = real (sum_list (map unat xs))"

definition slice :: "nat \<Rightarrow> nat \<Rightarrow> 'a list \<Rightarrow> 'a list" where
  "slice a b xs = take (b - a) (drop a xs)"

record audio_bands =
  audioVolume :: real
  lowFreq :: real
  midFreq :: real
  highFreq :: real

definition silentBands :: audio_bands where
  "silentBands = \<lparr>audioVolume = 0, lowFreq = 0, midFreq = 0, highFreq = 0\<rparr>"

text \<open>Speech detection with hysteresis, on the volume of the frame.\<close>

definition detectSpeech :: "real \<Rightarrow> scene_state \<Rightarrow> scene_state" where
  "detectSpeech volume s =
     (let speakingThreshold = (if isSpeaking s then 0.015 else 0.025);
          speaking = (volume > speakingThreshold)
      in s\<lparr>isSpeaking := speaking,
           targetSpeechIntensity := (if speaking then min (volume * 2) 1 else 0)\<rparr>)"

text \<open>
  The guarded \<^verbatim>\<open>try\<close> block. The four locals start at 0 on every frame and keep
  that value when there is no analyser or when the read throws; the \<^verbatim>\<open>catch\<close> only
  logs. For an array shorter than 3 the source divides by \<^verbatim>\<open>third = 0\<close>; the
  analyser's array has 128 entries.
\<close>

definition audioAnalysis :: "frame \<Rightarrow> scene_state \<Rightarrow> audio_bands \<times> scene_state" where
  "audioAnalysis f s =
     (if analyser s \<and> length (dataArray s) > 0 then
        (case spectrum f of
           None \<Rightarrow> (silentBands, s)
         | Some bins \<Rightarrow>
             (let arr = getByteFrequencyData bins (dataArray s);
                  volume = byteSum arr / real (length arr) / 255;
                  third = length arr div 3;
                  bands = \<lparr>audioVolume = volume,
                           lowFreq = byteSum (slice 0 third arr) / real third / 255,
                           midFreq = byteSum (slice third (third * 2) arr) / real third / 255,
                           highFreq = byteSum (drop (third * 2) arr) / real third / 255\<rparr>
              in (bands, detectSpeech volume (s\<lparr>dataArray := arr\<rparr>))))
      else (silentBands, s))"

text \<open>The classifier fed one volume per frame: the state after each frame.\<close>

fun detectRun :: "scene_state \<Rightarrow> real list \<Rightarrow> scene_state list" where
  "detectRun s [] = []"
| "detectRun s (v # vs) = detectSpeech v s # detectRun (detectSpeech v s) vs"

subsection \<open>Speech intensity, mood, blink and mouth\<close>

definition smoothSpeech :: "frame \<Rightarrow> scene_state \<Rightarrow> scene_state" where
  "smoothSpeech f s =
     s\<lparr>speechIntensity :=
         smoothLerp (speechIntensity s) (targetSpeechIntensity s) 0.15 (deltaTime f)\<rparr>"

definition expressions :: "string list" where
  "expressions = [''happy'', ''surprised'', ''thinking'', ''relaxed'']"

text \<open>
  An array read at \<^verbatim>\<open>Math.floor(Math.random() * length)\<close>. A read out of range
  gives \<^verbatim>\<open>undefined\<close> in the source; it cannot happen for a random value in
  \<open>[0, 1)\<close>.
\<close>

definition arrayAt :: "string list \<Rightarrow> int \<Rightarrow> string" where
  "arrayAt xs i = (if 0 \<le> i \<and> i < int (length xs) then xs ! nat i else ''undefined'')"

definition selectExpression :: "frame \<Rightarrow> scene_state \<Rightarrow> scene_state" where
  "selectExpression f s =
     (if isSpeaking s \<and> elapsedTime f \<ge> nextExpressionTime s
         \<and> expressionTransitionProgress s \<ge> 1 then
        s\<lparr>previousExpression := currentExpression s,
          currentExpression :=
            arrayAt expressions \<lfloor>rndExpression f * real (length expressions)\<rfloor>,
          targetExpressionIntensity := 0.25 + rndExpressionIntensity f * 0.35,
          nextExpressionTime := elapsedTime f + 2.5 + rndExpressionTime f * 3,
          expressionTransitionProgress := 0\<rparr>
      else if \<not> isSpeaking s \<and> currentExpression s \<noteq> ''neutral'' then
        s\<lparr>previousExpression := currentExpression s,
          currentExpression := ''neutral'',
          targetExpressionIntensity := 0,
          expressionTransitionProgress := 0\<rparr>
      else s)"

definition advanceExpression :: "frame \<Rightarrow> scene_state \<Rightarrow> scene_state" where
  "advanceExpression f s =
     (let s1 = (if expressionTransitionProgress s < 1 then
                  s\<lparr>expressionTransitionProgress :=
                      min 1 (expressionTransitionProgress s + deltaTime f * 0.8)\<rparr>
                else s)
      in s1\<lparr>expressionIntensity :=
              smoothLerp (expressionIntensity s1) (targetExpressionIntensity s1) 0.08
                (deltaTime f)\<rparr>)"

text \<open>Natural blinking: the reseeding of the timer, and the pulse.\<close>

definition reseedBlink :: "frame \<Rightarrow> scene_state \<Rightarrow> scene_state" where
  "reseedBlink f s =
     (if elapsedTime f \<ge> nextBlinkTime s \<and> \<not> isSpeaking s then
        s\<lparr>nextBlinkTime := elapsedTime f + 2.5 + rndBlink f * 3.5\<rparr>
      else s)"

definition blinkProgress :: "real \<Rightarrow> real \<Rightarrow> real" where
  "blinkProgress elapsed nextBlink = max 0 (1 - \<bar>elapsed - nextBlink + 0.15\<bar> / 0.15)"

definition blinkStep :: "frame \<Rightarrow> scene_state \<Rightarrow> scene_state" where
  "blinkStep f s =
     (let s1 = reseedBlink f s;
          smoothBlinkProgress = easeInOutCubic (blinkProgress (elapsedTime f) (nextBlinkTime s1))
      in s1\<lparr>targetExpressionValues := (targetExpressionValues s1)\<lparr>blink := smoothBlinkProgress\<rparr>\<rparr>)"

definition mouthStep :: "frame \<Rightarrow> audio_bands \<Rightarrow> scene_state \<Rightarrow> scene_state" where
  "mouthStep f b s =
     (let target = (if isSpeaking s then
                      \<lparr>aa = lowFreq b * 0.8, ih = highFreq b * 0.6, ou = midFreq b * 0.5,
                       oh = (lowFreq b + midFreq b) * 0.4\<rparr>
                    else \<lparr>aa = 0, ih = 0, ou = 0, oh = 0\<rparr>);
          m = mouthShapes s
      in s\<lparr>targetMouthShapes := target,
           mouthShapes :=
             \<lparr>aa = smoothLerp (aa m) (aa target) 0.25 (deltaTime f),
              ih = smoothLerp (ih m) (ih target) 0.25 (deltaTime f),
              ou = smoothLerp (ou m) (ou target) 0.25 (deltaTime f),
              oh = smoothLerp (oh m) (oh target) 0.25 (deltaTime f)\<rparr>\<rparr>)"

text \<open>
  The targets of the emotive weights: all but \<^verbatim>\<open>blink\<close> are reset to 0, then set
  from the mood while speaking. \<open>eased\<close> is the local \<^verbatim>\<open>easedTransition\<close>.
\<close>

definition moodTargets :: "real \<Rightarrow> scene_state \<Rightarrow> expression_weights" where
  "moodTargets eased s =
     (let t0 = zeroWeights\<lparr>blink := blink (targetExpressionValues s)\<rparr>;
          e = expressionIntensity s
      in if isSpeaking s then
           (if currentExpression s = ''happy'' then
              t0\<lparr>happy := e * 0.7 * eased, relaxed := e * 0.2 * eased\<rparr>
            else if currentExpression s = ''surprised'' then
              t0\<lparr>surprised := e * 0.6 * eased\<rparr>
            else if currentExpression s = ''thinking'' then
              t0\<lparr>neutral := e * 0.4 * eased, relaxed := e * 0.3 * eased\<rparr>
            else if currentExpression s = ''relaxed'' then
              t0\<lparr>relaxed := e * 0.5 * eased, happy := e * 0.2 * eased\<rparr>
            else t0\<lparr>happy := speechIntensity s * 0.15\<rparr>)
         else t0)"

definition smoothWeights ::
  "expression_weights \<Rightarrow> expression_weights \<Rightarrow> real \<Rightarrow> expression_weights" where
  "smoothWeights c t dt =
     \<lparr>happy = smoothLerp (happy c) (happy t) 0.1 dt,
      surprised = smoothLerp (surprised c) (surprised t) 0.1 dt,
      relaxed = smoothLerp (relaxed c) (relaxed t) 0.1 dt,
      neutral = smoothLerp (neutral c) (neutral t) 0.1 dt,
      sad = smoothLerp (sad c) (sad t) 0.1 dt,
      angry = smoothLerp (angry c) (angry t) 0.1 dt,
      blink = smoothLerp (blink c) (blink t) 0.1 dt\<rparr>"

definition weightsStep :: "frame \<Rightarrow> real \<Rightarrow> scene_state \<Rightarrow> scene_state" where
  "weightsStep f eased s =
     (let t = moodTargets eased s
      in s\<lparr>targetExpressionValues := t,
           expressionValues := smoothWeights (expressionValues s) t (deltaTime f)\<rparr>)"

text \<open>
  \<^verbatim>\<open>setValue\<close> of the expression manager, as the weight it is passed, and the nine
  writes at the end of the face part of the frame.
\<close>

definition setValue :: "string \<Rightarrow> real \<Rightarrow> (string \<rightharpoonup> real) \<Rightarrow> (string \<rightharpoonup> real)" where
  "setValue name weight em = em(name \<mapsto> weight)"

definition applyExpressions :: "scene_state \<Rightarrow> VRM \<Rightarrow> VRM" where
  "applyExpressions s v =
     (case expressionManager v of
        None \<Rightarrow> v
      | Some em \<Rightarrow>
          v\<lparr>expressionManager := Some
              ((setValue ''neutral'' (neutral (expressionValues s))
                \<circ> setValue ''relaxed'' (relaxed (expressionValues s))
                \<circ> setValue ''surprised'' (surprised (expressionValues s))
                \<circ> setValue ''happy'' (happy (expressionValues s))
                \<circ> setValue ''blink'' (blink (expressionValues s))
                \<circ> setValue ''oh'' (min (oh (mouthShapes s)) 1)
                \<circ> setValue ''ou'' (min (ou (mouthShapes s)) 1)
                \<circ> setValue ''ih'' (min (ih (mouthShapes s)) 1)
                \<circ> setValue ''aa'' (min (aa (mouthShapes s)) 1)) em)\<rparr>)"

subsection \<open>The body: breathing, head, neck, eyebrows\<close>

type_synonym bones = "string \<rightharpoonup> vec3"

definition smoothVec :: "vec3 \<Rightarrow> vec3 \<Rightarrow> real \<Rightarrow> real \<Rightarrow> vec3" where
  "smoothVec c t factor dt =
     V (smoothLerp (vec_x c) (vec_x t) factor dt)
       (smoothLerp (vec_y c) (vec_y t) factor dt)
       (smoothLerp (vec_z c) (vec_z t) factor dt)"

text \<open>Spine and chest: the breathing cycle is written to the bones as computed.\<close>

definition breathStep :: "frame \<Rightarrow> scene_state \<Rightarrow> bones \<Rightarrow> bones" where
  "breathStep f s b =
     (let breathCycle = sin (elapsedTime f * 1.2) * 0.008;
          swayCycle = sin (elapsedTime f * 0.6) * 0.006;
          speakingBreath = (if isSpeaking s then speechIntensity s * 0.015 else 0);
          b1 = (case b ''spine'' of
                  None \<Rightarrow> b
                | Some spine \<Rightarrow>
                    b(''spine'' \<mapsto> spine\<lparr>vec_x := breathCycle + speakingBreath,
                                          vec_z := swayCycle\<rparr>))
      in case b1 ''chest'' of
           None \<Rightarrow> b1
         | Some chest \<Rightarrow> b1(''chest'' \<mapsto> chest\<lparr>vec_x := (breathCycle + speakingBreath) * 0.5\<rparr>))"

text \<open>
  The \<^verbatim>\<open>switch\<close> over the gesture: the new head target, the new neck target and the
  new eyebrow target, from the gesture phase \<open>p\<close> and the elapsed time \<open>t\<close>.
\<close>

definition gestureTargets :: "int \<Rightarrow> real \<Rightarrow> real \<Rightarrow> vec3 \<times> vec3 \<times> real" where
  "gestureTargets g p t =
     (if g = 1 then
        (V (sin (p * 2) * 0.08) (sin (t * 0.3) * 0.015) 0,
         V (sin (p * 2) * 0.025) 0 0, 0.18)
      else if g = 2 then
        (V (sin (t * 0.5) * 0.025) (sin (t * 0.4) * 0.035) (sin (p * 1) * 0.06),
         V 0 0 (sin (p * 1) * 0.018), 0.12)
      else if g = 3 then
        (V (sin (t * 0.4) * 0.018) (sin (p * 1.8) * 0.055) 0,
         V 0 (sin (p * 1.8) * 0.018) 0, 0.08)
      else if g = 4 then
        (V (0.04 + sin (t * 0.6) * 0.015) (sin (t * 0.4) * 0.025) 0,
         V 0.025 0 0, 0.2)
      else if g = 5 then
        (V (sin (t * 0.5) * 0.018) (0.05 + sin (p * 1.2) * 0.025) (sin (t * 0.4) * 0.015),
         V 0 0.018 0, 0.08)
      else if g = 6 then
        (V (0.06 + sin (t * 0.5) * 0.02) (sin (t * 0.3) * 0.02) (sin (t * 0.4) * 0.01),
         V 0.03 0 0, 0.1)
      else
        (V (sin (t * 0.5) * 0.02) (sin (t * 0.4) * 0.028) (sin (t * 0.3) * 0.012),
         V (sin (t * 0.6) * 0.008) (sin (t * 0.5) * 0.008) 0, 0.04))"

text \<open>Trigger a new gesture once its time has come.\<close>

definition selectGesture :: "frame \<Rightarrow> scene_state \<Rightarrow> scene_state" where
  "selectGesture f s =
     (if elapsedTime f \<ge> nextGestureTime s then
        s\<lparr>previousGesture := currentGesture s,
          previousHeadRotation := targetHeadRotation s,
          currentGesture := \<lfloor>rndGesture f * 7\<rfloor>,
          nextGestureTime := elapsedTime f + 2 + rndGestureTime f * 2,
          gesturePhase := 0,
          gestureTransitionProgress := 0\<rparr>
      else s)"

definition speakingHead :: "frame \<Rightarrow> scene_state \<Rightarrow> scene_state" where
  "speakingHead f s =
     (let s1 = selectGesture f s;
          s2 = s1\<lparr>gesturePhase := gesturePhase s1 + deltaTime f\<rparr>;
          s3 = (if gestureTransitionProgress s2 < 1 then
                  s2\<lparr>gestureTransitionProgress :=
                       min 1 (gestureTransitionProgress s2 + deltaTime f * 1.5)\<rparr>
                else s2);
          easedGestureTransition = easeInOutQuad (gestureTransitionProgress s3);
          (newHead, newNeck, newEyebrow) =
             gestureTargets (currentGesture s3) (gesturePhase s3) (elapsedTime f);
          prev = previousHeadRotation s3;
          blended =
            V (vec_x prev + (vec_x newHead - vec_x prev) * easedGestureTransition)
              (vec_y prev + (vec_y newHead - vec_y prev) * easedGestureTransition)
              (vec_z prev + (vec_z newHead - vec_z prev) * easedGestureTransition)
      in s3\<lparr>targetHeadRotation :=
               V (vec_x blended + speechIntensity s3 * sin (elapsedTime f * 2.2) * 0.012)
                 (vec_y blended + speechIntensity s3 * cos (elapsedTime f * 1.8) * 0.01)
                 (vec_z blended),
            targetNeckRotation := newNeck,
            targetEyebrowIntensity := newEyebrow\<rparr>)"

definition idleHead :: "frame \<Rightarrow> scene_state \<Rightarrow> scene_state" where
  "idleHead f s =
     s\<lparr>targetHeadRotation :=
         V (sin (elapsedTime f * 0.35) * 0.035) (sin (elapsedTime f * 0.28) * 0.05)
           (sin (elapsedTime f * 0.22) * 0.012),
       targetNeckRotation :=
         V (sin (elapsedTime f * 0.4) * 0.008) (sin (elapsedTime f * 0.3) * 0.008) 0,
       targetEyebrowIntensity := 0,
       currentGesture := 0,
       gesturePhase := 0,
       gestureTransitionProgress := 1,
       nextGestureTime := elapsedTime f + 2\<rparr>"

definition headStep :: "frame \<Rightarrow> bones \<Rightarrow> scene_state \<Rightarrow> bones \<times> scene_state" where
  "headStep f b s =
     (case b ''head'' of
        None \<Rightarrow> (b, s)
      | Some head \<Rightarrow>
          (let s1 = (if isSpeaking s then speakingHead f s else idleHead f s);
               s2 = s1\<lparr>headRotation :=
                         smoothVec (headRotation s1) (targetHeadRotation s1) 0.08 (deltaTime f)\<rparr>
           in (b(''head'' \<mapsto> headRotation s2), s2)))"

definition neckStep :: "frame \<Rightarrow> bones \<Rightarrow> scene_state \<Rightarrow> bones \<times> scene_state" where
  "neckStep f b s =
     (case b ''neck'' of
        None \<Rightarrow> (b, s)
      | Some neck \<Rightarrow>
          (let s1 = s\<lparr>neckRotation :=
                        smoothVec (neckRotation s) (targetNeckRotation s) 0.06 (deltaTime f)\<rparr>
           in (b(''neck'' \<mapsto> neckRotation s1), s1)))"

text \<open>
  The eyebrows: the intensity is smoothed on every frame, and written as the
  \<^verbatim>\<open>surprised\<close> weight while speaking with the neutral expression.
\<close>

definition eyebrowStep ::
  "frame \<Rightarrow> (string \<rightharpoonup> real) option \<Rightarrow> scene_state
     \<Rightarrow> (string \<rightharpoonup> real) option \<times> scene_state" where
  "eyebrowStep f em s =
     (let s1 = s\<lparr>eyebrowIntensity :=
                   smoothLerp (eyebrowIntensity s) (targetEyebrowIntensity s) 0.08 (deltaTime f)\<rparr>
      in case em of
           None \<Rightarrow> (None, s1)
         | Some m \<Rightarrow>
             if isSpeaking s1 \<and> currentExpression s1 = ''neutral'' then
               (Some (setValue ''surprised'' (eyebrowIntensity s1 * 0.15) m), s1)
             else (Some m, s1))"

subsection \<open>The body: arms, hands, shoulders, hips, fingers\<close>

definition armTargets :: "frame \<Rightarrow> scene_state \<Rightarrow> scene_state" where
  "armTargets f s =
     (let t = elapsedTime f in
      if isSpeaking s then
        (let baseGestureIntensity = min (speechIntensity s * 0.25) 0.15;
             emphasisMultiplier = (if speechIntensity s > 0.5 then 1.6 else 1.1);
             gestureIntensity = baseGestureIntensity * emphasisMultiplier;
             lowerArmIntensity = gestureIntensity * 1.1
         in s\<lparr>targetLeftArmRotation :=
                 V (sin (t * 1.1) * gestureIntensity * 1.2)
                   (cos (t * 0.85) * gestureIntensity * 0.7)
                   (- 1.2 + sin (t * 0.75) * gestureIntensity * 0.6),
               targetRightArmRotation :=
                 V (sin (t * 1.1 + 1.5) * gestureIntensity * 1.2)
                   (- cos (t * 0.85) * gestureIntensity * 0.7)
                   (1.2 - sin (t * 0.75 + 1.5) * gestureIntensity * 0.6),
               targetLeftLowerArmRotation := - 0.2 + sin (t * 1.4) * lowerArmIntensity,
               targetRightLowerArmRotation := - 0.2 + cos (t * 1.4) * lowerArmIntensity,
               targetHandRotation :=
                 \<lparr>left = V (sin (t * 1.6) * gestureIntensity * 0.4)
                            (cos (t * 1.3) * gestureIntensity * 0.35)
                            (sin (t * 1.1) * gestureIntensity * 0.35),
                  right = V (sin (t * 1.6 + 1) * gestureIntensity * 0.4)
                             (- cos (t * 1.3) * gestureIntensity * 0.35)
                             (cos (t * 1.1) * gestureIntensity * 0.35)\<rparr>\<rparr>)
      else
        s\<lparr>targetLeftArmRotation := V (sin (t * 0.65) * 0.012) 0 (- 1.2),
          targetRightArmRotation := V (sin (t * 0.65 + pi) * 0.012) 0 1.2,
          targetLeftLowerArmRotation := - 0.2,
          targetRightLowerArmRotation := - 0.2,
          targetHandRotation := \<lparr>left = V 0 0 0, right = V 0 0 0\<rparr>\<rparr>)"

definition smoothArms :: "frame \<Rightarrow> scene_state \<Rightarrow> scene_state" where
  "smoothArms f s =
     s\<lparr>leftArmRotation :=
         smoothVec (leftArmRotation s) (targetLeftArmRotation s) 0.1 (deltaTime f),
       rightArmRotation :=
         smoothVec (rightArmRotation s) (targetRightArmRotation s) 0.1 (deltaTime f),
       leftLowerArmRotation :=
         smoothLerp (leftLowerArmRotation s) (targetLeftLowerArmRotation s) 0.1 (deltaTime f),
       rightLowerArmRotation :=
         smoothLerp (rightLowerArmRotation s) (targetRightLowerArmRotation s) 0.1 (deltaTime f),
       handRotation :=
         \<lparr>left = smoothVec (left (handRotation s)) (left (targetHandRotation s)) 0.1
                   (deltaTime f),
          right = smoothVec (right (handRotation s)) (right (targetHandRotation s)) 0.1
                    (deltaTime f)\<rparr>\<rparr>"

text \<open>A write to a bone's rotation: skipped when the model lacks the bone.\<close>

definition withBone :: "string \<Rightarrow> (vec3 \<Rightarrow> vec3) \<Rightarrow> bones \<Rightarrow> bones" where
  "withBone name g b = (case b name of None \<Rightarrow> b | Some node \<Rightarrow> b(name \<mapsto> g node))"

definition applyArms :: "scene_state \<Rightarrow> bones \<Rightarrow> bones" where
  "applyArms s =
     withBone ''rightHand'' (\<lambda>node. right (handRotation s))
     \<circ> withBone ''leftHand'' (\<lambda>node. left (handRotation s))
     \<circ> withBone ''rightLowerArm'' (\<lambda>node. node\<lparr>vec_x := rightLowerArmRotation s\<rparr>)
     \<circ> withBone ''leftLowerArm'' (\<lambda>node. node\<lparr>vec_x := leftLowerArmRotation s\<rparr>)
     \<circ> withBone ''rightUpperArm'' (\<lambda>node. rightArmRotation s)
     \<circ> withBone ''leftUpperArm'' (\<lambda>node. leftArmRotation s)"

definition shoulderTowards :: "real \<Rightarrow> real \<Rightarrow> real \<Rightarrow> vec3 \<Rightarrow> vec3" where
  "shoulderTowards targetZ targetY dt node =
     node\<lparr>vec_z := smoothLerp (vec_z node) targetZ 0.08 dt,
          vec_y := smoothLerp (vec_y node) targetY 0.08 dt\<rparr>"

definition shouldersStep :: "frame \<Rightarrow> scene_state \<Rightarrow> bones \<Rightarrow> bones" where
  "shouldersStep f s =
     (let t = elapsedTime f in
      if isSpeaking s \<and> speechIntensity s > 0.35 then
        withBone ''rightShoulder''
          (shoulderTowards (- sin (t * 1.3) * 0.03) (- cos (t * 1.1) * 0.015) (deltaTime f))
        \<circ> withBone ''leftShoulder''
            (shoulderTowards (sin (t * 1.3) * 0.03) (cos (t * 1.1) * 0.015) (deltaTime f))
      else
        withBone ''rightShoulder'' (shoulderTowards 0 0 (deltaTime f))
        \<circ> withBone ''leftShoulder'' (shoulderTowards 0 0 (deltaTime f)))"

definition hipsStep :: "frame \<Rightarrow> bones \<Rightarrow> bones" where
  "hipsStep f =
     (let hipSway = sin (elapsedTime f * 0.5) * 0.005
      in withBone ''hips'' (\<lambda>node. node\<lparr>vec_y := hipSway\<rparr>))"

definition fingerBones :: "string list" where
  "fingerBones =
     [''leftThumbProximal'', ''leftThumbIntermediate'', ''leftThumbDistal'',
      ''leftIndexProximal'', ''leftIndexIntermediate'', ''leftIndexDistal'',
      ''leftMiddleProximal'', ''leftMiddleIntermediate'', ''leftMiddleDistal'',
      ''leftRingProximal'', ''leftRingIntermediate'', ''leftRingDistal'',
      ''leftLittleProximal'', ''leftLittleIntermediate'', ''leftLittleDistal'',
      ''rightThumbProximal'', ''rightThumbIntermediate'', ''rightThumbDistal'',
      ''rightIndexProximal'', ''rightIndexIntermediate'', ''rightIndexDistal'',
      ''rightMiddleProximal'', ''rightMiddleIntermediate'', ''rightMiddleDistal'',
      ''rightRingProximal'', ''rightRingIntermediate'', ''rightRingDistal'',
      ''rightLittleProximal'', ''rightLittleIntermediate'', ''rightLittleDistal'']"

text \<open>The curl target of the finger bone at position \<open>index\<close> of the list.\<close>

definition fingerTarget :: "frame \<Rightarrow> scene_state \<Rightarrow> nat \<Rightarrow> real" where
  "fingerTarget f s index =
     (if isSpeaking s \<and> speechIntensity s > 0.3 then
        sin (elapsedTime f * 1.5 + real index * 0.2) * speechIntensity s * 0.15
      else 0)"

definition fingersStep :: "frame \<Rightarrow> scene_state \<Rightarrow> bones \<Rightarrow> bones" where
  "fingersStep f s b =
     fold (\<lambda>(index, boneName).
             withBone boneName
               (\<lambda>node. node\<lparr>vec_z :=
                   smoothLerp (vec_z node) (fingerTarget f s index) 0.1 (deltaTime f)\<rparr>))
       (enumerate 0 fingerBones) b"

subsection \<open>One frame\<close>

definition humanoidStep :: "frame \<Rightarrow> VRM \<Rightarrow> scene_state \<Rightarrow> VRM \<times> scene_state" where
  "humanoidStep f v s =
     (case humanoid v of
        None \<Rightarrow> (v, s)
      | Some b0 \<Rightarrow>
          (let b1 = breathStep f s b0;
               (b2, s1) = headStep f b1 s;
               (b3, s2) = neckStep f b2 s1;
               (em, s3) = eyebrowStep f (expressionManager v) s2;
               s4 = smoothArms f (armTargets f s3);
               b4 = applyArms s4 b3;
               b5 = shouldersStep f s4 b4;
               b6 = hipsStep f b5;
               b7 = fingersStep f s4 b6
           in (v\<lparr>expressionManager := em, humanoid := Some b7\<rparr>, s4)))"

text \<open>
  The face part of the frame, up to the smoothing of the expression weights; the bands
  it returns are the locals \<^verbatim>\<open>audioVolume\<close>, \<^verbatim>\<open>lowFreq\<close>, \<^verbatim>\<open>midFreq\<close> and
  \<^verbatim>\<open>highFreq\<close> that the rest of the frame reads.
\<close>

definition faceStep :: "frame \<Rightarrow> scene_state \<Rightarrow> audio_bands \<times> scene_state" where
  "faceStep f s0 =
     (let (bands, s1) = audioAnalysis f s0;
          s2 = smoothSpeech f s1;
          s3 = advanceExpression f (selectExpression f s2);
          easedTransition = easeInOutQuad (expressionTransitionProgress s3);
          s4 = blinkStep f s3;
          s5 = mouthStep f bands s4
      in (bands, weightsStep f easedTransition s5))"

definition frameBody :: "frame \<Rightarrow> VRM \<Rightarrow> scene_state \<Rightarrow> VRM \<times> scene_state" where
  "frameBody f v s =
     (let s1 = snd (faceStep f s) in humanoidStep f (applyExpressions s1 v) s1)"

text \<open>
  \<^verbatim>\<open>animate\<close>: nothing is animated before the model is loaded. \<^verbatim>\<open>vrm.update\<close>
  and the rendering touch none of the variables modelled here.
\<close>

definition animate :: "frame \<Rightarrow> scene_state \<Rightarrow> scene_state" where
  "animate f s =
     (case vrm s of
        None \<Rightarrow> s
      | Some v \<Rightarrow> (let (v', s') = frameBody f v s in s'\<lparr>vrm := Some v'\<rparr>))"

subsection \<open>Loading the model, and the scenes that can arise\<close>

text \<open>
  The loader's callback for a valid model: \<^verbatim>\<open>vrm\<close> is set, and \<open>audio\<close> tells
  whether there was an audio track and the analyser was created for it, with its array of
  \<^verbatim>\<open>frequencyBinCount = fftSize / 2 = 128\<close> bins.
\<close>

definition onLoad :: "VRM \<Rightarrow> bool \<Rightarrow> scene_state \<Rightarrow> scene_state" where
  "onLoad v audio s =
     (let s1 = s\<lparr>vrm := Some v\<rparr>
      in if audio then s1\<lparr>analyser := True, dataArray := replicate 128 0\<rparr> else s1)"

inductive reachable :: "scene_state \<Rightarrow> bool" where
  mounted: "reachable (initialState r)"
| loaded: "reachable s \<Longrightarrow> vrm s = None \<Longrightarrow> reachable (onLoad v audio s)"
| frame: "reachable s \<Longrightarrow> reachable (animate f s)"

text \<open>Whether the rig of the scene has a head bone.\<close>

definition hasHead :: "scene_state \<Rightarrow> bool" where
  "hasHead s =
     (case vrm s of
        None \<Rightarrow> False
      | Some v \<Rightarrow> (case humanoid v of None \<Rightarrow> False | Some b \<Rightarrow> b ''head'' \<noteq> None))"

text \<open>
  What the rig of a scene holds: the weight last passed to \<^verbatim>\<open>setValue\<close> for an
  expression, and the rotation of a bone.
\<close>

definition appliedWeight :: "scene_state \<Rightarrow> string \<Rightarrow> real option" where
  "appliedWeight s name =
     (case vrm s of
        None \<Rightarrow> None
      | Some v \<Rightarrow> (case expressionManager v of None \<Rightarrow> None | Some em \<Rightarrow> em name))"

definition boneRotation :: "scene_state \<Rightarrow> string \<Rightarrow> vec3 option" where
  "boneRotation s name =
     (case vrm s of
        None \<Rightarrow> None
      | Some v \<Rightarrow> (case humanoid v of None \<Rightarrow> None | Some b \<Rightarrow> b name))"

subsection \<open>Cleanup\<close>

text \<open>
  What the cleanup function of the effect releases, as the browser holds it: the
  listeners, the audio source node (\<open>Some c\<close>: created, and \<open>c\<close> tells whether it is
  connected), the audio context (\<open>Some c\<close>: created, and \<open>c\<close> tells whether it is
  open), the GPU resources of the model and of the renderer, and the canvas as a child of
  the container. The browser's side of each call follows the DOM and Web Audio standards:
  \<^verbatim>\<open>removeEventListener\<close>, \<^verbatim>\<open>disconnect()\<close> and \<^verbatim>\<open>dispose()\<close> can be repeated,
  \<^verbatim>\<open>close()\<close> on a closed context returns a rejected promise without throwing, and
  \<^verbatim>\<open>removeChild\<close> throws \<^verbatim>\<open>NotFoundError\<close> when the node is not a child.
\<close>

record resources =
  resizeListener :: bool
  controlsListeners :: bool
  audioSource :: "bool option"
  audioContext :: "bool option"
  gpuResources :: bool
  canvasInContainer :: bool

datatype dom_exception = NotFoundError

definition cleanup :: "resources \<Rightarrow> resources \<times> dom_exception option" where
  "cleanup r =
     (let r1 = r\<lparr>resizeListener := False, controlsListeners := False\<rparr>;
          r2 = (case audioSource r1 of None \<Rightarrow> r1 | Some c \<Rightarrow> r1\<lparr>audioSource := Some False\<rparr>);
          r3 = (case audioContext r2 of None \<Rightarrow> r2 | Some c \<Rightarrow> r2\<lparr>audioContext := Some False\<rparr>);
          r4 = r3\<lparr>gpuResources := False\<rparr>
      in if canvasInContainer r4 then (r4\<lparr>canvasInContainer := False\<rparr>, None)
         else (r4, Some NotFoundError))"

definition liveAudioNode :: "resources \<Rightarrow> bool" where
  "liveAudioNode r = (audioSource r = Some True \<or> audioContext r = Some True)"

text \<open>The resources once the effect has run, with or without an audio pipeline.\<close>

definition mountedResources :: "bool \<Rightarrow> resources" where
  "mountedResources audio =
     \<lparr>resizeListener = True, controlsListeners = True,
      audioSource = (if audio then Some True else None),
      audioContext = (if audio then Some True else None),
      gpuResources = True, canvasInContainer = True\<rparr>"

text \<open>
  A scene for evaluation: a model with an expression manager and the bones named below,
  all at rest, loaded with an audio track.
\<close>

definition sampleRig :: VRM where
  "sampleRig =
     \<lparr>expressionManager = Some Map.empty,
      humanoid = Some [''head'' \<mapsto> V 0 0 0, ''neck'' \<mapsto> V 0 0 0, ''spine'' \<mapsto> V 0 0 0,
                       ''chest'' \<mapsto> V 0 0 0, ''hips'' \<mapsto> V 0 0 0,
                       ''leftUpperArm'' \<mapsto> V 0 0 0, ''leftShoulder'' \<mapsto> V 0 0 0,
                       ''leftIndexProximal'' \<mapsto> V 0 0 0]\<rparr>"

definition sampleScene :: scene_state where
  "sampleScene = onLoad sampleRig True (initialState 0)"

text \<open>A frame at 60 frames per second with the given elapsed time and spectrum.\<close>

definition sampleFrame :: "real \<Rightarrow> byte list option \<Rightarrow> frame" where
  "sampleFrame t bins =
     \<lparr>deltaTime = 1 / 60, elapsedTime = t, spectrum = bins,
      rndExpression = 1 / 2, rndExpressionIntensity = 1 / 2, rndExpressionTime = 1 / 2,
      rndBlink = 1 / 2, rndGesture = 1 / 2, rndGestureTime = 1 / 2\<rparr>"

subsection \<open>Results about the smoothing utility\<close>

lemma smoothLerp_zero_time [simp]: "smoothLerp c t r 0 = c"
  by (simp add: smoothLerp_def Math_pow_def)

subsection \<open>Rounding to binary64\<close>

lemma pow2_pos [simp]: "0 < pow2 k"
  by (simp add: pow2_def)

lemma pow2_nonneg [simp]: "0 \<le> pow2 k"
  by (simp add: pow2_def)

lemma pow2_nonzero [simp]: "pow2 k \<noteq> 0"
  by (simp add: pow2_def)

lemma pow2_add: "pow2 (j + k) = pow2 j * pow2 k"
  by (simp add: pow2_def powr_add)

lemma pow2_zero [simp]: "pow2 0 = 1"
  by (simp add: pow2_def)

lemma pow2_le [simp]: "pow2 j \<le> pow2 k \<longleftrightarrow> j \<le> k"
  by (simp add: pow2_def)

lemma pow2_less [simp]: "pow2 j < pow2 k \<longleftrightarrow> j < k"
  by (simp add: pow2_def)

lemma pow2_nat: "pow2 (int n) = 2 ^ n"
  by (simp add: pow2_def powr_realpow)

lemma pow2_neg: "pow2 (- k) = 1 / pow2 k"
  by (simp add: pow2_def powr_minus field_simps)

lemma pow2_diff: "pow2 (j - k) = pow2 j / pow2 k"
  by (simp add: pow2_def powr_diff)

lemma pow2_split:
  "pow2 (k + 1) = pow2 53 * pow2 (k - 52)" "pow2 k = pow2 52 * pow2 (k - 52)"
  using pow2_add [of 53 "k - 52"] pow2_add [of 52 "k - 52"]
  by (simp_all add: algebra_simps)

lemma pow2_int: "0 \<le> k \<Longrightarrow> pow2 k = real_of_int (2 ^ nat k)"
  using pow2_nat [of "nat k"] by simp

subsection \<open>Rounding to the nearest integer, ties to even\<close>

lemma roundEven_cases:
  "roundEven y = \<lfloor>y\<rfloor> \<or> roundEven y = \<lfloor>y\<rfloor> + 1"
  by (simp add: roundEven_def Let_def)

lemma roundEven_of_int [simp]: "roundEven (real_of_int k) = k"
  by (simp add: roundEven_def)

lemma roundEven_lower: "\<lfloor>y\<rfloor> \<le> roundEven y"
  using roundEven_cases [of y] by auto

lemma roundEven_upper: "roundEven y \<le> \<lceil>y\<rceil>"
proof (cases "y = real_of_int \<lfloor>y\<rfloor>")
  case True
  then have "roundEven y = \<lfloor>y\<rfloor>" by (metis roundEven_of_int)
  then show ?thesis by (simp add: floor_le_ceiling)
next
  case False
  then have "\<lceil>y\<rceil> = \<lfloor>y\<rfloor> + 1" by (simp add: ceiling_altdef)
  then show ?thesis using roundEven_cases [of y] by auto
qed

lemma roundEven_mono:
  assumes "y \<le> z"
  shows "roundEven y \<le> roundEven z"
proof (cases "\<lfloor>y\<rfloor> = \<lfloor>z\<rfloor>")
  case True
  then show ?thesis using assms by (auto simp: roundEven_def Let_def)
next
  case False
  then have "\<lfloor>y\<rfloor> + 1 \<le> \<lfloor>z\<rfloor>" using floor_mono [OF assms] by simp
  then show ?thesis
    using roundEven_cases [of y] roundEven_lower [of z] by auto
qed

lemma roundEven_error: "\<bar>real_of_int (roundEven y) - y\<bar> \<le> 1 / 2"
proof -
  obtain n where n: "\<lfloor>y\<rfloor> = n" by simp
  then have b: "real_of_int n \<le> y" "y < real_of_int n + 1" by linarith+
  show ?thesis
    unfolding roundEven_def Let_def n using b by (auto simp: abs_if)
qed

lemma roundEven_minus: "roundEven (- y) = - roundEven y"
proof (cases "y = real_of_int \<lfloor>y\<rfloor>")
  case True
  then obtain k where "y = real_of_int k" by blast
  then show ?thesis using roundEven_of_int [of "- k"] by simp
next
  case False
  then have c: "\<lceil>y\<rceil> = \<lfloor>y\<rfloor> + 1" by (simp add: ceiling_altdef)
  have f: "\<lfloor>- y\<rfloor> = - \<lfloor>y\<rfloor> - 1" using c by (simp add: floor_minus)
  have b: "real_of_int \<lfloor>y\<rfloor> < y" "y < real_of_int \<lfloor>y\<rfloor> + 1" using False by linarith+
  show ?thesis
    unfolding roundEven_def Let_def f using b by (auto simp: algebra_simps)
qed

subsection \<open>The binade of a number\<close>

lemma binade_minus [simp]: "binade (- x) = binade x"
  by (simp add: binade_def)

lemma binade_ge: "- 1022 \<le> binade x"
  by (simp add: binade_def)

lemma binade_upper:
  assumes "x \<noteq> 0"
  shows "\<bar>x\<bar> < pow2 (binade x + 1)"
proof -
  have "\<bar>x\<bar> < 2 powr (real_of_int \<lfloor>log 2 \<bar>x\<bar>\<rfloor> + 1)"
    using assms floor_log_eq_powr_iff [of "\<bar>x\<bar>" 2 "\<lfloor>log 2 \<bar>x\<bar>\<rfloor>"] by simp
  then have "\<bar>x\<bar> < pow2 (\<lfloor>log 2 \<bar>x\<bar>\<rfloor> + 1)" by (simp add: pow2_def)
  also have "\<dots> \<le> pow2 (binade x + 1)" by (simp add: binade_def)
  finally show ?thesis .
qed

lemma binade_lower:
  assumes "x \<noteq> 0" and "binade x \<noteq> - 1022"
  shows "pow2 (binade x) \<le> \<bar>x\<bar>"
proof -
  have "binade x = \<lfloor>log 2 \<bar>x\<bar>\<rfloor>" using assms(2) by (auto simp: binade_def max_def split: if_splits)
  moreover have "2 powr real_of_int \<lfloor>log 2 \<bar>x\<bar>\<rfloor> \<le> \<bar>x\<bar>"
    using assms(1) floor_log_eq_powr_iff [of "\<bar>x\<bar>" 2 "\<lfloor>log 2 \<bar>x\<bar>\<rfloor>"] by simp
  ultimately show ?thesis by (simp add: pow2_def)
qed

lemma binade_eq:
  assumes "pow2 k \<le> \<bar>x\<bar>" and "\<bar>x\<bar> < pow2 (k + 1)" and "- 1022 \<le> k"
  shows "binade x = k"
proof -
  have "0 < \<bar>x\<bar>" using assms(1) pow2_pos [of k] by linarith
  then have "\<lfloor>log 2 \<bar>x\<bar>\<rfloor> = k"
    using assms(1,2) floor_log_eq_powr_iff [of "\<bar>x\<bar>" 2 k] by (simp add: pow2_def)
  then show ?thesis using assms(3) by (simp add: binade_def)
qed

lemma binade_subnormal:
  assumes "x \<noteq> 0" and "\<bar>x\<bar> < pow2 (- 1022)"
  shows "binade x = - 1022"
proof (rule ccontr)
  assume "binade x \<noteq> - 1022"
  then have "pow2 (binade x) \<le> \<bar>x\<bar>" using assms(1) by (rule binade_lower [rotated])
  then have "pow2 (binade x) < pow2 (- 1022)" using assms(2) by linarith
  then show False using binade_ge [of x] by simp
qed

lemma binade_mono:
  assumes "0 < x" and "x \<le> y"
  shows "binade x \<le> binade y"
proof -
  have "log 2 \<bar>x\<bar> \<le> log 2 \<bar>y\<bar>" using assms by simp
  then have "\<lfloor>log 2 \<bar>x\<bar>\<rfloor> \<le> \<lfloor>log 2 \<bar>y\<bar>\<rfloor>" by (rule floor_mono)
  then show ?thesis by (simp add: binade_def)
qed

subsection \<open>Rounding to binary64\<close>

lemma fl_zero [simp]: "fl 0 = 0"
  by (simp add: fl_def)

lemma fl_minus: "fl (- x) = - fl x"
  by (simp add: fl_def roundEven_minus)

lemma pow2_53: "pow2 53 = real_of_int (2 ^ 53)" and pow2_52: "pow2 52 = real_of_int (2 ^ 52)"
  using pow2_nat [of 53] pow2_nat [of 52] by simp_all

lemma scaled_bounds:
  assumes "0 < x"
  shows "0 < x / pow2 (binade x - 52)"
    and "x / pow2 (binade x - 52) < pow2 53"
    and "binade x \<noteq> - 1022 \<Longrightarrow> pow2 52 \<le> x / pow2 (binade x - 52)"
proof -
  note split = pow2_split [of "binade x"]
  show "0 < x / pow2 (binade x - 52)" using assms by simp
  have "x < pow2 (binade x + 1)" using binade_upper [of x] assms by simp
  then show "x / pow2 (binade x - 52) < pow2 53"
    unfolding split by (simp add: field_simps)
  assume "binade x \<noteq> - 1022"
  then have "pow2 (binade x) \<le> x" using binade_lower [of x] assms by simp
  then show "pow2 52 \<le> x / pow2 (binade x - 52)"
    unfolding split by (simp add: field_simps)
qed

lemma roundEven_scaled:
  assumes "0 < x"
  shows "0 \<le> roundEven (x / pow2 (binade x - 52))"
    and "roundEven (x / pow2 (binade x - 52)) \<le> 2 ^ 53"
    and "binade x \<noteq> - 1022 \<Longrightarrow> 2 ^ 52 \<le> roundEven (x / pow2 (binade x - 52))"
proof -
  note b = scaled_bounds [OF assms]
  have "roundEven 0 \<le> roundEven (x / pow2 (binade x - 52))"
    using b(1) by (intro roundEven_mono) simp
  then show "0 \<le> roundEven (x / pow2 (binade x - 52))"
    using roundEven_of_int [of 0] by simp
  have "roundEven (x / pow2 (binade x - 52)) \<le> roundEven (real_of_int (2 ^ 53))"
    using b(2) unfolding pow2_53 by (intro roundEven_mono) simp
  then show "roundEven (x / pow2 (binade x - 52)) \<le> 2 ^ 53"
    unfolding roundEven_of_int .
  assume "binade x \<noteq> - 1022"
  then have "roundEven (real_of_int (2 ^ 52)) \<le> roundEven (x / pow2 (binade x - 52))"
    using b(3) unfolding pow2_52 by (intro roundEven_mono) simp
  then show "2 ^ 52 \<le> roundEven (x / pow2 (binade x - 52))"
    unfolding roundEven_of_int .
qed

lemma fl_pos_bounds:
  assumes "0 < x"
  shows "0 \<le> fl x"
    and "fl x \<le> pow2 (binade x + 1)"
    and "binade x \<noteq> - 1022 \<Longrightarrow> pow2 (binade x) \<le> fl x"
proof -
  note r = roundEven_scaled [OF assms]
  note split = pow2_split [of "binade x"]
  have eq: "fl x = real_of_int (roundEven (x / pow2 (binade x - 52))) * pow2 (binade x - 52)"
    using assms by (simp add: fl_def)
  show "0 \<le> fl x" unfolding eq using r(1) by simp
  have "real_of_int (roundEven (x / pow2 (binade x - 52))) \<le> real_of_int (2 ^ 53)"
    using r(2) by (simp only: of_int_le_iff)
  then show "fl x \<le> pow2 (binade x + 1)"
    unfolding eq split pow2_53 by (intro mult_right_mono) simp_all
  assume n: "binade x \<noteq> - 1022"
  have "real_of_int (2 ^ 52) \<le> real_of_int (roundEven (x / pow2 (binade x - 52)))"
    using r(3) [OF n] by (simp only: of_int_le_iff)
  then show "pow2 (binade x) \<le> fl x"
    unfolding eq split pow2_52 by (intro mult_right_mono) simp_all
qed

lemma fl_nonneg: "0 \<le> x \<Longrightarrow> 0 \<le> fl x"
  using fl_pos_bounds(1) [of x] by (cases "x = 0") simp_all

lemma fl_nonpos: "x \<le> 0 \<Longrightarrow> fl x \<le> 0"
  using fl_nonneg [of "- x"] by (simp add: fl_minus)

lemma fl_mono_pos:
  assumes "0 < x" and "x \<le> z"
  shows "fl x \<le> fl z"
proof (cases "binade x = binade z")
  case True
  have "roundEven (x / pow2 (binade z - 52)) \<le> roundEven (z / pow2 (binade z - 52))"
    using assms(2) by (intro roundEven_mono divide_right_mono) simp_all
  then have "real_of_int (roundEven (x / pow2 (binade z - 52))) * pow2 (binade z - 52)
      \<le> real_of_int (roundEven (z / pow2 (binade z - 52))) * pow2 (binade z - 52)"
    by (intro mult_right_mono) simp_all
  then show ?thesis using assms True by (simp add: fl_def)
next
  case False
  then have less: "binade x + 1 \<le> binade z" using binade_mono [OF assms] by simp
  then have "binade z \<noteq> - 1022" using binade_ge [of x] by linarith
  then have "pow2 (binade z) \<le> fl z" using fl_pos_bounds(3) [of z] assms by simp
  moreover have "fl x \<le> pow2 (binade x + 1)" using fl_pos_bounds(2) [OF assms(1)] .
  moreover have "pow2 (binade x + 1) \<le> pow2 (binade z)" using less by simp
  ultimately show ?thesis by linarith
qed

lemma fl_mono:
  assumes "x \<le> z"
  shows "fl x \<le> fl z"
proof -
  consider "0 < x" | "x \<le> 0" "0 \<le> z" | "z < 0" using assms by linarith
  then show ?thesis
  proof cases
    case 1
    then show ?thesis using assms by (rule fl_mono_pos)
  next
    case 2
    then show ?thesis using fl_nonpos [of x] fl_nonneg [of z] by linarith
  next
    case 3
    then have "fl (- z) \<le> fl (- x)" using assms by (intro fl_mono_pos) simp_all
    then show ?thesis by (simp add: fl_minus)
  qed
qed

text \<open>The numbers \<open>m * 2 ^ j\<close> with \<open>\<bar>m\<bar> \<le> 2 ^ 53\<close> and \<open>j \<ge> - 1074\<close> are doubles.\<close>

lemma fl_representable_pos:
  assumes "0 < m" and "m \<le> 2 ^ 53" and "- 1074 \<le> j"
  shows "fl (real_of_int m * pow2 j) = real_of_int m * pow2 j"
proof -
  define x where "x = real_of_int m * pow2 j"
  define k where "k = binade x"
  have pos: "0 < x" using assms(1) by (simp add: x_def)
  have eq: "fl x = real_of_int (roundEven (x / pow2 (k - 52))) * pow2 (k - 52)"
    using pos by (simp add: fl_def k_def)
  show ?thesis
  proof (cases "k - 52 \<le> j")
    case True
    define n where "n = nat (j - (k - 52))"
    have "pow2 j = pow2 (int n) * pow2 (k - 52)"
      using True pow2_add [of "int n" "k - 52"] by (simp add: n_def)
    then have "x / pow2 (k - 52) = real_of_int (m * 2 ^ n)"
      by (simp add: x_def pow2_nat)
    then have "fl x = real_of_int (m * 2 ^ n) * pow2 (k - 52)"
      unfolding eq by (simp only: roundEven_of_int)
    also have "\<dots> = real_of_int m * (pow2 (int n) * pow2 (k - 52))"
      by (simp add: pow2_nat)
    also have "pow2 (int n) * pow2 (k - 52) = pow2 j"
      using True pow2_add [of "int n" "k - 52"] by (simp add: n_def)
    finally show ?thesis by (simp add: x_def)
  next
    case False
    then have normal: "k \<noteq> - 1022" using assms(3) by simp
    then have low: "pow2 k \<le> x" using binade_lower [of x] pos by (simp add: k_def)
    have "real_of_int m \<le> real_of_int (2 ^ 53)" using assms(2) by (simp only: of_int_le_iff)
    then have "x \<le> pow2 53 * pow2 j"
      unfolding x_def pow2_53 by (intro mult_right_mono) simp_all
    then have up: "x \<le> pow2 (j + 53)" using pow2_add [of 53 j] by (simp add: add.commute)
    have "pow2 k \<le> pow2 (j + 53)" using low up by linarith
    then have kj: "k = j + 53" using False by simp
    then have "x = pow2 k" using low up by simp
    then have "x / pow2 (k - 52) = real_of_int (2 ^ 52)"
      using pow2_add [of 52 "k - 52"] by (simp add: pow2_52)
    then have "fl x = real_of_int (2 ^ 52) * pow2 (k - 52)"
      unfolding eq by (simp only: roundEven_of_int)
    also have "\<dots> = pow2 k" using pow2_add [of 52 "k - 52"] by (simp add: pow2_52)
    finally show ?thesis using \<open>x = pow2 k\<close> by (simp add: x_def)
  qed
qed

lemma fl_representable:
  assumes "\<bar>m\<bar> \<le> 2 ^ 53" and "- 1074 \<le> j"
  shows "fl (real_of_int m * pow2 j) = real_of_int m * pow2 j"
proof -
  consider "0 < m" | "m = 0" | "m < 0" by linarith
  then show ?thesis
  proof cases
    case 1
    then show ?thesis using assms by (intro fl_representable_pos) simp_all
  next
    case 2
    then show ?thesis by simp
  next
    case 3
    then have "fl (real_of_int (- m) * pow2 j) = real_of_int (- m) * pow2 j"
      using assms by (intro fl_representable_pos) simp_all
    then show ?thesis using fl_minus [of "real_of_int m * pow2 j"] by simp
  qed
qed

lemma fl_idem [simp]: "fl (fl x) = fl x"
proof (cases "x = 0")
  case True
  then show ?thesis by simp
next
  case False
  have pos: "fl (fl y) = fl y" if "0 < y" for y
  proof -
    have eq: "fl y = real_of_int (roundEven (y / pow2 (binade y - 52))) * pow2 (binade y - 52)"
      using that by (simp add: fl_def)
    have "\<bar>roundEven (y / pow2 (binade y - 52))\<bar> \<le> 2 ^ 53"
      using roundEven_scaled(1,2) [OF that] by simp
    moreover have "- 1074 \<le> binade y - 52" using binade_ge [of y] by linarith
    ultimately show ?thesis unfolding eq by (rule fl_representable)
  qed
  show ?thesis
  proof (cases "0 < x")
    case True
    then show ?thesis by (rule pos)
  next
    case neg: False
    then have "fl (fl (- x)) = fl (- x)" using False by (intro pos) simp
    then show ?thesis by (simp add: fl_minus)
  qed
qed

lemma fl_error:
  "\<bar>fl x - x\<bar> \<le> \<bar>x\<bar> * pow2 (- 53) + pow2 (- 1075)"
proof (cases "x = 0")
  case True
  then show ?thesis by simp
next
  case False
  define q where "q = pow2 (binade x - 52)"
  have q: "0 < q" by (simp add: q_def)
  have "fl x - x = (real_of_int (roundEven (x / q)) - x / q) * q"
    using False q by (simp add: fl_def q_def field_simps)
  then have "\<bar>fl x - x\<bar> = \<bar>real_of_int (roundEven (x / q)) - x / q\<bar> * q"
    using q by (simp add: abs_mult)
  also have "\<dots> \<le> (1 / 2) * q"
    using roundEven_error [of "x / q"] q by (intro mult_right_mono) simp_all
  also have "(1 / 2) * q = pow2 (binade x - 53)"
    using pow2_add [of "- 1" "binade x - 52"] pow2_neg [of 1] pow2_nat [of 1]
    by (simp add: q_def)
  finally have err: "\<bar>fl x - x\<bar> \<le> pow2 (binade x - 53)" .
  show ?thesis
  proof (cases "binade x = - 1022")
    case True
    then have "\<bar>fl x - x\<bar> \<le> pow2 (- 1075)" using err by simp
    moreover have "0 \<le> \<bar>x\<bar> * pow2 (- 53)" by simp
    ultimately show ?thesis by linarith
  next
    case normal: False
    have "pow2 (binade x - 53) = pow2 (binade x) * pow2 (- 53)"
      using pow2_add [of "binade x" "- 53"] by simp
    also have "\<dots> \<le> \<bar>x\<bar> * pow2 (- 53)"
      using binade_lower [OF False normal] by (intro mult_right_mono) simp_all
    finally have "\<bar>fl x - x\<bar> \<le> \<bar>x\<bar> * pow2 (- 53)" using err by linarith
    moreover have "0 \<le> pow2 (- 1075)" by simp
    ultimately show ?thesis by linarith
  qed
qed

lemma pow2_numeral:
  "pow2 (numeral n) = 2 ^ numeral n" "pow2 (- numeral n) = 1 / 2 ^ numeral n" "pow2 1 = 2"
  "pow2 (- 1) = 1 / 2"
  using pow2_nat [of "numeral n"] pow2_neg [of "numeral n"] pow2_nat [of 1] pow2_neg [of 1]
  by simp_all

lemma fl_eval:
  assumes "pow2 k \<le> \<bar>x\<bar>" and "\<bar>x\<bar> < pow2 (k + 1)" and "- 1022 \<le> k"
  shows "fl x = real_of_int (roundEven (x / pow2 (k - 52))) * pow2 (k - 52)"
proof -
  have "0 < \<bar>x\<bar>" using assms(1) pow2_pos [of k] by linarith
  then have "x \<noteq> 0" by simp
  then show ?thesis using binade_eq [OF assms] by (simp add: fl_def)
qed

lemma fl_one [simp]: "fl 1 = 1"
  using fl_representable [of 1 0] by simp

lemma fl_unit: "0 \<le> x \<Longrightarrow> x \<le> 1 \<Longrightarrow> 0 \<le> fl x \<and> fl x \<le> 1"
  using fl_mono [of 0 x] fl_mono [of x 1] by simp

lemma Math_pow_unit_interval:
  assumes "0 \<le> b" and "b \<le> 1" and "0 \<le> e"
  shows "0 \<le> Math_pow b e" and "Math_pow b e \<le> 1"
proof -
  show "0 \<le> Math_pow b e" by (simp add: Math_pow_def)
  show "Math_pow b e \<le> 1"
  proof (cases "e = 0 \<or> b = 0")
    case True
    then show ?thesis by (auto simp: Math_pow_def)
  next
    case False
    then have "b powr e \<le> b powr 0" using assms by (intro powr_mono') simp_all
    then show ?thesis using False assms by (simp add: Math_pow_def)
  qed
qed

lemma unitPow_Math_pow64: "unitPow Math_pow64"
  unfolding unitPow_def Math_pow64_def
  using Math_pow_unit_interval fl_unit by blast

text \<open>The smoothing factor of a step lies in the unit interval.\<close>

lemma adjustedFactor_unit:
  assumes "unitPow pw" and "0 < r" and "r < 1" and "0 \<le> dt"
  shows "0 \<le> fl (1 - pw (fl (1 - r)) (fl (dt * 60)))"
    and "fl (1 - pw (fl (1 - r)) (fl (dt * 60))) \<le> 1"
proof -
  have b: "0 \<le> fl (1 - r) \<and> fl (1 - r) \<le> 1" using assms(2,3) by (intro fl_unit) simp_all
  have e: "0 \<le> fl (dt * 60)" using assms(4) by (intro fl_nonneg) simp
  have p: "0 \<le> pw (fl (1 - r)) (fl (dt * 60)) \<and> pw (fl (1 - r)) (fl (dt * 60)) \<le> 1"
    using assms(1) b e unfolding unitPow_def by blast
  then have "0 \<le> fl (1 - pw (fl (1 - r)) (fl (dt * 60)))
      \<and> fl (1 - pw (fl (1 - r)) (fl (dt * 60))) \<le> 1"
    by (intro fl_unit) simp_all
  then show "0 \<le> fl (1 - pw (fl (1 - r)) (fl (dt * 60)))"
    and "fl (1 - pw (fl (1 - r)) (fl (dt * 60))) \<le> 1" by simp_all
qed

lemma smoothLerp64_enclosed:
  assumes "unitPow pw" and "0 < r" and "r < 1" and "0 \<le> dt" and "fl c = c"
  shows "c \<le> t \<Longrightarrow> c \<le> smoothLerp64 pw c t r dt
           \<and> smoothLerp64 pw c t r dt \<le> fl (c + fl (t - c))"
    and "t \<le> c \<Longrightarrow> fl (c + fl (t - c)) \<le> smoothLerp64 pw c t r dt
           \<and> smoothLerp64 pw c t r dt \<le> c"
proof -
  define a where "a = fl (1 - pw (fl (1 - r)) (fl (dt * 60)))"
  define d where "d = fl (t - c)"
  have a: "0 \<le> a" "a \<le> 1" using adjustedFactor_unit [OF assms(1-4)] by (simp_all add: a_def)
  have res: "smoothLerp64 pw c t r dt = fl (c + fl (d * a))"
    by (simp add: smoothLerp64_def a_def d_def)
  have dd: "fl d = d" by (simp add: d_def)
  {
    assume "c \<le> t"
    then have d0: "0 \<le> d" unfolding d_def by (intro fl_nonneg) simp
    have "0 \<le> d * a" "d * a \<le> d" using d0 a by (simp_all add: mult_left_le)
    then have m: "0 \<le> fl (d * a)" "fl (d * a) \<le> d"
      using fl_nonneg [of "d * a"] fl_mono [of "d * a" d] dd by simp_all
    have "fl (c + 0) \<le> fl (c + fl (d * a))" "fl (c + fl (d * a)) \<le> fl (c + d)"
      using m by (intro fl_mono; simp)+
    then show "c \<le> smoothLerp64 pw c t r dt
           \<and> smoothLerp64 pw c t r dt \<le> fl (c + fl (t - c))"
      using assms(5) by (simp add: res d_def)
  }
  {
    assume "t \<le> c"
    then have d0: "d \<le> 0" unfolding d_def by (intro fl_nonpos) simp
    have "(- d) * a \<le> - d" using d0 a by (intro mult_left_le) simp_all
    then have "d * a \<le> 0" "d \<le> d * a" using d0 a by (simp_all add: mult_le_0_iff)
    then have m: "fl (d * a) \<le> 0" "d \<le> fl (d * a)"
      using fl_nonpos [of "d * a"] fl_mono [of d "d * a"] dd by simp_all
    have "fl (c + fl (d * a)) \<le> fl (c + 0)" "fl (c + d) \<le> fl (c + fl (d * a))"
      using m by (intro fl_mono; simp)+
    then show "fl (c + fl (t - c)) \<le> smoothLerp64 pw c t r dt
           \<and> smoothLerp64 pw c t r dt \<le> c"
      using assms(5) by (simp add: res d_def)
  }
qed

text \<open>
  How far the binary64 value of \<open>c + (t - c)\<close> is from \<open>t\<close>: the rounding of the
  difference and the rounding of the sum.
\<close>

lemma round_trip_error:
  "\<bar>fl (c + fl (t - c)) - t\<bar>
     \<le> \<bar>t - c\<bar> * pow2 (- 52) + \<bar>t\<bar> * pow2 (- 53) + pow2 (- 1073)"
proof -
  define u where "u = pow2 (- 53)"
  define h where "h = pow2 (- 1075)"
  define e1 where "e1 = fl (t - c) - (t - c)"
  have u: "0 \<le> u" "u \<le> 1" by (simp_all add: u_def pow2_numeral)
  have h: "0 \<le> h" by (simp add: h_def)
  have e1: "\<bar>e1\<bar> \<le> \<bar>t - c\<bar> * u + h"
    unfolding e1_def u_def h_def by (rule fl_error)
  have sum: "c + fl (t - c) = t + e1" by (simp add: e1_def)
  have "\<bar>fl (t + e1) - (t + e1)\<bar> \<le> \<bar>t + e1\<bar> * u + h"
    unfolding u_def h_def by (rule fl_error)
  also have "\<bar>t + e1\<bar> * u \<le> (\<bar>t\<bar> + \<bar>e1\<bar>) * u"
    using u by (intro mult_right_mono) simp_all
  finally have e2: "\<bar>fl (t + e1) - (t + e1)\<bar> \<le> (\<bar>t\<bar> + \<bar>e1\<bar>) * u + h" by simp
  have "\<bar>e1\<bar> * u \<le> \<bar>e1\<bar> * 1" using u by (intro mult_left_mono) simp_all
  then have "\<bar>fl (t + e1) - t\<bar> \<le> 2 * \<bar>e1\<bar> + \<bar>t\<bar> * u + h"
    using e2 by (simp add: algebra_simps)
  then have "\<bar>fl (t + e1) - t\<bar> \<le> 2 * (\<bar>t - c\<bar> * u) + \<bar>t\<bar> * u + 3 * h"
    using e1 by linarith
  moreover have "2 * u = pow2 (- 52)" "4 * h = pow2 (- 1073)"
    using pow2_add [of 1 "- 53"] pow2_add [of 2 "- 1075"]
    by (simp_all add: u_def h_def pow2_numeral)
  ultimately have "\<bar>fl (t + e1) - t\<bar> \<le> \<bar>t - c\<bar> * pow2 (- 52) + \<bar>t\<bar> * u + pow2 (- 1073)"
  proof -
    assume b: "\<bar>fl (t + e1) - t\<bar> \<le> 2 * (\<bar>t - c\<bar> * u) + \<bar>t\<bar> * u + 3 * h"
      and p: "2 * u = pow2 (- 52)" and q: "4 * h = pow2 (- 1073)"
    have "2 * (\<bar>t - c\<bar> * u) = \<bar>t - c\<bar> * (2 * u)" by simp
    then have "2 * (\<bar>t - c\<bar> * u) = \<bar>t - c\<bar> * pow2 (- 52)" unfolding p .
    moreover have "3 * h \<le> pow2 (- 1073)" using h q by linarith
    ultimately show ?thesis using b by linarith
  qed
  then show ?thesis by (simp add: sum u_def)
qed

text \<open>
  How far the binary64 result of a step is from the exact value of
  \<open>c + (t - c) * a\<close>, for a smoothing factor \<open>a\<close> in the unit interval: the roundings
  of the difference, of the product and of the sum.
\<close>

lemma smoothLerp64_error:
  assumes "0 \<le> a" and "a \<le> 1"
  shows "\<bar>fl (c + fl (fl (t - c) * a)) - (c + (t - c) * a)\<bar>
     \<le> \<bar>t - c\<bar> * pow2 (- 50) + \<bar>c\<bar> * pow2 (- 53) + pow2 (- 1072)"
proof -
  define u where "u = pow2 (- 53)"
  define h where "h = pow2 (- 1075)"
  define d where "d = fl (t - c)"
  define p where "p = fl (d * a)"
  define e1 where "e1 = d - (t - c)"
  define e2 where "e2 = p - d * a"
  define e3 where "e3 = fl (c + p) - (c + p)"
  have u: "0 \<le> u" "u \<le> 1" by (simp_all add: u_def pow2_numeral)
  have h: "0 \<le> h" by (simp add: h_def)
  have b1: "\<bar>e1\<bar> \<le> \<bar>t - c\<bar> * u + h"
    unfolding e1_def d_def u_def h_def by (rule fl_error)
  have "d = (t - c) + e1" by (simp add: e1_def)
  then have "\<bar>d\<bar> \<le> \<bar>t - c\<bar> + \<bar>e1\<bar>" using abs_triangle_ineq [of "t - c" e1] by simp
  then have "\<bar>d\<bar> * u \<le> (\<bar>t - c\<bar> + \<bar>e1\<bar>) * u" using u by (intro mult_right_mono) simp_all
  moreover have "\<bar>e1\<bar> * u \<le> \<bar>e1\<bar> * 1" using u by (intro mult_left_mono) simp_all
  ultimately have du: "\<bar>d\<bar> * u \<le> \<bar>t - c\<bar> * u + \<bar>e1\<bar>" by (simp add: algebra_simps)
  have da: "\<bar>d * a\<bar> \<le> \<bar>d\<bar>"
    using assms mult_left_le [of a "\<bar>d\<bar>"] by (simp add: abs_mult)
  have "\<bar>e2\<bar> \<le> \<bar>d * a\<bar> * u + h"
    unfolding e2_def p_def u_def h_def by (rule fl_error)
  also have "\<bar>d * a\<bar> * u \<le> \<bar>d\<bar> * u" using da u by (intro mult_right_mono) simp_all
  finally have b2: "\<bar>e2\<bar> \<le> \<bar>d\<bar> * u + h" by simp
  have "p = d * a + e2" by (simp add: e2_def)
  then have "\<bar>p\<bar> \<le> \<bar>d * a\<bar> + \<bar>e2\<bar>" using abs_triangle_ineq [of "d * a" e2] by simp
  then have "\<bar>p\<bar> \<le> \<bar>d\<bar> + \<bar>e2\<bar>" using da by linarith
  then have "\<bar>p\<bar> * u \<le> (\<bar>d\<bar> + \<bar>e2\<bar>) * u" using u by (intro mult_right_mono) simp_all
  moreover have "\<bar>e2\<bar> * u \<le> \<bar>e2\<bar> * 1" using u by (intro mult_left_mono) simp_all
  ultimately have pu: "\<bar>p\<bar> * u \<le> \<bar>d\<bar> * u + \<bar>e2\<bar>" by (simp add: algebra_simps)
  have "\<bar>e3\<bar> \<le> \<bar>c + p\<bar> * u + h"
    unfolding e3_def u_def h_def by (rule fl_error)
  also have "\<bar>c + p\<bar> * u \<le> (\<bar>c\<bar> + \<bar>p\<bar>) * u"
    using u by (intro mult_right_mono) simp_all
  finally have b3: "\<bar>e3\<bar> \<le> \<bar>c\<bar> * u + \<bar>p\<bar> * u + h" by (simp add: algebra_simps)
  have "\<bar>e1 * a\<bar> \<le> \<bar>e1\<bar>"
    using assms mult_left_le [of a "\<bar>e1\<bar>"] by (simp add: abs_mult)
  moreover have "fl (c + p) - (c + (t - c) * a) = e1 * a + e2 + e3"
    by (simp add: e1_def e2_def e3_def algebra_simps)
  moreover have "\<bar>e1 * a + e2 + e3\<bar> \<le> \<bar>e1 * a\<bar> + \<bar>e2\<bar> + \<bar>e3\<bar>" by linarith
  ultimately have total: "\<bar>fl (c + p) - (c + (t - c) * a)\<bar> \<le> \<bar>e1\<bar> + \<bar>e2\<bar> + \<bar>e3\<bar>"
    by linarith
  define Du where "Du = \<bar>t - c\<bar> * u"
  define Cu where "Cu = \<bar>c\<bar> * u"
  define Ddu where "Ddu = \<bar>d\<bar> * u"
  define Pu where "Pu = \<bar>p\<bar> * u"
  have "0 \<le> Du" using u by (simp add: Du_def)
  moreover have "\<bar>e1\<bar> \<le> Du + h" "Ddu \<le> Du + \<bar>e1\<bar>" "\<bar>e2\<bar> \<le> Ddu + h" "Pu \<le> Ddu + \<bar>e2\<bar>"
    "\<bar>e3\<bar> \<le> Cu + Pu + h"
    using b1 du b2 pu b3 by (simp_all only: Du_def Cu_def Ddu_def Pu_def)
  ultimately have "\<bar>e1\<bar> + \<bar>e2\<bar> + \<bar>e3\<bar> \<le> 8 * Du + Cu + 8 * h" using h by linarith
  moreover have "8 * u = pow2 (- 50)" "8 * h = pow2 (- 1072)"
    using pow2_add [of 3 "- 53"] pow2_add [of 3 "- 1075"]
    by (simp_all add: u_def h_def pow2_numeral)
  moreover have "8 * Du = \<bar>t - c\<bar> * (8 * u)" by (simp add: Du_def)
  ultimately have "\<bar>e1\<bar> + \<bar>e2\<bar> + \<bar>e3\<bar>
      \<le> \<bar>t - c\<bar> * pow2 (- 50) + \<bar>c\<bar> * pow2 (- 53) + pow2 (- 1072)"
    by (simp add: Cu_def u_def)
  then show ?thesis using total by (simp add: p_def d_def)
qed

lemma fl_half [simp]: "fl (1 / 2) = 1 / 2"
  using fl_representable [of 1 "- 1"] by (simp add: pow2_numeral)

subsection \<open>One smoothing step in binary64\<close>

text \<open>
  C2, as amended. In binary64, with a \<^verbatim>\<open>Math.pow\<close> that takes a base in \<open>[0, 1]\<close>
  and an exponent \<open>\<ge> 0\<close> into \<open>[0, 1]\<close>, for a rate in \<open>(0, 1)\<close>, a frame duration
  in \<open>[0, 2 ^ 1000]\<close> and binary64 values current and target of magnitude at most
  \<open>2 ^ 1022\<close>, the smoothing step returns
  \<open>current + (target - current) * (1 - (1 - rate) ^ (deltaTime * 60))\<close> with every
  operation rounded. The smoothing factor lies in \<open>[0, 1]\<close>, and the result differs from
  the exact value of \<open>current + (target - current) * factor\<close> by at most
  \<open>\<bar>target - current\<bar> / 2 ^ 50 + \<bar>current\<bar> / 2 ^ 53 + 1 / 2 ^ 1072\<close>. The result lies
  between current and the rounded value of \<open>current + (target - current)\<close> inclusive: it
  never moves away from the target, and it passes the target by at most
  \<open>\<bar>target - current\<bar> / 2 ^ 52 + \<bar>target\<bar> / 2 ^ 53 + 1 / 2 ^ 1073\<close>, which bounds the
  distance of that rounded value from the target. When \<open>target - current\<close> is a binary64
  value, the result lies between current and target inclusive and is no further from the
  target than current was.
\<close>

theorem smoothLerp64_between:
  assumes "unitPow pw" and "0 < rate" and "rate < 1" and "0 \<le> dt" and "dt \<le> 2 ^ 1000"
    and "fl current = current" and "fl target = target"
    and "\<bar>current\<bar> \<le> 2 ^ 1022" and "\<bar>target\<bar> \<le> 2 ^ 1022"
  shows "smoothLerp64 pw current target rate dt
           = fl (current + fl (fl (target - current)
                               * fl (1 - pw (fl (1 - rate)) (fl (dt * 60)))))
       \<and> 0 \<le> fl (1 - pw (fl (1 - rate)) (fl (dt * 60)))
       \<and> fl (1 - pw (fl (1 - rate)) (fl (dt * 60))) \<le> 1
       \<and> \<bar>smoothLerp64 pw current target rate dt
            - (current + (target - current) * fl (1 - pw (fl (1 - rate)) (fl (dt * 60))))\<bar>
            \<le> \<bar>target - current\<bar> / 2 ^ 50 + \<bar>current\<bar> / 2 ^ 53 + 1 / 2 ^ 1072
       \<and> min current (fl (current + fl (target - current)))
            \<le> smoothLerp64 pw current target rate dt
       \<and> smoothLerp64 pw current target rate dt
            \<le> max current (fl (current + fl (target - current)))
       \<and> (current \<le> target \<longrightarrow>
            current \<le> smoothLerp64 pw current target rate dt
          \<and> smoothLerp64 pw current target rate dt
              \<le> target + (\<bar>target - current\<bar> / 2 ^ 52 + \<bar>target\<bar> / 2 ^ 53 + 1 / 2 ^ 1073))
       \<and> (target \<le> current \<longrightarrow>
            target - (\<bar>target - current\<bar> / 2 ^ 52 + \<bar>target\<bar> / 2 ^ 53 + 1 / 2 ^ 1073)
              \<le> smoothLerp64 pw current target rate dt
          \<and> smoothLerp64 pw current target rate dt \<le> current)
       \<and> \<bar>fl (current + fl (target - current)) - target\<bar>
            \<le> \<bar>target - current\<bar> / 2 ^ 52 + \<bar>target\<bar> / 2 ^ 53 + 1 / 2 ^ 1073
       \<and> (fl (target - current) = target - current \<longrightarrow>
            min current target \<le> smoothLerp64 pw current target rate dt
          \<and> smoothLerp64 pw current target rate dt \<le> max current target
          \<and> \<bar>target - smoothLerp64 pw current target rate dt\<bar> \<le> \<bar>target - current\<bar>)"
proof -
  define B where "B = \<bar>target - current\<bar> / 2 ^ 52 + \<bar>target\<bar> / 2 ^ 53 + 1 / 2 ^ 1073"
  define E where "E = fl (current + fl (target - current))"
  define L where "L = smoothLerp64 pw current target rate dt"
  note enc = smoothLerp64_enclosed [OF assms(1-4) assms(6), of target, folded E_def L_def]
  have formula: "L = fl (current + fl (fl (target - current)
                               * fl (1 - pw (fl (1 - rate)) (fl (dt * 60)))))"
    by (simp add: L_def smoothLerp64_def)
  note unit = adjustedFactor_unit [OF assms(1-4)]
  have close: "\<bar>L - (current + (target - current) * fl (1 - pw (fl (1 - rate)) (fl (dt * 60))))\<bar>
            \<le> \<bar>target - current\<bar> / 2 ^ 50 + \<bar>current\<bar> / 2 ^ 53 + 1 / 2 ^ 1072"
    using smoothLerp64_error [OF unit, of current target]
    by (simp add: formula pow2_numeral)
  have between: "min current E \<le> L \<and> L \<le> max current E"
    using enc by (cases "current \<le> target") auto
  have err: "\<bar>E - target\<bar> \<le> B"
    using round_trip_error [of current target] by (simp add: pow2_numeral B_def E_def)
  have up: "current \<le> target \<longrightarrow> current \<le> L \<and> L \<le> target + B"
    using enc(1) err by auto
  have down: "target \<le> current \<longrightarrow> target - B \<le> L \<and> L \<le> current"
    using enc(2) err by auto
  have exact: "min current target \<le> L \<and> L \<le> max current target
          \<and> \<bar>target - L\<bar> \<le> \<bar>target - current\<bar>"
    if "fl (target - current) = target - current"
  proof -
    have "E = target" using that assms(7) by (simp add: E_def)
    then show ?thesis using enc by (cases "current \<le> target") auto
  qed
  show ?thesis
    using formula unit close between up down err exact
    unfolding L_def E_def B_def by blast
qed

text \<open>The step at rate 1/2 over one sixty-fourth of a second, from 0 towards 1.\<close>

theorem smoothLerp64_between_witness:
  "0 \<le> smoothLerp64 Math_pow64 0 1 (1 / 2) (1 / 64)
   \<and> smoothLerp64 Math_pow64 0 1 (1 / 2) (1 / 64) \<le> 1"
proof -
  have "fl (1 - 0) = 1 - (0::real)" by simp
  moreover have "(1 / 64 :: real) \<le> 2 ^ 1000"
  proof -
    have "(1::real) \<le> 2 ^ 1000" by (rule one_le_power) simp
    then show ?thesis by linarith
  qed
  moreover have "\<bar>1 :: real\<bar> \<le> 2 ^ 1022" "\<bar>0 :: real\<bar> \<le> 2 ^ 1022"
    using one_le_power [of "2 :: real" 1022] by simp_all
  ultimately show ?thesis
    using smoothLerp64_between [OF unitPow_Math_pow64, of "1 / 2" "1 / 64" 0 1] by simp
qed

lemma fl_fifth: "fl (1 / 5) = 3602879701896397 / 2 ^ 54"
proof -
  have "fl (1 / 5) = real_of_int (roundEven ((1 / 5) / pow2 (- 3 - 52))) * pow2 (- 3 - 52)"
    by (rule fl_eval) (simp_all add: pow2_numeral)
  also have "roundEven ((1 / 5) / pow2 (- 3 - 52)) = 7205759403792794"
    by (simp add: pow2_numeral roundEven_def)
  finally show ?thesis by (simp add: pow2_numeral)
qed

lemma fl_twentieth: "fl (1 / 20) = 3602879701896397 / 2 ^ 56"
proof -
  have "fl (1 / 20) = real_of_int (roundEven ((1 / 20) / pow2 (- 5 - 52))) * pow2 (- 5 - 52)"
    by (rule fl_eval) (simp_all add: pow2_numeral)
  also have "roundEven ((1 / 20) / pow2 (- 5 - 52)) = 7205759403792794"
    by (simp add: pow2_numeral roundEven_def)
  finally show ?thesis by (simp add: pow2_numeral)
qed

lemma fl_difference:
  "fl (3602879701896397 / 2 ^ 56 - 3602879701896397 / 2 ^ 54) = - (10808639105689192 / 2 ^ 56)"
proof -
  define x :: real where "x = 3602879701896397 / 2 ^ 56 - 3602879701896397 / 2 ^ 54"
  have x: "x = - (10808639105689191 / 2 ^ 56)" by (simp add: x_def)
  have "fl x = real_of_int (roundEven (x / pow2 (- 3 - 52))) * pow2 (- 3 - 52)"
    by (rule fl_eval) (simp_all add: x pow2_numeral)
  also have "roundEven (x / pow2 (- 3 - 52)) = - 5404319552844596"
    by (simp add: x pow2_numeral roundEven_def)
  finally show ?thesis by (simp add: pow2_numeral x_def)
qed

lemma fl_sum:
  "fl (3602879701896397 / 2 ^ 54 + - (10808639105689192 / 2 ^ 56)) = 3602879701896396 / 2 ^ 56"
proof -
  have "fl (real_of_int 3602879701896396 * pow2 (- 56)) = real_of_int 3602879701896396 * pow2 (- 56)"
    by (rule fl_representable) simp_all
  then show ?thesis by (simp add: pow2_numeral)
qed

text \<open>A power small enough leaves the smoothing factor at 1.\<close>

lemma fl_near_one:
  assumes "0 \<le> p" and "p \<le> 1 / 2 ^ 120"
  shows "fl (1 - p) = 1"
proof -
  have low: "fl (1 - 1 / 2 ^ 120) = 1"
  proof -
    define x :: real where "x = 1 - 1 / 2 ^ 120"
    have "fl x = real_of_int (roundEven (x / pow2 (- 1 - 52))) * pow2 (- 1 - 52)"
      by (rule fl_eval) (simp_all add: x_def pow2_numeral)
    also have "roundEven (x / pow2 (- 1 - 52)) = 2 ^ 53"
      by (simp add: x_def pow2_numeral roundEven_def)
    finally show ?thesis by (simp add: pow2_numeral x_def)
  qed
  have "fl (1 - 1 / 2 ^ 120) \<le> fl (1 - p)" "fl (1 - p) \<le> fl 1"
    using assms by (intro fl_mono; simp)+
  then show ?thesis using low by simp
qed

lemma three_quarters_300: "(3 / 4 :: real) ^ 300 \<le> 1 / 2 ^ 120"
proof -
  have "(3 / 4 :: real) ^ 300 = ((3 / 4) ^ 5) ^ 60" by (simp add: power_mult [symmetric])
  also have "\<dots> \<le> (1 / 4) ^ 60" by (rule power_mono) (simp_all add: power_divide)
  also have "(1 / 4 :: real) ^ 60 = 1 / 2 ^ 120"
  proof -
    have "(4 :: real) ^ 60 = (2 ^ 2) ^ 60" by simp
    also have "\<dots> = 2 ^ 120" by (simp only: power_mult [symmetric]) simp
    finally show ?thesis by (simp add: power_divide)
  qed
  finally show ?thesis .
qed

lemma fl_exact_values:
  "fl (3 / 4) = 3 / 4" "fl 300 = 300" "fl (1 / 4) = 1 / 4"
  using fl_representable [of 3 "- 2"] fl_representable [of 300 0] fl_representable [of 1 "- 2"]
  by (simp_all add: pow2_numeral)

lemma factor_one: "fl (1 - Math_pow64 (fl (1 - 1 / 4)) (fl (5 * 60))) = 1"
proof -
  have "Math_pow (3 / 4) 300 = (3 / 4) ^ 300" by (simp add: Math_pow_def)
  then have small: "Math_pow (3 / 4) 300 \<le> 1 / 2 ^ 120" using three_quarters_300 by simp
  have "fl (Math_pow (3 / 4) 300) \<le> fl (real_of_int 1 * pow2 (- 120))"
    using small by (intro fl_mono) (simp add: pow2_numeral)
  also have "\<dots> = real_of_int 1 * pow2 (- 120)" by (rule fl_representable) simp_all
  finally have up: "Math_pow64 (3 / 4) 300 \<le> 1 / 2 ^ 120"
    by (simp add: Math_pow64_def pow2_numeral)
  have "0 \<le> Math_pow (3 / 4) 300" by (simp add: Math_pow_def)
  then have low: "0 \<le> Math_pow64 (3 / 4) 300" unfolding Math_pow64_def by (rule fl_nonneg)
  show ?thesis using fl_near_one [OF low up] by (simp add: fl_exact_values)
qed

text \<open>
  From 0.2 towards 0.05 at rate 0.25 over 5 seconds: \<open>0.75 ^ 300\<close> is below half a unit
  in the last place of 1, so the smoothing factor is 1 and the step returns the rounded
  value of \<open>0.2 + (0.05 - 0.2)\<close>, which is 0.04999999999999999, below
  the target 0.05 by \<open>1 / 2 ^ 56\<close>.
\<close>

theorem binary64_overshoot_counterexample:
  "fl (1 / 5) = 3602879701896397 / 2 ^ 54
   \<and> fl (1 / 20) = 3602879701896397 / 2 ^ 56
   \<and> fl (1 / 4) = 1 / 4
   \<and> smoothLerp64 Math_pow64 (fl (1 / 5)) (fl (1 / 20)) (1 / 4) 5 = 3602879701896396 / 2 ^ 56
   \<and> smoothLerp64 Math_pow64 (fl (1 / 5)) (fl (1 / 20)) (1 / 4) 5 < fl (1 / 20)
   \<and> fl (1 / 20) < fl (1 / 5)"
proof -
  have "smoothLerp64 Math_pow64 (fl (1 / 5)) (fl (1 / 20)) (1 / 4) 5
      = fl (fl (1 / 5) + fl (fl (fl (1 / 20) - fl (1 / 5)) * 1))"
    unfolding smoothLerp64_def Let_def factor_one ..
  also have "\<dots> = fl (fl (1 / 5) + fl (fl (1 / 20) - fl (1 / 5)))" by simp
  also have "\<dots> = 3602879701896396 / 2 ^ 56"
    unfolding fl_fifth fl_twentieth fl_difference fl_sum ..
  finally have r: "smoothLerp64 Math_pow64 (fl (1 / 5)) (fl (1 / 20)) (1 / 4) 5
      = 3602879701896396 / 2 ^ 56" .
  show ?thesis unfolding r by (simp add: fl_fifth fl_twentieth fl_exact_values)
qed

subsection \<open>A run of smoothing steps in binary64\<close>


lemma smoothLerp64_double [simp]: "fl (smoothLerp64 pw c t r dt) = smoothLerp64 pw c t r dt"
  by (simp add: smoothLerp64_def)









lemma detectSpeech_isSpeaking:
  "isSpeaking (detectSpeech v s) = (v > (if isSpeaking s then 0.015 else 0.025))"
  by (simp add: detectSpeech_def Let_def)

lemma detectSpeech_target:
  "targetSpeechIntensity (detectSpeech v s)
     = (if isSpeaking (detectSpeech v s) then min (v * 2) 1 else 0)"
  by (simp add: detectSpeech_def Let_def)

lemma detectRun_stays_speaking:
  "isSpeaking s \<Longrightarrow> \<forall>v \<in> set vs. 0.015 < v \<Longrightarrow> \<forall>s' \<in> set (detectRun s vs). isSpeaking s'"
proof (induction vs arbitrary: s)
  case Nil
  then show ?case by simp
next
  case (Cons v vs)
  have sp: "isSpeaking (detectSpeech v s)"
    using Cons.prems by (simp add: detectSpeech_isSpeaking)
  have "\<forall>s' \<in> set (detectRun (detectSpeech v s) vs). isSpeaking s'"
    using Cons.IH [OF sp] Cons.prems(2) by simp
  then show ?case using sp by simp
qed

text \<open>
  C1, as amended. Entering Speaking from Silent takes a volume above 0.025, remaining
  Speaking only one above 0.015, and the intensity target of a frame is
  \<open>min (volume * 2) 1\<close> when the frame is classified as speaking and 0 otherwise. So a
  signal that stays above 0.015, such as one oscillating between 0.018 and 0.022, never
  leaves Speaking once entered; 0.03, 0.016, 0.01 gives Speaking, Speaking, Silent; and
  0, 0, 0.03, 0.03, 0.03, 0.02, 0.016, 0.01 gives F, F, T, T, T, T, T, F with the targets
  0, 0, 0.06, 0.06, 0.06, 0.04, 0.032, 0.
\<close>

theorem detectSpeech_hysteresis:
  "(\<not> isSpeaking s \<longrightarrow> (isSpeaking (detectSpeech v s) \<longleftrightarrow> 0.025 < v))
   \<and> (isSpeaking s \<longrightarrow> (isSpeaking (detectSpeech v s) \<longleftrightarrow> 0.015 < v))
   \<and> targetSpeechIntensity (detectSpeech v s)
        = (if isSpeaking (detectSpeech v s) then min (v * 2) 1 else 0)
   \<and> (isSpeaking s \<and> (\<forall>u \<in> set vs. 0.015 < u)
        \<longrightarrow> (\<forall>s' \<in> set (detectRun s vs). isSpeaking s'))
   \<and> map isSpeaking (detectRun s [0.03, 0.016, 0.01]) = [True, True, False]
   \<and> map isSpeaking (detectRun s [0, 0, 0.03, 0.03, 0.03, 0.02, 0.016, 0.01])
        = [False, False, True, True, True, True, True, False]
   \<and> map targetSpeechIntensity (detectRun s [0, 0, 0.03, 0.03, 0.03, 0.02, 0.016, 0.01])
        = [0, 0, 0.06, 0.06, 0.06, 0.04, 0.032, 0]"
proof -
  have a: "map isSpeaking (detectRun s [0.03, 0.016, 0.01]) = [True, True, False]"
    by (simp add: detectSpeech_isSpeaking)
  have b: "map isSpeaking (detectRun s [0, 0, 0.03, 0.03, 0.03, 0.02, 0.016, 0.01])
        = [False, False, True, True, True, True, True, False]"
    by (simp add: detectSpeech_isSpeaking)
  have c: "map targetSpeechIntensity (detectRun s [0, 0, 0.03, 0.03, 0.03, 0.02, 0.016, 0.01])
        = [0, 0, 0.06, 0.06, 0.06, 0.04, 0.032, 0]"
    by (simp add: detectSpeech_isSpeaking detectSpeech_target)
  show ?thesis
    using a b c detectRun_stays_speaking [of s vs]
    by (simp add: detectSpeech_isSpeaking detectSpeech_target)
qed

text \<open>A signal oscillating between 0.018 and 0.022, fed after Speaking was entered at 0.03.\<close>

theorem detectSpeech_hysteresis_witness:
  "isSpeaking (detectSpeech 0.03 (initialState 0))
   \<and> \<not> isSpeaking (detectSpeech 0.022 (initialState 0))
   \<and> list_all isSpeaking
        (detectRun (detectSpeech 0.03 (initialState 0)) [0.018, 0.022, 0.018, 0.022])"
proof -
  have sp: "isSpeaking (detectSpeech 0.03 (initialState 0))"
    by (simp add: detectSpeech_def initialState_def)
  have ns: "\<not> isSpeaking (initialState 0)" by (simp add: initialState_def)
  have "\<forall>s' \<in> set (detectRun (detectSpeech 0.03 (initialState 0)) [0.018, 0.022, 0.018, 0.022]).
          isSpeaking s'"
    using detectSpeech_hysteresis
      [of "detectSpeech 0.03 (initialState 0)" "0" "[0.018, 0.022, 0.018, 0.022]"] sp
    by simp
  moreover have "\<not> isSpeaking (detectSpeech 0.022 (initialState 0))"
    using detectSpeech_hysteresis [of "initialState 0" "0.022" "[]"] ns by simp
  ultimately show ?thesis using sp by (simp add: list_all_iff)
qed

text \<open>
  The sixth frame of the scenario, at volume 0.02, is a speaking frame whose intensity
  target is 0.04, not 0.06.
\<close>

theorem intensity_target_counterexample:
  "isSpeaking (detectRun (initialState 0) [0, 0, 0.03, 0.03, 0.03, 0.02, 0.016, 0.01] ! 5)
   \<and> targetSpeechIntensity
        (detectRun (initialState 0) [0, 0, 0.03, 0.03, 0.03, 0.02, 0.016, 0.01] ! 5) = 0.04
   \<and> targetSpeechIntensity
        (detectRun (initialState 0) [0, 0, 0.03, 0.03, 0.03, 0.02, 0.016, 0.01] ! 5) \<noteq> 0.06"
  by (simp add: detectSpeech_isSpeaking detectSpeech_target initialState_def)

subsection \<open>What each step of the frame leaves alone\<close>

lemma detectSpeech_keeps [simp]:
  "vrm (detectSpeech v s) = vrm s"
  "nextBlinkTime (detectSpeech v s) = nextBlinkTime s"
  "analyser (detectSpeech v s) = analyser s"
  "dataArray (detectSpeech v s) = dataArray s"
  "speechIntensity (detectSpeech v s) = speechIntensity s"
  "gesturePhase (detectSpeech v s) = gesturePhase s"
  "currentGesture (detectSpeech v s) = currentGesture s"
  "nextGestureTime (detectSpeech v s) = nextGestureTime s"
  "gestureTransitionProgress (detectSpeech v s) = gestureTransitionProgress s"
  "previousGesture (detectSpeech v s) = previousGesture s"
  "headRotation (detectSpeech v s) = headRotation s"
  "targetHeadRotation (detectSpeech v s) = targetHeadRotation s"
  "previousHeadRotation (detectSpeech v s) = previousHeadRotation s"
  "leftArmRotation (detectSpeech v s) = leftArmRotation s"
  "rightArmRotation (detectSpeech v s) = rightArmRotation s"
  "targetLeftArmRotation (detectSpeech v s) = targetLeftArmRotation s"
  "targetRightArmRotation (detectSpeech v s) = targetRightArmRotation s"
  "leftLowerArmRotation (detectSpeech v s) = leftLowerArmRotation s"
  "rightLowerArmRotation (detectSpeech v s) = rightLowerArmRotation s"
  "targetLeftLowerArmRotation (detectSpeech v s) = targetLeftLowerArmRotation s"
  "targetRightLowerArmRotation (detectSpeech v s) = targetRightLowerArmRotation s"
  "handRotation (detectSpeech v s) = handRotation s"
  "targetHandRotation (detectSpeech v s) = targetHandRotation s"
  "eyebrowIntensity (detectSpeech v s) = eyebrowIntensity s"
  "targetEyebrowIntensity (detectSpeech v s) = targetEyebrowIntensity s"
  "neckRotation (detectSpeech v s) = neckRotation s"
  "targetNeckRotation (detectSpeech v s) = targetNeckRotation s"
  "currentExpression (detectSpeech v s) = currentExpression s"
  "previousExpression (detectSpeech v s) = previousExpression s"
  "expressionIntensity (detectSpeech v s) = expressionIntensity s"
  "targetExpressionIntensity (detectSpeech v s) = targetExpressionIntensity s"
  "nextExpressionTime (detectSpeech v s) = nextExpressionTime s"
  "expressionTransitionProgress (detectSpeech v s) = expressionTransitionProgress s"
  "mouthShapes (detectSpeech v s) = mouthShapes s"
  "targetMouthShapes (detectSpeech v s) = targetMouthShapes s"
  "expressionValues (detectSpeech v s) = expressionValues s"
  "targetExpressionValues (detectSpeech v s) = targetExpressionValues s"
  by (simp_all add: detectSpeech_def Let_def)

lemma audioAnalysis_keeps [simp]:
  "vrm (snd (audioAnalysis f s)) = vrm s"
  "nextBlinkTime (snd (audioAnalysis f s)) = nextBlinkTime s"
  "analyser (snd (audioAnalysis f s)) = analyser s"
  "speechIntensity (snd (audioAnalysis f s)) = speechIntensity s"
  "gesturePhase (snd (audioAnalysis f s)) = gesturePhase s"
  "currentGesture (snd (audioAnalysis f s)) = currentGesture s"
  "nextGestureTime (snd (audioAnalysis f s)) = nextGestureTime s"
  "gestureTransitionProgress (snd (audioAnalysis f s)) = gestureTransitionProgress s"
  "previousGesture (snd (audioAnalysis f s)) = previousGesture s"
  "headRotation (snd (audioAnalysis f s)) = headRotation s"
  "targetHeadRotation (snd (audioAnalysis f s)) = targetHeadRotation s"
  "previousHeadRotation (snd (audioAnalysis f s)) = previousHeadRotation s"
  "leftArmRotation (snd (audioAnalysis f s)) = leftArmRotation s"
  "rightArmRotation (snd (audioAnalysis f s)) = rightArmRotation s"
  "targetLeftArmRotation (snd (audioAnalysis f s)) = targetLeftArmRotation s"
  "targetRightArmRotation (snd (audioAnalysis f s)) = targetRightArmRotation s"
  "leftLowerArmRotation (snd (audioAnalysis f s)) = leftLowerArmRotation s"
  "rightLowerArmRotation (snd (audioAnalysis f s)) = rightLowerArmRotation s"
  "targetLeftLowerArmRotation (snd (audioAnalysis f s)) = targetLeftLowerArmRotation s"
  "targetRightLowerArmRotation (snd (audioAnalysis f s)) = targetRightLowerArmRotation s"
  "handRotation (snd (audioAnalysis f s)) = handRotation s"
  "targetHandRotation (snd (audioAnalysis f s)) = targetHandRotation s"
  "eyebrowIntensity (snd (audioAnalysis f s)) = eyebrowIntensity s"
  "targetEyebrowIntensity (snd (audioAnalysis f s)) = targetEyebrowIntensity s"
  "neckRotation (snd (audioAnalysis f s)) = neckRotation s"
  "targetNeckRotation (snd (audioAnalysis f s)) = targetNeckRotation s"
  "currentExpression (snd (audioAnalysis f s)) = currentExpression s"
  "previousExpression (snd (audioAnalysis f s)) = previousExpression s"
  "expressionIntensity (snd (audioAnalysis f s)) = expressionIntensity s"
  "targetExpressionIntensity (snd (audioAnalysis f s)) = targetExpressionIntensity s"
  "nextExpressionTime (snd (audioAnalysis f s)) = nextExpressionTime s"
  "expressionTransitionProgress (snd (audioAnalysis f s)) = expressionTransitionProgress s"
  "mouthShapes (snd (audioAnalysis f s)) = mouthShapes s"
  "targetMouthShapes (snd (audioAnalysis f s)) = targetMouthShapes s"
  "expressionValues (snd (audioAnalysis f s)) = expressionValues s"
  "targetExpressionValues (snd (audioAnalysis f s)) = targetExpressionValues s"
  by (simp_all add: audioAnalysis_def Let_def split: option.split)

lemma smoothSpeech_keeps [simp]:
  "vrm (smoothSpeech f s) = vrm s"
  "nextBlinkTime (smoothSpeech f s) = nextBlinkTime s"
  "analyser (smoothSpeech f s) = analyser s"
  "dataArray (smoothSpeech f s) = dataArray s"
  "isSpeaking (smoothSpeech f s) = isSpeaking s"
  "targetSpeechIntensity (smoothSpeech f s) = targetSpeechIntensity s"
  "gesturePhase (smoothSpeech f s) = gesturePhase s"
  "currentGesture (smoothSpeech f s) = currentGesture s"
  "nextGestureTime (smoothSpeech f s) = nextGestureTime s"
  "gestureTransitionProgress (smoothSpeech f s) = gestureTransitionProgress s"
  "previousGesture (smoothSpeech f s) = previousGesture s"
  "headRotation (smoothSpeech f s) = headRotation s"
  "targetHeadRotation (smoothSpeech f s) = targetHeadRotation s"
  "previousHeadRotation (smoothSpeech f s) = previousHeadRotation s"
  "leftArmRotation (smoothSpeech f s) = leftArmRotation s"
  "rightArmRotation (smoothSpeech f s) = rightArmRotation s"
  "targetLeftArmRotation (smoothSpeech f s) = targetLeftArmRotation s"
  "targetRightArmRotation (smoothSpeech f s) = targetRightArmRotation s"
  "leftLowerArmRotation (smoothSpeech f s) = leftLowerArmRotation s"
  "rightLowerArmRotation (smoothSpeech f s) = rightLowerArmRotation s"
  "targetLeftLowerArmRotation (smoothSpeech f s) = targetLeftLowerArmRotation s"
  "targetRightLowerArmRotation (smoothSpeech f s) = targetRightLowerArmRotation s"
  "handRotation (smoothSpeech f s) = handRotation s"
  "targetHandRotation (smoothSpeech f s) = targetHandRotation s"
  "eyebrowIntensity (smoothSpeech f s) = eyebrowIntensity s"
  "targetEyebrowIntensity (smoothSpeech f s) = targetEyebrowIntensity s"
  "neckRotation (smoothSpeech f s) = neckRotation s"
  "targetNeckRotation (smoothSpeech f s) = targetNeckRotation s"
  "currentExpression (smoothSpeech f s) = currentExpression s"
  "previousExpression (smoothSpeech f s) = previousExpression s"
  "expressionIntensity (smoothSpeech f s) = expressionIntensity s"
  "targetExpressionIntensity (smoothSpeech f s) = targetExpressionIntensity s"
  "nextExpressionTime (smoothSpeech f s) = nextExpressionTime s"
  "expressionTransitionProgress (smoothSpeech f s) = expressionTransitionProgress s"
  "mouthShapes (smoothSpeech f s) = mouthShapes s"
  "targetMouthShapes (smoothSpeech f s) = targetMouthShapes s"
  "expressionValues (smoothSpeech f s) = expressionValues s"
  "targetExpressionValues (smoothSpeech f s) = targetExpressionValues s"
  by (simp_all add: smoothSpeech_def)

lemma selectExpression_keeps [simp]:
  "vrm (selectExpression f s) = vrm s"
  "nextBlinkTime (selectExpression f s) = nextBlinkTime s"
  "analyser (selectExpression f s) = analyser s"
  "dataArray (selectExpression f s) = dataArray s"
  "isSpeaking (selectExpression f s) = isSpeaking s"
  "speechIntensity (selectExpression f s) = speechIntensity s"
  "targetSpeechIntensity (selectExpression f s) = targetSpeechIntensity s"
  "gesturePhase (selectExpression f s) = gesturePhase s"
  "currentGesture (selectExpression f s) = currentGesture s"
  "nextGestureTime (selectExpression f s) = nextGestureTime s"
  "gestureTransitionProgress (selectExpression f s) = gestureTransitionProgress s"
  "previousGesture (selectExpression f s) = previousGesture s"
  "headRotation (selectExpression f s) = headRotation s"
  "targetHeadRotation (selectExpression f s) = targetHeadRotation s"
  "previousHeadRotation (selectExpression f s) = previousHeadRotation s"
  "leftArmRotation (selectExpression f s) = leftArmRotation s"
  "rightArmRotation (selectExpression f s) = rightArmRotation s"
  "targetLeftArmRotation (selectExpression f s) = targetLeftArmRotation s"
  "targetRightArmRotation (selectExpression f s) = targetRightArmRotation s"
  "leftLowerArmRotation (selectExpression f s) = leftLowerArmRotation s"
  "rightLowerArmRotation (selectExpression f s) = rightLowerArmRotation s"
  "targetLeftLowerArmRotation (selectExpression f s) = targetLeftLowerArmRotation s"
  "targetRightLowerArmRotation (selectExpression f s) = targetRightLowerArmRotation s"
  "handRotation (selectExpression f s) = handRotation s"
  "targetHandRotation (selectExpression f s) = targetHandRotation s"
  "eyebrowIntensity (selectExpression f s) = eyebrowIntensity s"
  "targetEyebrowIntensity (selectExpression f s) = targetEyebrowIntensity s"
  "neckRotation (selectExpression f s) = neckRotation s"
  "targetNeckRotation (selectExpression f s) = targetNeckRotation s"
  "expressionIntensity (selectExpression f s) = expressionIntensity s"
  "mouthShapes (selectExpression f s) = mouthShapes s"
  "targetMouthShapes (selectExpression f s) = targetMouthShapes s"
  "expressionValues (selectExpression f s) = expressionValues s"
  "targetExpressionValues (selectExpression f s) = targetExpressionValues s"
  by (simp_all add: selectExpression_def)

lemma advanceExpression_keeps [simp]:
  "vrm (advanceExpression f s) = vrm s"
  "nextBlinkTime (advanceExpression f s) = nextBlinkTime s"
  "analyser (advanceExpression f s) = analyser s"
  "dataArray (advanceExpression f s) = dataArray s"
  "isSpeaking (advanceExpression f s) = isSpeaking s"
  "speechIntensity (advanceExpression f s) = speechIntensity s"
  "targetSpeechIntensity (advanceExpression f s) = targetSpeechIntensity s"
  "gesturePhase (advanceExpression f s) = gesturePhase s"
  "currentGesture (advanceExpression f s) = currentGesture s"
  "nextGestureTime (advanceExpression f s) = nextGestureTime s"
  "gestureTransitionProgress (advanceExpression f s) = gestureTransitionProgress s"
  "previousGesture (advanceExpression f s) = previousGesture s"
  "headRotation (advanceExpression f s) = headRotation s"
  "targetHeadRotation (advanceExpression f s) = targetHeadRotation s"
  "previousHeadRotation (advanceExpression f s) = previousHeadRotation s"
  "leftArmRotation (advanceExpression f s) = leftArmRotation s"
  "rightArmRotation (advanceExpression f s) = rightArmRotation s"
  "targetLeftArmRotation (advanceExpression f s) = targetLeftArmRotation s"
  "targetRightArmRotation (advanceExpression f s) = targetRightArmRotation s"
  "leftLowerArmRotation (advanceExpression f s) = leftLowerArmRotation s"
  "rightLowerArmRotation (advanceExpression f s) = rightLowerArmRotation s"
  "targetLeftLowerArmRotation (advanceExpression f s) = targetLeftLowerArmRotation s"
  "targetRightLowerArmRotation (advanceExpression f s) = targetRightLowerArmRotation s"
  "handRotation (advanceExpression f s) = handRotation s"
  "targetHandRotation (advanceExpression f s) = targetHandRotation s"
  "eyebrowIntensity (advanceExpression f s) = eyebrowIntensity s"
  "targetEyebrowIntensity (advanceExpression f s) = targetEyebrowIntensity s"
  "neckRotation (advanceExpression f s) = neckRotation s"
  "targetNeckRotation (advanceExpression f s) = targetNeckRotation s"
  "currentExpression (advanceExpression f s) = currentExpression s"
  "previousExpression (advanceExpression f s) = previousExpression s"
  "targetExpressionIntensity (advanceExpression f s) = targetExpressionIntensity s"
  "nextExpressionTime (advanceExpression f s) = nextExpressionTime s"
  "mouthShapes (advanceExpression f s) = mouthShapes s"
  "targetMouthShapes (advanceExpression f s) = targetMouthShapes s"
  "expressionValues (advanceExpression f s) = expressionValues s"
  "targetExpressionValues (advanceExpression f s) = targetExpressionValues s"
  by (simp_all add: advanceExpression_def Let_def)

lemma reseedBlink_keeps [simp]:
  "vrm (reseedBlink f s) = vrm s"
  "analyser (reseedBlink f s) = analyser s"
  "dataArray (reseedBlink f s) = dataArray s"
  "isSpeaking (reseedBlink f s) = isSpeaking s"
  "speechIntensity (reseedBlink f s) = speechIntensity s"
  "targetSpeechIntensity (reseedBlink f s) = targetSpeechIntensity s"
  "gesturePhase (reseedBlink f s) = gesturePhase s"
  "currentGesture (reseedBlink f s) = currentGesture s"
  "nextGestureTime (reseedBlink f s) = nextGestureTime s"
  "gestureTransitionProgress (reseedBlink f s) = gestureTransitionProgress s"
  "previousGesture (reseedBlink f s) = previousGesture s"
  "headRotation (reseedBlink f s) = headRotation s"
  "targetHeadRotation (reseedBlink f s) = targetHeadRotation s"
  "previousHeadRotation (reseedBlink f s) = previousHeadRotation s"
  "leftArmRotation (reseedBlink f s) = leftArmRotation s"
  "rightArmRotation (reseedBlink f s) = rightArmRotation s"
  "targetLeftArmRotation (reseedBlink f s) = targetLeftArmRotation s"
  "targetRightArmRotation (reseedBlink f s) = targetRightArmRotation s"
  "leftLowerArmRotation (reseedBlink f s) = leftLowerArmRotation s"
  "rightLowerArmRotation (reseedBlink f s) = rightLowerArmRotation s"
  "targetLeftLowerArmRotation (reseedBlink f s) = targetLeftLowerArmRotation s"
  "targetRightLowerArmRotation (reseedBlink f s) = targetRightLowerArmRotation s"
  "handRotation (reseedBlink f s) = handRotation s"
  "targetHandRotation (reseedBlink f s) = targetHandRotation s"
  "eyebrowIntensity (reseedBlink f s) = eyebrowIntensity s"
  "targetEyebrowIntensity (reseedBlink f s) = targetEyebrowIntensity s"
  "neckRotation (reseedBlink f s) = neckRotation s"
  "targetNeckRotation (reseedBlink f s) = targetNeckRotation s"
  "currentExpression (reseedBlink f s) = currentExpression s"
  "previousExpression (reseedBlink f s) = previousExpression s"
  "expressionIntensity (reseedBlink f s) = expressionIntensity s"
  "targetExpressionIntensity (reseedBlink f s) = targetExpressionIntensity s"
  "nextExpressionTime (reseedBlink f s) = nextExpressionTime s"
  "expressionTransitionProgress (reseedBlink f s) = expressionTransitionProgress s"
  "mouthShapes (reseedBlink f s) = mouthShapes s"
  "targetMouthShapes (reseedBlink f s) = targetMouthShapes s"
  "expressionValues (reseedBlink f s) = expressionValues s"
  "targetExpressionValues (reseedBlink f s) = targetExpressionValues s"
  by (simp_all add: reseedBlink_def)

lemma blinkStep_keeps [simp]:
  "vrm (blinkStep f s) = vrm s"
  "analyser (blinkStep f s) = analyser s"
  "dataArray (blinkStep f s) = dataArray s"
  "isSpeaking (blinkStep f s) = isSpeaking s"
  "speechIntensity (blinkStep f s) = speechIntensity s"
  "targetSpeechIntensity (blinkStep f s) = targetSpeechIntensity s"
  "gesturePhase (blinkStep f s) = gesturePhase s"
  "currentGesture (blinkStep f s) = currentGesture s"
  "nextGestureTime (blinkStep f s) = nextGestureTime s"
  "gestureTransitionProgress (blinkStep f s) = gestureTransitionProgress s"
  "previousGesture (blinkStep f s) = previousGesture s"
  "headRotation (blinkStep f s) = headRotation s"
  "targetHeadRotation (blinkStep f s) = targetHeadRotation s"
  "previousHeadRotation (blinkStep f s) = previousHeadRotation s"
  "leftArmRotation (blinkStep f s) = leftArmRotation s"
  "rightArmRotation (blinkStep f s) = rightArmRotation s"
  "targetLeftArmRotation (blinkStep f s) = targetLeftArmRotation s"
  "targetRightArmRotation (blinkStep f s) = targetRightArmRotation s"
  "leftLowerArmRotation (blinkStep f s) = leftLowerArmRotation s"
  "rightLowerArmRotation (blinkStep f s) = rightLowerArmRotation s"
  "targetLeftLowerArmRotation (blinkStep f s) = targetLeftLowerArmRotation s"
  "targetRightLowerArmRotation (blinkStep f s) = targetRightLowerArmRotation s"
  "handRotation (blinkStep f s) = handRotation s"
  "targetHandRotation (blinkStep f s) = targetHandRotation s"
  "eyebrowIntensity (blinkStep f s) = eyebrowIntensity s"
  "targetEyebrowIntensity (blinkStep f s) = targetEyebrowIntensity s"
  "neckRotation (blinkStep f s) = neckRotation s"
  "targetNeckRotation (blinkStep f s) = targetNeckRotation s"
  "currentExpression (blinkStep f s) = currentExpression s"
  "previousExpression (blinkStep f s) = previousExpression s"
  "expressionIntensity (blinkStep f s) = expressionIntensity s"
  "targetExpressionIntensity (blinkStep f s) = targetExpressionIntensity s"
  "nextExpressionTime (blinkStep f s) = nextExpressionTime s"
  "expressionTransitionProgress (blinkStep f s) = expressionTransitionProgress s"
  "mouthShapes (blinkStep f s) = mouthShapes s"
  "targetMouthShapes (blinkStep f s) = targetMouthShapes s"
  "expressionValues (blinkStep f s) = expressionValues s"
  by (simp_all add: blinkStep_def Let_def)

lemma mouthStep_keeps [simp]:
  "vrm (mouthStep f b s) = vrm s"
  "nextBlinkTime (mouthStep f b s) = nextBlinkTime s"
  "analyser (mouthStep f b s) = analyser s"
  "dataArray (mouthStep f b s) = dataArray s"
  "isSpeaking (mouthStep f b s) = isSpeaking s"
  "speechIntensity (mouthStep f b s) = speechIntensity s"
  "targetSpeechIntensity (mouthStep f b s) = targetSpeechIntensity s"
  "gesturePhase (mouthStep f b s) = gesturePhase s"
  "currentGesture (mouthStep f b s) = currentGesture s"
  "nextGestureTime (mouthStep f b s) = nextGestureTime s"
  "gestureTransitionProgress (mouthStep f b s) = gestureTransitionProgress s"
  "previousGesture (mouthStep f b s) = previousGesture s"
  "headRotation (mouthStep f b s) = headRotation s"
  "targetHeadRotation (mouthStep f b s) = targetHeadRotation s"
  "previousHeadRotation (mouthStep f b s) = previousHeadRotation s"
  "leftArmRotation (mouthStep f b s) = leftArmRotation s"
  "rightArmRotation (mouthStep f b s) = rightArmRotation s"
  "targetLeftArmRotation (mouthStep f b s) = targetLeftArmRotation s"
  "targetRightArmRotation (mouthStep f b s) = targetRightArmRotation s"
  "leftLowerArmRotation (mouthStep f b s) = leftLowerArmRotation s"
  "rightLowerArmRotation (mouthStep f b s) = rightLowerArmRotation s"
  "targetLeftLowerArmRotation (mouthStep f b s) = targetLeftLowerArmRotation s"
  "targetRightLowerArmRotation (mouthStep f b s) = targetRightLowerArmRotation s"
  "handRotation (mouthStep f b s) = handRotation s"
  "targetHandRotation (mouthStep f b s) = targetHandRotation s"
  "eyebrowIntensity (mouthStep f b s) = eyebrowIntensity s"
  "targetEyebrowIntensity (mouthStep f b s) = targetEyebrowIntensity s"
  "neckRotation (mouthStep f b s) = neckRotation s"
  "targetNeckRotation (mouthStep f b s) = targetNeckRotation s"
  "currentExpression (mouthStep f b s) = currentExpression s"
  "previousExpression (mouthStep f b s) = previousExpression s"
  "expressionIntensity (mouthStep f b s) = expressionIntensity s"
  "targetExpressionIntensity (mouthStep f b s) = targetExpressionIntensity s"
  "nextExpressionTime (mouthStep f b s) = nextExpressionTime s"
  "expressionTransitionProgress (mouthStep f b s) = expressionTransitionProgress s"
  "expressionValues (mouthStep f b s) = expressionValues s"
  "targetExpressionValues (mouthStep f b s) = targetExpressionValues s"
  by (simp_all add: mouthStep_def Let_def)

lemma weightsStep_keeps [simp]:
  "vrm (weightsStep f e s) = vrm s"
  "nextBlinkTime (weightsStep f e s) = nextBlinkTime s"
  "analyser (weightsStep f e s) = analyser s"
  "dataArray (weightsStep f e s) = dataArray s"
  "isSpeaking (weightsStep f e s) = isSpeaking s"
  "speechIntensity (weightsStep f e s) = speechIntensity s"
  "targetSpeechIntensity (weightsStep f e s) = targetSpeechIntensity s"
  "gesturePhase (weightsStep f e s) = gesturePhase s"
  "currentGesture (weightsStep f e s) = currentGesture s"
  "nextGestureTime (weightsStep f e s) = nextGestureTime s"
  "gestureTransitionProgress (weightsStep f e s) = gestureTransitionProgress s"
  "previousGesture (weightsStep f e s) = previousGesture s"
  "headRotation (weightsStep f e s) = headRotation s"
  "targetHeadRotation (weightsStep f e s) = targetHeadRotation s"
  "previousHeadRotation (weightsStep f e s) = previousHeadRotation s"
  "leftArmRotation (weightsStep f e s) = leftArmRotation s"
  "rightArmRotation (weightsStep f e s) = rightArmRotation s"
  "targetLeftArmRotation (weightsStep f e s) = targetLeftArmRotation s"
  "targetRightArmRotation (weightsStep f e s) = targetRightArmRotation s"
  "leftLowerArmRotation (weightsStep f e s) = leftLowerArmRotation s"
  "rightLowerArmRotation (weightsStep f e s) = rightLowerArmRotation s"
  "targetLeftLowerArmRotation (weightsStep f e s) = targetLeftLowerArmRotation s"
  "targetRightLowerArmRotation (weightsStep f e s) = targetRightLowerArmRotation s"
  "handRotation (weightsStep f e s) = handRotation s"
  "targetHandRotation (weightsStep f e s) = targetHandRotation s"
  "eyebrowIntensity (weightsStep f e s) = eyebrowIntensity s"
  "targetEyebrowIntensity (weightsStep f e s) = targetEyebrowIntensity s"
  "neckRotation (weightsStep f e s) = neckRotation s"
  "targetNeckRotation (weightsStep f e s) = targetNeckRotation s"
  "currentExpression (weightsStep f e s) = currentExpression s"
  "previousExpression (weightsStep f e s) = previousExpression s"
  "expressionIntensity (weightsStep f e s) = expressionIntensity s"
  "targetExpressionIntensity (weightsStep f e s) = targetExpressionIntensity s"
  "nextExpressionTime (weightsStep f e s) = nextExpressionTime s"
  "expressionTransitionProgress (weightsStep f e s) = expressionTransitionProgress s"
  "mouthShapes (weightsStep f e s) = mouthShapes s"
  "targetMouthShapes (weightsStep f e s) = targetMouthShapes s"
  by (simp_all add: weightsStep_def Let_def)

lemma faceStep_keeps [simp]:
  "vrm (snd (faceStep f s)) = vrm s"
  "analyser (snd (faceStep f s)) = analyser s"
  "gesturePhase (snd (faceStep f s)) = gesturePhase s"
  "currentGesture (snd (faceStep f s)) = currentGesture s"
  "nextGestureTime (snd (faceStep f s)) = nextGestureTime s"
  "gestureTransitionProgress (snd (faceStep f s)) = gestureTransitionProgress s"
  "previousGesture (snd (faceStep f s)) = previousGesture s"
  "headRotation (snd (faceStep f s)) = headRotation s"
  "targetHeadRotation (snd (faceStep f s)) = targetHeadRotation s"
  "previousHeadRotation (snd (faceStep f s)) = previousHeadRotation s"
  "leftArmRotation (snd (faceStep f s)) = leftArmRotation s"
  "rightArmRotation (snd (faceStep f s)) = rightArmRotation s"
  "targetLeftArmRotation (snd (faceStep f s)) = targetLeftArmRotation s"
  "targetRightArmRotation (snd (faceStep f s)) = targetRightArmRotation s"
  "leftLowerArmRotation (snd (faceStep f s)) = leftLowerArmRotation s"
  "rightLowerArmRotation (snd (faceStep f s)) = rightLowerArmRotation s"
  "targetLeftLowerArmRotation (snd (faceStep f s)) = targetLeftLowerArmRotation s"
  "targetRightLowerArmRotation (snd (faceStep f s)) = targetRightLowerArmRotation s"
  "handRotation (snd (faceStep f s)) = handRotation s"
  "targetHandRotation (snd (faceStep f s)) = targetHandRotation s"
  "eyebrowIntensity (snd (faceStep f s)) = eyebrowIntensity s"
  "targetEyebrowIntensity (snd (faceStep f s)) = targetEyebrowIntensity s"
  "neckRotation (snd (faceStep f s)) = neckRotation s"
  "targetNeckRotation (snd (faceStep f s)) = targetNeckRotation s"
  by (simp_all add: faceStep_def Let_def split_beta)

lemma selectGesture_keeps [simp]:
  "vrm (selectGesture f s) = vrm s"
  "nextBlinkTime (selectGesture f s) = nextBlinkTime s"
  "analyser (selectGesture f s) = analyser s"
  "dataArray (selectGesture f s) = dataArray s"
  "isSpeaking (selectGesture f s) = isSpeaking s"
  "speechIntensity (selectGesture f s) = speechIntensity s"
  "targetSpeechIntensity (selectGesture f s) = targetSpeechIntensity s"
  "headRotation (selectGesture f s) = headRotation s"
  "targetHeadRotation (selectGesture f s) = targetHeadRotation s"
  "leftArmRotation (selectGesture f s) = leftArmRotation s"
  "rightArmRotation (selectGesture f s) = rightArmRotation s"
  "targetLeftArmRotation (selectGesture f s) = targetLeftArmRotation s"
  "targetRightArmRotation (selectGesture f s) = targetRightArmRotation s"
  "leftLowerArmRotation (selectGesture f s) = leftLowerArmRotation s"
  "rightLowerArmRotation (selectGesture f s) = rightLowerArmRotation s"
  "targetLeftLowerArmRotation (selectGesture f s) = targetLeftLowerArmRotation s"
  "targetRightLowerArmRotation (selectGesture f s) = targetRightLowerArmRotation s"
  "handRotation (selectGesture f s) = handRotation s"
  "targetHandRotation (selectGesture f s) = targetHandRotation s"
  "eyebrowIntensity (selectGesture f s) = eyebrowIntensity s"
  "targetEyebrowIntensity (selectGesture f s) = targetEyebrowIntensity s"
  "neckRotation (selectGesture f s) = neckRotation s"
  "targetNeckRotation (selectGesture f s) = targetNeckRotation s"
  "currentExpression (selectGesture f s) = currentExpression s"
  "previousExpression (selectGesture f s) = previousExpression s"
  "expressionIntensity (selectGesture f s) = expressionIntensity s"
  "targetExpressionIntensity (selectGesture f s) = targetExpressionIntensity s"
  "nextExpressionTime (selectGesture f s) = nextExpressionTime s"
  "expressionTransitionProgress (selectGesture f s) = expressionTransitionProgress s"
  "mouthShapes (selectGesture f s) = mouthShapes s"
  "targetMouthShapes (selectGesture f s) = targetMouthShapes s"
  "expressionValues (selectGesture f s) = expressionValues s"
  "targetExpressionValues (selectGesture f s) = targetExpressionValues s"
  by (simp_all add: selectGesture_def)

lemma speakingHead_keeps [simp]:
  "vrm (speakingHead f s) = vrm s"
  "nextBlinkTime (speakingHead f s) = nextBlinkTime s"
  "analyser (speakingHead f s) = analyser s"
  "dataArray (speakingHead f s) = dataArray s"
  "isSpeaking (speakingHead f s) = isSpeaking s"
  "speechIntensity (speakingHead f s) = speechIntensity s"
  "targetSpeechIntensity (speakingHead f s) = targetSpeechIntensity s"
  "headRotation (speakingHead f s) = headRotation s"
  "leftArmRotation (speakingHead f s) = leftArmRotation s"
  "rightArmRotation (speakingHead f s) = rightArmRotation s"
  "targetLeftArmRotation (speakingHead f s) = targetLeftArmRotation s"
  "targetRightArmRotation (speakingHead f s) = targetRightArmRotation s"
  "leftLowerArmRotation (speakingHead f s) = leftLowerArmRotation s"
  "rightLowerArmRotation (speakingHead f s) = rightLowerArmRotation s"
  "targetLeftLowerArmRotation (speakingHead f s) = targetLeftLowerArmRotation s"
  "targetRightLowerArmRotation (speakingHead f s) = targetRightLowerArmRotation s"
  "handRotation (speakingHead f s) = handRotation s"
  "targetHandRotation (speakingHead f s) = targetHandRotation s"
  "eyebrowIntensity (speakingHead f s) = eyebrowIntensity s"
  "neckRotation (speakingHead f s) = neckRotation s"
  "currentExpression (speakingHead f s) = currentExpression s"
  "previousExpression (speakingHead f s) = previousExpression s"
  "expressionIntensity (speakingHead f s) = expressionIntensity s"
  "targetExpressionIntensity (speakingHead f s) = targetExpressionIntensity s"
  "nextExpressionTime (speakingHead f s) = nextExpressionTime s"
  "expressionTransitionProgress (speakingHead f s) = expressionTransitionProgress s"
  "mouthShapes (speakingHead f s) = mouthShapes s"
  "targetMouthShapes (speakingHead f s) = targetMouthShapes s"
  "expressionValues (speakingHead f s) = expressionValues s"
  "targetExpressionValues (speakingHead f s) = targetExpressionValues s"
  by (simp_all add: speakingHead_def Let_def split_beta)

lemma idleHead_keeps [simp]:
  "vrm (idleHead f s) = vrm s"
  "nextBlinkTime (idleHead f s) = nextBlinkTime s"
  "analyser (idleHead f s) = analyser s"
  "dataArray (idleHead f s) = dataArray s"
  "isSpeaking (idleHead f s) = isSpeaking s"
  "speechIntensity (idleHead f s) = speechIntensity s"
  "targetSpeechIntensity (idleHead f s) = targetSpeechIntensity s"
  "previousGesture (idleHead f s) = previousGesture s"
  "headRotation (idleHead f s) = headRotation s"
  "previousHeadRotation (idleHead f s) = previousHeadRotation s"
  "leftArmRotation (idleHead f s) = leftArmRotation s"
  "rightArmRotation (idleHead f s) = rightArmRotation s"
  "targetLeftArmRotation (idleHead f s) = targetLeftArmRotation s"
  "targetRightArmRotation (idleHead f s) = targetRightArmRotation s"
  "leftLowerArmRotation (idleHead f s) = leftLowerArmRotation s"
  "rightLowerArmRotation (idleHead f s) = rightLowerArmRotation s"
  "targetLeftLowerArmRotation (idleHead f s) = targetLeftLowerArmRotation s"
  "targetRightLowerArmRotation (idleHead f s) = targetRightLowerArmRotation s"
  "handRotation (idleHead f s) = handRotation s"
  "targetHandRotation (idleHead f s) = targetHandRotation s"
  "eyebrowIntensity (idleHead f s) = eyebrowIntensity s"
  "neckRotation (idleHead f s) = neckRotation s"
  "currentExpression (idleHead f s) = currentExpression s"
  "previousExpression (idleHead f s) = previousExpression s"
  "expressionIntensity (idleHead f s) = expressionIntensity s"
  "targetExpressionIntensity (idleHead f s) = targetExpressionIntensity s"
  "nextExpressionTime (idleHead f s) = nextExpressionTime s"
  "expressionTransitionProgress (idleHead f s) = expressionTransitionProgress s"
  "mouthShapes (idleHead f s) = mouthShapes s"
  "targetMouthShapes (idleHead f s) = targetMouthShapes s"
  "expressionValues (idleHead f s) = expressionValues s"
  "targetExpressionValues (idleHead f s) = targetExpressionValues s"
  by (simp_all add: idleHead_def)

lemma headStep_keeps [simp]:
  "vrm (snd (headStep f b s)) = vrm s"
  "nextBlinkTime (snd (headStep f b s)) = nextBlinkTime s"
  "analyser (snd (headStep f b s)) = analyser s"
  "dataArray (snd (headStep f b s)) = dataArray s"
  "isSpeaking (snd (headStep f b s)) = isSpeaking s"
  "speechIntensity (snd (headStep f b s)) = speechIntensity s"
  "targetSpeechIntensity (snd (headStep f b s)) = targetSpeechIntensity s"
  "leftArmRotation (snd (headStep f b s)) = leftArmRotation s"
  "rightArmRotation (snd (headStep f b s)) = rightArmRotation s"
  "targetLeftArmRotation (snd (headStep f b s)) = targetLeftArmRotation s"
  "targetRightArmRotation (snd (headStep f b s)) = targetRightArmRotation s"
  "leftLowerArmRotation (snd (headStep f b s)) = leftLowerArmRotation s"
  "rightLowerArmRotation (snd (headStep f b s)) = rightLowerArmRotation s"
  "targetLeftLowerArmRotation (snd (headStep f b s)) = targetLeftLowerArmRotation s"
  "targetRightLowerArmRotation (snd (headStep f b s)) = targetRightLowerArmRotation s"
  "handRotation (snd (headStep f b s)) = handRotation s"
  "targetHandRotation (snd (headStep f b s)) = targetHandRotation s"
  "eyebrowIntensity (snd (headStep f b s)) = eyebrowIntensity s"
  "neckRotation (snd (headStep f b s)) = neckRotation s"
  "currentExpression (snd (headStep f b s)) = currentExpression s"
  "previousExpression (snd (headStep f b s)) = previousExpression s"
  "expressionIntensity (snd (headStep f b s)) = expressionIntensity s"
  "targetExpressionIntensity (snd (headStep f b s)) = targetExpressionIntensity s"
  "nextExpressionTime (snd (headStep f b s)) = nextExpressionTime s"
  "expressionTransitionProgress (snd (headStep f b s)) = expressionTransitionProgress s"
  "mouthShapes (snd (headStep f b s)) = mouthShapes s"
  "targetMouthShapes (snd (headStep f b s)) = targetMouthShapes s"
  "expressionValues (snd (headStep f b s)) = expressionValues s"
  "targetExpressionValues (snd (headStep f b s)) = targetExpressionValues s"
  by (simp_all add: headStep_def Let_def split: option.split)

lemma neckStep_keeps [simp]:
  "vrm (snd (neckStep f b s)) = vrm s"
  "nextBlinkTime (snd (neckStep f b s)) = nextBlinkTime s"
  "analyser (snd (neckStep f b s)) = analyser s"
  "dataArray (snd (neckStep f b s)) = dataArray s"
  "isSpeaking (snd (neckStep f b s)) = isSpeaking s"
  "speechIntensity (snd (neckStep f b s)) = speechIntensity s"
  "targetSpeechIntensity (snd (neckStep f b s)) = targetSpeechIntensity s"
  "gesturePhase (snd (neckStep f b s)) = gesturePhase s"
  "currentGesture (snd (neckStep f b s)) = currentGesture s"
  "nextGestureTime (snd (neckStep f b s)) = nextGestureTime s"
  "gestureTransitionProgress (snd (neckStep f b s)) = gestureTransitionProgress s"
  "previousGesture (snd (neckStep f b s)) = previousGesture s"
  "headRotation (snd (neckStep f b s)) = headRotation s"
  "targetHeadRotation (snd (neckStep f b s)) = targetHeadRotation s"
  "previousHeadRotation (snd (neckStep f b s)) = previousHeadRotation s"
  "leftArmRotation (snd (neckStep f b s)) = leftArmRotation s"
  "rightArmRotation (snd (neckStep f b s)) = rightArmRotation s"
  "targetLeftArmRotation (snd (neckStep f b s)) = targetLeftArmRotation s"
  "targetRightArmRotation (snd (neckStep f b s)) = targetRightArmRotation s"
  "leftLowerArmRotation (snd (neckStep f b s)) = leftLowerArmRotation s"
  "rightLowerArmRotation (snd (neckStep f b s)) = rightLowerArmRotation s"
  "targetLeftLowerArmRotation (snd (neckStep f b s)) = targetLeftLowerArmRotation s"
  "targetRightLowerArmRotation (snd (neckStep f b s)) = targetRightLowerArmRotation s"
  "handRotation (snd (neckStep f b s)) = handRotation s"
  "targetHandRotation (snd (neckStep f b s)) = targetHandRotation s"
  "eyebrowIntensity (snd (neckStep f b s)) = eyebrowIntensity s"
  "targetEyebrowIntensity (snd (neckStep f b s)) = targetEyebrowIntensity s"
  "targetNeckRotation (snd (neckStep f b s)) = targetNeckRotation s"
  "currentExpression (snd (neckStep f b s)) = currentExpression s"
  "previousExpression (snd (neckStep f b s)) = previousExpression s"
  "expressionIntensity (snd (neckStep f b s)) = expressionIntensity s"
  "targetExpressionIntensity (snd (neckStep f b s)) = targetExpressionIntensity s"
  "nextExpressionTime (snd (neckStep f b s)) = nextExpressionTime s"
  "expressionTransitionProgress (snd (neckStep f b s)) = expressionTransitionProgress s"
  "mouthShapes (snd (neckStep f b s)) = mouthShapes s"
  "targetMouthShapes (snd (neckStep f b s)) = targetMouthShapes s"
  "expressionValues (snd (neckStep f b s)) = expressionValues s"
  "targetExpressionValues (snd (neckStep f b s)) = targetExpressionValues s"
  by (simp_all add: neckStep_def Let_def split: option.split)

lemma eyebrowStep_keeps [simp]:
  "vrm (snd (eyebrowStep f em s)) = vrm s"
  "nextBlinkTime (snd (eyebrowStep f em s)) = nextBlinkTime s"
  "analyser (snd (eyebrowStep f em s)) = analyser s"
  "dataArray (snd (eyebrowStep f em s)) = dataArray s"
  "isSpeaking (snd (eyebrowStep f em s)) = isSpeaking s"
  "speechIntensity (snd (eyebrowStep f em s)) = speechIntensity s"
  "targetSpeechIntensity (snd (eyebrowStep f em s)) = targetSpeechIntensity s"
  "gesturePhase (snd (eyebrowStep f em s)) = gesturePhase s"
  "currentGesture (snd (eyebrowStep f em s)) = currentGesture s"
  "nextGestureTime (snd (eyebrowStep f em s)) = nextGestureTime s"
  "gestureTransitionProgress (snd (eyebrowStep f em s)) = gestureTransitionProgress s"
  "previousGesture (snd (eyebrowStep f em s)) = previousGesture s"
  "headRotation (snd (eyebrowStep f em s)) = headRotation s"
  "targetHeadRotation (snd (eyebrowStep f em s)) = targetHeadRotation s"
  "previousHeadRotation (snd (eyebrowStep f em s)) = previousHeadRotation s"
  "leftArmRotation (snd (eyebrowStep f em s)) = leftArmRotation s"
  "rightArmRotation (snd (eyebrowStep f em s)) = rightArmRotation s"
  "targetLeftArmRotation (snd (eyebrowStep f em s)) = targetLeftArmRotation s"
  "targetRightArmRotation (snd (eyebrowStep f em s)) = targetRightArmRotation s"
  "leftLowerArmRotation (snd (eyebrowStep f em s)) = leftLowerArmRotation s"
  "rightLowerArmRotation (snd (eyebrowStep f em s)) = rightLowerArmRotation s"
  "targetLeftLowerArmRotation (snd (eyebrowStep f em s)) = targetLeftLowerArmRotation s"
  "targetRightLowerArmRotation (snd (eyebrowStep f em s)) = targetRightLowerArmRotation s"
  "handRotation (snd (eyebrowStep f em s)) = handRotation s"
  "targetHandRotation (snd (eyebrowStep f em s)) = targetHandRotation s"
  "targetEyebrowIntensity (snd (eyebrowStep f em s)) = targetEyebrowIntensity s"
  "neckRotation (snd (eyebrowStep f em s)) = neckRotation s"
  "targetNeckRotation (snd (eyebrowStep f em s)) = targetNeckRotation s"
  "currentExpression (snd (eyebrowStep f em s)) = currentExpression s"
  "previousExpression (snd (eyebrowStep f em s)) = previousExpression s"
  "expressionIntensity (snd (eyebrowStep f em s)) = expressionIntensity s"
  "targetExpressionIntensity (snd (eyebrowStep f em s)) = targetExpressionIntensity s"
  "nextExpressionTime (snd (eyebrowStep f em s)) = nextExpressionTime s"
  "expressionTransitionProgress (snd (eyebrowStep f em s)) = expressionTransitionProgress s"
  "mouthShapes (snd (eyebrowStep f em s)) = mouthShapes s"
  "targetMouthShapes (snd (eyebrowStep f em s)) = targetMouthShapes s"
  "expressionValues (snd (eyebrowStep f em s)) = expressionValues s"
  "targetExpressionValues (snd (eyebrowStep f em s)) = targetExpressionValues s"
  by (simp_all add: eyebrowStep_def Let_def split: option.split)

lemma armTargets_keeps [simp]:
  "vrm (armTargets f s) = vrm s"
  "nextBlinkTime (armTargets f s) = nextBlinkTime s"
  "analyser (armTargets f s) = analyser s"
  "dataArray (armTargets f s) = dataArray s"
  "isSpeaking (armTargets f s) = isSpeaking s"
  "speechIntensity (armTargets f s) = speechIntensity s"
  "targetSpeechIntensity (armTargets f s) = targetSpeechIntensity s"
  "gesturePhase (armTargets f s) = gesturePhase s"
  "currentGesture (armTargets f s) = currentGesture s"
  "nextGestureTime (armTargets f s) = nextGestureTime s"
  "gestureTransitionProgress (armTargets f s) = gestureTransitionProgress s"
  "previousGesture (armTargets f s) = previousGesture s"
  "headRotation (armTargets f s) = headRotation s"
  "targetHeadRotation (armTargets f s) = targetHeadRotation s"
  "previousHeadRotation (armTargets f s) = previousHeadRotation s"
  "leftArmRotation (armTargets f s) = leftArmRotation s"
  "rightArmRotation (armTargets f s) = rightArmRotation s"
  "leftLowerArmRotation (armTargets f s) = leftLowerArmRotation s"
  "rightLowerArmRotation (armTargets f s) = rightLowerArmRotation s"
  "handRotation (armTargets f s) = handRotation s"
  "eyebrowIntensity (armTargets f s) = eyebrowIntensity s"
  "targetEyebrowIntensity (armTargets f s) = targetEyebrowIntensity s"
  "neckRotation (armTargets f s) = neckRotation s"
  "targetNeckRotation (armTargets f s) = targetNeckRotation s"
  "currentExpression (armTargets f s) = currentExpression s"
  "previousExpression (armTargets f s) = previousExpression s"
  "expressionIntensity (armTargets f s) = expressionIntensity s"
  "targetExpressionIntensity (armTargets f s) = targetExpressionIntensity s"
  "nextExpressionTime (armTargets f s) = nextExpressionTime s"
  "expressionTransitionProgress (armTargets f s) = expressionTransitionProgress s"
  "mouthShapes (armTargets f s) = mouthShapes s"
  "targetMouthShapes (armTargets f s) = targetMouthShapes s"
  "expressionValues (armTargets f s) = expressionValues s"
  "targetExpressionValues (armTargets f s) = targetExpressionValues s"
  by (simp_all add: armTargets_def Let_def)

lemma smoothArms_keeps [simp]:
  "vrm (smoothArms f s) = vrm s"
  "nextBlinkTime (smoothArms f s) = nextBlinkTime s"
  "analyser (smoothArms f s) = analyser s"
  "dataArray (smoothArms f s) = dataArray s"
  "isSpeaking (smoothArms f s) = isSpeaking s"
  "speechIntensity (smoothArms f s) = speechIntensity s"
  "targetSpeechIntensity (smoothArms f s) = targetSpeechIntensity s"
  "gesturePhase (smoothArms f s) = gesturePhase s"
  "currentGesture (smoothArms f s) = currentGesture s"
  "nextGestureTime (smoothArms f s) = nextGestureTime s"
  "gestureTransitionProgress (smoothArms f s) = gestureTransitionProgress s"
  "previousGesture (smoothArms f s) = previousGesture s"
  "headRotation (smoothArms f s) = headRotation s"
  "targetHeadRotation (smoothArms f s) = targetHeadRotation s"
  "previousHeadRotation (smoothArms f s) = previousHeadRotation s"
  "targetLeftArmRotation (smoothArms f s) = targetLeftArmRotation s"
  "targetRightArmRotation (smoothArms f s) = targetRightArmRotation s"
  "targetLeftLowerArmRotation (smoothArms f s) = targetLeftLowerArmRotation s"
  "targetRightLowerArmRotation (smoothArms f s) = targetRightLowerArmRotation s"
  "targetHandRotation (smoothArms f s) = targetHandRotation s"
  "eyebrowIntensity (smoothArms f s) = eyebrowIntensity s"
  "targetEyebrowIntensity (smoothArms f s) = targetEyebrowIntensity s"
  "neckRotation (smoothArms f s) = neckRotation s"
  "targetNeckRotation (smoothArms f s) = targetNeckRotation s"
  "currentExpression (smoothArms f s) = currentExpression s"
  "previousExpression (smoothArms f s) = previousExpression s"
  "expressionIntensity (smoothArms f s) = expressionIntensity s"
  "targetExpressionIntensity (smoothArms f s) = targetExpressionIntensity s"
  "nextExpressionTime (smoothArms f s) = nextExpressionTime s"
  "expressionTransitionProgress (smoothArms f s) = expressionTransitionProgress s"
  "mouthShapes (smoothArms f s) = mouthShapes s"
  "targetMouthShapes (smoothArms f s) = targetMouthShapes s"
  "expressionValues (smoothArms f s) = expressionValues s"
  "targetExpressionValues (smoothArms f s) = targetExpressionValues s"
  by (simp_all add: smoothArms_def)

lemma humanoidStep_keeps [simp]:
  "vrm (snd (humanoidStep f v s)) = vrm s"
  "nextBlinkTime (snd (humanoidStep f v s)) = nextBlinkTime s"
  "analyser (snd (humanoidStep f v s)) = analyser s"
  "dataArray (snd (humanoidStep f v s)) = dataArray s"
  "isSpeaking (snd (humanoidStep f v s)) = isSpeaking s"
  "speechIntensity (snd (humanoidStep f v s)) = speechIntensity s"
  "targetSpeechIntensity (snd (humanoidStep f v s)) = targetSpeechIntensity s"
  "currentExpression (snd (humanoidStep f v s)) = currentExpression s"
  "previousExpression (snd (humanoidStep f v s)) = previousExpression s"
  "expressionIntensity (snd (humanoidStep f v s)) = expressionIntensity s"
  "targetExpressionIntensity (snd (humanoidStep f v s)) = targetExpressionIntensity s"
  "nextExpressionTime (snd (humanoidStep f v s)) = nextExpressionTime s"
  "expressionTransitionProgress (snd (humanoidStep f v s)) = expressionTransitionProgress s"
  "mouthShapes (snd (humanoidStep f v s)) = mouthShapes s"
  "targetMouthShapes (snd (humanoidStep f v s)) = targetMouthShapes s"
  "expressionValues (snd (humanoidStep f v s)) = expressionValues s"
  "targetExpressionValues (snd (humanoidStep f v s)) = targetExpressionValues s"
  by (simp_all add: humanoidStep_def Let_def split_beta split: option.split)

lemma frameBody_face [simp]:
  "vrm (snd (frameBody f v s)) = vrm (snd (faceStep f s))"
  "nextBlinkTime (snd (frameBody f v s)) = nextBlinkTime (snd (faceStep f s))"
  "analyser (snd (frameBody f v s)) = analyser (snd (faceStep f s))"
  "dataArray (snd (frameBody f v s)) = dataArray (snd (faceStep f s))"
  "isSpeaking (snd (frameBody f v s)) = isSpeaking (snd (faceStep f s))"
  "speechIntensity (snd (frameBody f v s)) = speechIntensity (snd (faceStep f s))"
  "targetSpeechIntensity (snd (frameBody f v s)) = targetSpeechIntensity (snd (faceStep f s))"
  "currentExpression (snd (frameBody f v s)) = currentExpression (snd (faceStep f s))"
  "previousExpression (snd (frameBody f v s)) = previousExpression (snd (faceStep f s))"
  "expressionIntensity (snd (frameBody f v s)) = expressionIntensity (snd (faceStep f s))"
  "targetExpressionIntensity (snd (frameBody f v s)) = targetExpressionIntensity (snd (faceStep f s))"
  "nextExpressionTime (snd (frameBody f v s)) = nextExpressionTime (snd (faceStep f s))"
  "expressionTransitionProgress (snd (frameBody f v s)) = expressionTransitionProgress (snd (faceStep f s))"
  "mouthShapes (snd (frameBody f v s)) = mouthShapes (snd (faceStep f s))"
  "targetMouthShapes (snd (frameBody f v s)) = targetMouthShapes (snd (faceStep f s))"
  "expressionValues (snd (frameBody f v s)) = expressionValues (snd (faceStep f s))"
  "targetExpressionValues (snd (frameBody f v s)) = targetExpressionValues (snd (faceStep f s))"
  by (simp_all add: frameBody_def Let_def)

lemma animate_fields [simp]:
  assumes "vrm s = Some v"
  shows
  "nextBlinkTime (animate f s) = nextBlinkTime (snd (frameBody f v s))"
  and "analyser (animate f s) = analyser (snd (frameBody f v s))"
  and "dataArray (animate f s) = dataArray (snd (frameBody f v s))"
  and "isSpeaking (animate f s) = isSpeaking (snd (frameBody f v s))"
  and "speechIntensity (animate f s) = speechIntensity (snd (frameBody f v s))"
  and "targetSpeechIntensity (animate f s) = targetSpeechIntensity (snd (frameBody f v s))"
  and "gesturePhase (animate f s) = gesturePhase (snd (frameBody f v s))"
  and "currentGesture (animate f s) = currentGesture (snd (frameBody f v s))"
  and "nextGestureTime (animate f s) = nextGestureTime (snd (frameBody f v s))"
  and "gestureTransitionProgress (animate f s) = gestureTransitionProgress (snd (frameBody f v s))"
  and "previousGesture (animate f s) = previousGesture (snd (frameBody f v s))"
  and "headRotation (animate f s) = headRotation (snd (frameBody f v s))"
  and "targetHeadRotation (animate f s) = targetHeadRotation (snd (frameBody f v s))"
  and "previousHeadRotation (animate f s) = previousHeadRotation (snd (frameBody f v s))"
  and "leftArmRotation (animate f s) = leftArmRotation (snd (frameBody f v s))"
  and "rightArmRotation (animate f s) = rightArmRotation (snd (frameBody f v s))"
  and "targetLeftArmRotation (animate f s) = targetLeftArmRotation (snd (frameBody f v s))"
  and "targetRightArmRotation (animate f s) = targetRightArmRotation (snd (frameBody f v s))"
  and "leftLowerArmRotation (animate f s) = leftLowerArmRotation (snd (frameBody f v s))"
  and "rightLowerArmRotation (animate f s) = rightLowerArmRotation (snd (frameBody f v s))"
  and "targetLeftLowerArmRotation (animate f s) = targetLeftLowerArmRotation (snd (frameBody f v s))"
  and "targetRightLowerArmRotation (animate f s) = targetRightLowerArmRotation (snd (frameBody f v s))"
  and "handRotation (animate f s) = handRotation (snd (frameBody f v s))"
  and "targetHandRotation (animate f s) = targetHandRotation (snd (frameBody f v s))"
  and "eyebrowIntensity (animate f s) = eyebrowIntensity (snd (frameBody f v s))"
  and "targetEyebrowIntensity (animate f s) = targetEyebrowIntensity (snd (frameBody f v s))"
  and "neckRotation (animate f s) = neckRotation (snd (frameBody f v s))"
  and "targetNeckRotation (animate f s) = targetNeckRotation (snd (frameBody f v s))"
  and "currentExpression (animate f s) = currentExpression (snd (frameBody f v s))"
  and "previousExpression (animate f s) = previousExpression (snd (frameBody f v s))"
  and "expressionIntensity (animate f s) = expressionIntensity (snd (frameBody f v s))"
  and "targetExpressionIntensity (animate f s) = targetExpressionIntensity (snd (frameBody f v s))"
  and "nextExpressionTime (animate f s) = nextExpressionTime (snd (frameBody f v s))"
  and "expressionTransitionProgress (animate f s) = expressionTransitionProgress (snd (frameBody f v s))"
  and "mouthShapes (animate f s) = mouthShapes (snd (frameBody f v s))"
  and "targetMouthShapes (animate f s) = targetMouthShapes (snd (frameBody f v s))"
  and "expressionValues (animate f s) = expressionValues (snd (frameBody f v s))"
  and "targetExpressionValues (animate f s) = targetExpressionValues (snd (frameBody f v s))"
  using assms by (simp_all add: animate_def split_beta)

lemma animate_not_loaded: "vrm s = None \<Longrightarrow> animate f s = s"
  by (simp add: animate_def)

lemma faceStep_isSpeaking [simp]:
  "isSpeaking (snd (faceStep f s)) = isSpeaking (snd (audioAnalysis f s))"
  by (simp add: faceStep_def Let_def split_beta)

lemma animate_isSpeaking:
  "vrm s = Some v \<Longrightarrow> isSpeaking (animate f s) = isSpeaking (snd (audioAnalysis f s))"
  by simp

text \<open>The audio analysis of the sample frames: silence, and every bin at 255.\<close>

lemma sample_simps:
  "analyser sampleScene" "dataArray sampleScene = replicate 128 0"
  "\<not> isSpeaking sampleScene" "nextBlinkTime sampleScene = 2"
  "elapsedTime (sampleFrame t bins) = t" "spectrum (sampleFrame t bins) = bins"
  "deltaTime (sampleFrame t bins) = 1 / 60"
  by (simp_all add: sampleScene_def onLoad_def initialState_def sampleFrame_def)

lemma audio_silence:
  assumes "analyser s" and "length (dataArray s) = 128"
    and "spectrum f = Some (replicate 128 0)"
  shows "fst (audioAnalysis f s) = silentBands"
    and "isSpeaking (snd (audioAnalysis f s)) = isSpeaking (detectSpeech 0 s)"
    and "targetSpeechIntensity (snd (audioAnalysis f s)) = 0"
  using assms
  by (simp_all add: audioAnalysis_def getByteFrequencyData_def byteSum_def slice_def
      silentBands_def Let_def detectSpeech_def sum_list_replicate)

lemma audio_loud:
  assumes "analyser s" and "length (dataArray s) = 128"
    and "spectrum f = Some (replicate 128 255)"
  shows "fst (audioAnalysis f s)
           = \<lparr>audioVolume = 1, lowFreq = 1, midFreq = 1, highFreq = 44 / 42\<rparr>"
    and "isSpeaking (snd (audioAnalysis f s))"
    and "targetSpeechIntensity (snd (audioAnalysis f s)) = 1"
  using assms
  by (simp_all add: audioAnalysis_def getByteFrequencyData_def byteSum_def slice_def
      Let_def detectSpeech_def sum_list_replicate)

lemma faceStep_nextBlinkTime:
  "nextBlinkTime (snd (faceStep f s))
     = (if nextBlinkTime s \<le> elapsedTime f \<and> \<not> isSpeaking (snd (audioAnalysis f s))
        then elapsedTime f + 2.5 + rndBlink f * 3.5 else nextBlinkTime s)"
  by (simp add: faceStep_def Let_def split_beta blinkStep_def reseedBlink_def)

lemma faceStep_blink_target:
  "blink (targetExpressionValues (snd (faceStep f s)))
     = easeInOutCubic (blinkProgress (elapsedTime f) (nextBlinkTime (snd (faceStep f s))))"
  by (simp add: faceStep_def Let_def split_beta weightsStep_def moodTargets_def blinkStep_def)

lemma blinkProgress_unit: "0 \<le> blinkProgress e n" "blinkProgress e n \<le> 1"
  by (simp_all add: blinkProgress_def)

lemma easeInOutCubic_unit:
  assumes "0 \<le> t" "t \<le> 1"
  shows "0 \<le> easeInOutCubic t" "easeInOutCubic t \<le> 1"
proof -
  have a: "0 \<le> t * t * t" using assms by simp
  have b: "t * t * t \<le> 1 / 8" if "t < 1 / 2"
  proof -
    have "t * t \<le> (1 / 2) * (1 / 2)" using assms that by (intro mult_mono) simp_all
    then have "t * t * t \<le> (1 / 2) * (1 / 2) * (1 / 2)" using assms that by (intro mult_mono) simp_all
    then show ?thesis by simp
  qed
  have c: "0 \<le> (- 2 * t + 2) ^ 3" using assms by simp
  have d: "(- 2 * t + 2) ^ 3 \<le> 1" if "\<not> t < 1 / 2"
    using assms that by (intro power_le_one) simp_all
  show "0 \<le> easeInOutCubic t" using a d c by (auto simp: easeInOutCubic_def)
  show "easeInOutCubic t \<le> 1" using b c by (auto simp: easeInOutCubic_def)
qed

lemma blinkProgress_pulse:
  "blinkProgress e n = (if n - 0.3 \<le> e \<and> e \<le> n then 1 - \<bar>e - (n - 0.15)\<bar> / 0.15 else 0)"
  by (auto simp: blinkProgress_def max_def abs_if field_simps)

text \<open>
  C4, as amended. On every frame of a loaded model where the blink timer is due and the
  avatar is not speaking, \<^verbatim>\<open>nextBlinkTime\<close> is reseeded to the elapsed time plus a
  value in \<open>[2.5, 6.0)\<close>. On every frame, speaking or not, the blink target is the
  eased value of a triangular pulse over the timer as it stands after the reseeding: the
  pulse is 0.3 seconds wide, rises from \<open>nextBlinkTime - 0.3\<close>, peaks at
  \<open>nextBlinkTime - 0.15\<close>, about which it is symmetric, and is back at 0 at
  \<open>nextBlinkTime\<close>; the target lies in \<open>[0, 1]\<close>.
\<close>

theorem blink_timer_and_pulse:
  assumes "vrm s = Some v" and "0 \<le> rndBlink f" and "rndBlink f < 1"
  shows "(nextBlinkTime s \<le> elapsedTime f \<and> \<not> isSpeaking (animate f s) \<longrightarrow>
            nextBlinkTime (animate f s) = elapsedTime f + 2.5 + rndBlink f * 3.5
            \<and> elapsedTime f + 2.5 \<le> nextBlinkTime (animate f s)
            \<and> nextBlinkTime (animate f s) < elapsedTime f + 6)
       \<and> blink (targetExpressionValues (animate f s))
            = easeInOutCubic (blinkProgress (elapsedTime f) (nextBlinkTime (animate f s)))
       \<and> 0 \<le> blink (targetExpressionValues (animate f s))
       \<and> blink (targetExpressionValues (animate f s)) \<le> 1
       \<and> blinkProgress e n
            = (if n - 0.3 \<le> e \<and> e \<le> n then 1 - \<bar>e - (n - 0.15)\<bar> / 0.15 else 0)
       \<and> blinkProgress (n - 0.15 + d) n = blinkProgress (n - 0.15 - d) n
       \<and> easeInOutCubic 0 = 0 \<and> easeInOutCubic 1 = 1"
proof -
  have reseed: "nextBlinkTime s \<le> elapsedTime f \<and> \<not> isSpeaking (animate f s) \<longrightarrow>
            nextBlinkTime (animate f s) = elapsedTime f + 2.5 + rndBlink f * 3.5
            \<and> elapsedTime f + 2.5 \<le> nextBlinkTime (animate f s)
            \<and> nextBlinkTime (animate f s) < elapsedTime f + 6"
    using assms by (simp add: faceStep_nextBlinkTime)
  have target: "blink (targetExpressionValues (animate f s))
            = easeInOutCubic (blinkProgress (elapsedTime f) (nextBlinkTime (animate f s)))"
    using assms(1) by (simp add: faceStep_blink_target)
  have unit: "0 \<le> blink (targetExpressionValues (animate f s))"
      "blink (targetExpressionValues (animate f s)) \<le> 1"
    unfolding target by (rule easeInOutCubic_unit; rule blinkProgress_unit)+
  have sym: "blinkProgress (n - 0.15 + d) n = blinkProgress (n - 0.15 - d) n"
    by (simp add: blinkProgress_def)
  have ends: "easeInOutCubic 0 = 0" "easeInOutCubic 1 = 1"
    by (simp_all add: easeInOutCubic_def)
  show ?thesis
    using reseed target unit sym ends blinkProgress_pulse [of e n] by blast
qed

text \<open>
  A silent frame at 3 seconds, with the timer due since 2 seconds and a random value of
  1/2: the timer moves to 7.25 seconds and the blink target is 0.
\<close>

theorem blink_timer_and_pulse_witness:
  "nextBlinkTime (animate (sampleFrame 3 (Some (replicate 128 0))) sampleScene) = 29 / 4
   \<and> blink (targetExpressionValues
        (animate (sampleFrame 3 (Some (replicate 128 0))) sampleScene)) = 0"
proof -
  define f where "f = sampleFrame 3 (Some (replicate 128 0))"
  have v: "vrm sampleScene = Some sampleRig"
    by (simp add: sampleScene_def onLoad_def)
  have quiet: "\<not> isSpeaking (animate f sampleScene)"
    using v by (simp add: f_def audio_silence sample_simps detectSpeech_def)
  have due: "nextBlinkTime sampleScene \<le> elapsedTime f"
    by (simp add: f_def sample_simps)
  have r: "0 \<le> rndBlink f" "rndBlink f < 1" by (simp_all add: f_def sampleFrame_def)
  have n: "nextBlinkTime (animate f sampleScene) = elapsedTime f + 2.5 + rndBlink f * 3.5"
    using blink_timer_and_pulse [OF v r, of 0 0 0] due quiet by blast
  then have n': "nextBlinkTime (animate f sampleScene) = 29 / 4"
    by (simp add: f_def sampleFrame_def)
  have "blink (targetExpressionValues (animate f sampleScene))
      = easeInOutCubic (blinkProgress (elapsedTime f) (nextBlinkTime (animate f sampleScene)))"
    using blink_timer_and_pulse [OF v r, of 0 0 0] by blast
  then have "blink (targetExpressionValues (animate f sampleScene)) = 0"
    unfolding n' by (simp add: f_def sampleFrame_def blinkProgress_def easeInOutCubic_def)
  then show ?thesis using n' unfolding f_def by simp
qed

text \<open>
  With the timer at 10 seconds the pulse is 0 at 10 seconds and 1 at 9.85 seconds, and
  it differs 0.1 seconds before and 0.1 seconds after the timer: it is not centred on
  \<^verbatim>\<open>nextBlinkTime\<close>.
\<close>

theorem blink_pulse_centre_counterexample:
  "blinkProgress 10 10 = 0 \<and> blinkProgress (10 - 0.15) 10 = 1
   \<and> blinkProgress (10 - 0.1) 10 \<noteq> blinkProgress (10 + 0.1) 10"
  by (simp add: blinkProgress_def)

subsection \<open>The bones a frame writes to are those the model has\<close>

lemma dom_withBone [simp]: "dom (withBone n g b) = dom b"
  by (auto simp: withBone_def split: option.splits)

lemma dom_fold_withBone:
  "dom (fold (\<lambda>(i, n). withBone n (g i)) xs b) = dom b"
  by (induction xs arbitrary: b) (auto simp: split_beta)

lemma dom_fingersStep [simp]: "dom (fingersStep f s b) = dom b"
  unfolding fingersStep_def by (rule dom_fold_withBone)

lemma dom_breathStep [simp]: "dom (breathStep f s b) = dom b"
  by (auto simp: breathStep_def Let_def split: option.splits if_splits)

lemma dom_headStep [simp]: "dom (fst (headStep f b s)) = dom b"
  by (auto simp: headStep_def Let_def split: option.splits if_splits)

lemma dom_neckStep [simp]: "dom (fst (neckStep f b s)) = dom b"
  by (auto simp: neckStep_def Let_def split: option.splits if_splits)

lemma dom_applyArms [simp]: "dom (applyArms s b) = dom b"
  by (simp add: applyArms_def)

lemma dom_shouldersStep [simp]: "dom (shouldersStep f s b) = dom b"
  by (simp add: shouldersStep_def Let_def)

lemma dom_hipsStep [simp]: "dom (hipsStep f b) = dom b"
  by (simp add: hipsStep_def Let_def)

lemma humanoid_applyExpressions [simp]: "humanoid (applyExpressions s v) = humanoid v"
  by (simp add: applyExpressions_def split: option.split)

lemma humanoidStep_bones:
  "map_option dom (humanoid (fst (humanoidStep f v s))) = map_option dom (humanoid v)"
  by (simp add: humanoidStep_def Let_def split_beta split: option.split)

lemma frameBody_bones:
  "map_option dom (humanoid (fst (frameBody f v s))) = map_option dom (humanoid v)"
  by (simp add: frameBody_def Let_def humanoidStep_bones)

lemma hasHead_iff:
  "hasHead s \<longleftrightarrow> (\<exists>v. vrm s = Some v \<and> map_option dom (humanoid v) \<in> Some ` {d. ''head'' \<in> d})"
  by (auto simp: hasHead_def split: option.splits)

lemma vrm_animate:
  "vrm s = Some v \<Longrightarrow> vrm (animate f s) = Some (fst (frameBody f v s))"
  by (simp add: animate_def split_beta)

lemma hasHead_animate [simp]: "hasHead (animate f s) = hasHead s"
proof (cases "vrm s")
  case None
  then show ?thesis by (simp add: animate_not_loaded)
next
  case (Some v)
  then show ?thesis by (simp add: hasHead_iff vrm_animate frameBody_bones)
qed

lemma hasHead_bones:
  "vrm s = Some v \<Longrightarrow> hasHead s \<longleftrightarrow> (\<exists>b h. humanoid v = Some b \<and> b ''head'' = Some h)"
  by (auto simp: hasHead_def split: option.splits)

subsection \<open>The gesture variables over a frame\<close>

lemma breathStep_head [simp]: "breathStep f s b ''head'' = b ''head''"
  by (simp add: breathStep_def Let_def split: option.split)

lemma headStep_absent: "b ''head'' = None \<Longrightarrow> snd (headStep f b s) = s"
  by (simp add: headStep_def)

lemma headStep_present:
  "b ''head'' = Some h \<Longrightarrow>
   snd (headStep f b s)
     = (let s1 = (if isSpeaking s then speakingHead f s else idleHead f s)
        in s1\<lparr>headRotation :=
                smoothVec (headRotation s1) (targetHeadRotation s1) 0.08 (deltaTime f)\<rparr>)"
  by (simp add: headStep_def Let_def)

lemma humanoidStep_absent: "humanoid v = None \<Longrightarrow> humanoidStep f v s = (v, s)"
  by (simp add: humanoidStep_def)

lemma humanoidStep_gesture:
  assumes "humanoid v = Some b"
  shows "gesturePhase (snd (humanoidStep f v s)) = gesturePhase (snd (headStep f (breathStep f s b) s))"
    and "currentGesture (snd (humanoidStep f v s)) = currentGesture (snd (headStep f (breathStep f s b) s))"
    and "nextGestureTime (snd (humanoidStep f v s)) = nextGestureTime (snd (headStep f (breathStep f s b) s))"
    and "gestureTransitionProgress (snd (humanoidStep f v s))
           = gestureTransitionProgress (snd (headStep f (breathStep f s b) s))"
    and "previousGesture (snd (humanoidStep f v s)) = previousGesture (snd (headStep f (breathStep f s b) s))"
    and "previousHeadRotation (snd (humanoidStep f v s))
           = previousHeadRotation (snd (headStep f (breathStep f s b) s))"
    and "targetHeadRotation (snd (humanoidStep f v s))
           = targetHeadRotation (snd (headStep f (breathStep f s b) s))"
    and "targetEyebrowIntensity (snd (humanoidStep f v s))
           = targetEyebrowIntensity (snd (headStep f (breathStep f s b) s))"
  using assms by (simp_all add: humanoidStep_def Let_def split_beta)

lemma selectGesture_due:
  assumes "nextGestureTime s \<le> elapsedTime f"
  shows "previousGesture (selectGesture f s) = currentGesture s"
    and "previousHeadRotation (selectGesture f s) = targetHeadRotation s"
    and "currentGesture (selectGesture f s) = \<lfloor>rndGesture f * 7\<rfloor>"
    and "nextGestureTime (selectGesture f s) = elapsedTime f + 2 + rndGestureTime f * 2"
    and "gesturePhase (selectGesture f s) = 0"
    and "gestureTransitionProgress (selectGesture f s) = 0"
  using assms by (simp_all add: selectGesture_def)

lemma selectGesture_not_due:
  "elapsedTime f < nextGestureTime s \<Longrightarrow> selectGesture f s = s"
  by (simp add: selectGesture_def)

lemma speakingHead_gesture:
  "previousGesture (speakingHead f s) = previousGesture (selectGesture f s)"
  "previousHeadRotation (speakingHead f s) = previousHeadRotation (selectGesture f s)"
  "currentGesture (speakingHead f s) = currentGesture (selectGesture f s)"
  "nextGestureTime (speakingHead f s) = nextGestureTime (selectGesture f s)"
  "gesturePhase (speakingHead f s) = gesturePhase (selectGesture f s) + deltaTime f"
  "gestureTransitionProgress (speakingHead f s)
     = (if gestureTransitionProgress (selectGesture f s) < 1
        then min 1 (gestureTransitionProgress (selectGesture f s) + deltaTime f * 1.5)
        else gestureTransitionProgress (selectGesture f s))"
  by (simp_all add: speakingHead_def Let_def split_beta)

text \<open>The gesture variables after a frame of a model with a head bone.\<close>

lemma frameBody_head:
  assumes "humanoid v = Some b" and "b ''head'' = Some h"
  shows "gesturePhase (snd (frameBody f v s))
           = gesturePhase (if isSpeaking (snd (faceStep f s))
               then speakingHead f (snd (faceStep f s)) else idleHead f (snd (faceStep f s)))"
    and "currentGesture (snd (frameBody f v s))
           = currentGesture (if isSpeaking (snd (faceStep f s))
               then speakingHead f (snd (faceStep f s)) else idleHead f (snd (faceStep f s)))"
    and "nextGestureTime (snd (frameBody f v s))
           = nextGestureTime (if isSpeaking (snd (faceStep f s))
               then speakingHead f (snd (faceStep f s)) else idleHead f (snd (faceStep f s)))"
    and "gestureTransitionProgress (snd (frameBody f v s))
           = gestureTransitionProgress (if isSpeaking (snd (faceStep f s))
               then speakingHead f (snd (faceStep f s)) else idleHead f (snd (faceStep f s)))"
    and "previousGesture (snd (frameBody f v s))
           = previousGesture (if isSpeaking (snd (faceStep f s))
               then speakingHead f (snd (faceStep f s)) else idleHead f (snd (faceStep f s)))"
    and "previousHeadRotation (snd (frameBody f v s))
           = previousHeadRotation (if isSpeaking (snd (faceStep f s))
               then speakingHead f (snd (faceStep f s)) else idleHead f (snd (faceStep f s)))"
  using assms
  by (simp_all add: frameBody_def Let_def humanoidStep_gesture headStep_present)

lemma frameBody_no_head:
  assumes "humanoid v = None \<or> (\<exists>b. humanoid v = Some b \<and> b ''head'' = None)"
  shows "gesturePhase (snd (frameBody f v s)) = gesturePhase s"
    and "currentGesture (snd (frameBody f v s)) = currentGesture s"
    and "nextGestureTime (snd (frameBody f v s)) = nextGestureTime s"
    and "gestureTransitionProgress (snd (frameBody f v s)) = gestureTransitionProgress s"
    and "previousGesture (snd (frameBody f v s)) = previousGesture s"
    and "previousHeadRotation (snd (frameBody f v s)) = previousHeadRotation s"
  using assms
  by (auto simp: frameBody_def Let_def humanoidStep_gesture headStep_absent humanoidStep_absent)

lemma length_getByteFrequencyData [simp]:
  "length (getByteFrequencyData bins array) = length array"
  by (simp add: getByteFrequencyData_def)

lemma audioAnalysis_length [simp]:
  "length (dataArray (snd (audioAnalysis f s))) = length (dataArray s)"
  by (simp add: audioAnalysis_def Let_def split: option.split)

lemma animate_length [simp]: "length (dataArray (animate f s)) = length (dataArray s)"
  by (cases "vrm s") (simp_all add: animate_not_loaded faceStep_def Let_def split_beta)

lemma animate_analyser [simp]: "analyser (animate f s) = analyser s"
  by (cases "vrm s") (simp_all add: animate_not_loaded)

lemma animate_speaking_gesture:
  assumes "vrm s = Some v" and "humanoid v = Some b" and "b ''head'' = Some h"
    and "isSpeaking (animate f s)"
  shows "previousGesture (animate f s)
           = (if nextGestureTime s \<le> elapsedTime f then currentGesture s else previousGesture s)"
    and "previousHeadRotation (animate f s)
           = (if nextGestureTime s \<le> elapsedTime f then targetHeadRotation s
              else previousHeadRotation s)"
    and "currentGesture (animate f s)
           = (if nextGestureTime s \<le> elapsedTime f then \<lfloor>rndGesture f * 7\<rfloor>
              else currentGesture s)"
    and "nextGestureTime (animate f s)
           = (if nextGestureTime s \<le> elapsedTime f
              then elapsedTime f + 2 + rndGestureTime f * 2 else nextGestureTime s)"
    and "gesturePhase (animate f s)
           = (if nextGestureTime s \<le> elapsedTime f then 0 else gesturePhase s) + deltaTime f"
    and "gestureTransitionProgress (animate f s)
           = (let g = (if nextGestureTime s \<le> elapsedTime f then 0
                       else gestureTransitionProgress s)
              in if g < 1 then min 1 (g + deltaTime f * 1.5) else g)"
  using assms
  by (simp_all add: frameBody_head speakingHead_gesture selectGesture_def Let_def)

lemma animate_idle_gesture:
  assumes "vrm s = Some v" and "humanoid v = Some b" and "b ''head'' = Some h"
    and "\<not> isSpeaking (animate f s)"
  shows "currentGesture (animate f s) = 0"
    and "gesturePhase (animate f s) = 0"
    and "gestureTransitionProgress (animate f s) = 1"
    and "nextGestureTime (animate f s) = elapsedTime f + 2"
  using assms by (simp_all add: frameBody_head idleHead_def)

lemma animate_no_head_gesture:
  assumes "\<not> hasHead s"
  shows "currentGesture (animate f s) = currentGesture s"
proof (cases "vrm s")
  case None
  then show ?thesis by (simp add: animate_not_loaded)
next
  case (Some v)
  with assms have "humanoid v = None \<or> (\<exists>b. humanoid v = Some b \<and> b ''head'' = None)"
    by (auto simp: hasHead_def split: option.splits)
  then show ?thesis using Some by (simp add: frameBody_no_head)
qed

lemma floor_seven:
  assumes "0 \<le> r" and "r < 1"
  shows "0 \<le> \<lfloor>r * 7 :: real\<rfloor>" and "\<lfloor>r * 7 :: real\<rfloor> \<le> 6"
proof -
  show "0 \<le> \<lfloor>r * 7\<rfloor>" using assms by simp
  have "r * 7 < 7" using assms by simp
  then have "\<lfloor>r * 7\<rfloor> < 7" by (simp add: floor_less_iff)
  then show "\<lfloor>r * 7\<rfloor> \<le> 6" by simp
qed

text \<open>
  C5, as amended. On a Speaking frame of a model with a head bone where
  \<open>elapsedTime \<ge> nextSelectTime\<close>, the gesture controller snapshots the head target left
  by the previous frame as \<open>previousTarget\<close>, chooses the variant
  \<open>\<lfloor>random * 7\<rfloor>\<close> among the 7 variants, each for random values in an interval of
  length 1/7, reseeds \<open>nextSelectTime\<close> to the elapsed time plus a value in \<open>[2, 4)\<close>,
  and resets \<open>transitionProgress\<close> and \<open>phase\<close> to 0, which the same frame then advances
  by its duration. On a Speaking frame where \<open>elapsedTime < nextSelectTime\<close> no variant is
  selected and the timer is kept. Every idle frame sets \<open>nextSelectTime\<close> to the elapsed
  time plus 2 and the variant to 0; so a frame that enters Speaking less than 2 seconds
  after that idle frame selects nothing: the variant stays 0 and the timer is kept.
\<close>

theorem gesture_selection:
  assumes "vrm s = Some v" and "humanoid v = Some b" and "b ''head'' = Some h"
    and "0 \<le> rndGesture f" and "rndGesture f < 1"
    and "0 \<le> rndGestureTime f" and "rndGestureTime f < 1"
  shows "(isSpeaking (animate f s) \<and> nextGestureTime s \<le> elapsedTime f \<longrightarrow>
            previousHeadRotation (animate f s) = targetHeadRotation s
          \<and> previousGesture (animate f s) = currentGesture s
          \<and> currentGesture (animate f s) = \<lfloor>rndGesture f * 7\<rfloor>
          \<and> 0 \<le> currentGesture (animate f s) \<and> currentGesture (animate f s) \<le> 6
          \<and> nextGestureTime (animate f s) = elapsedTime f + 2 + rndGestureTime f * 2
          \<and> elapsedTime f + 2 \<le> nextGestureTime (animate f s)
          \<and> nextGestureTime (animate f s) < elapsedTime f + 4
          \<and> gesturePhase (selectGesture f s) = 0
          \<and> gestureTransitionProgress (selectGesture f s) = 0
          \<and> gesturePhase (animate f s) = deltaTime f
          \<and> gestureTransitionProgress (animate f s) = min 1 (deltaTime f * 1.5))
       \<and> (isSpeaking (animate f s) \<and> elapsedTime f < nextGestureTime s \<longrightarrow>
            previousHeadRotation (animate f s) = previousHeadRotation s
          \<and> previousGesture (animate f s) = previousGesture s
          \<and> currentGesture (animate f s) = currentGesture s
          \<and> nextGestureTime (animate f s) = nextGestureTime s
          \<and> gesturePhase (animate f s) = gesturePhase s + deltaTime f)
       \<and> (\<not> isSpeaking (animate f s) \<longrightarrow>
            nextGestureTime (animate f s) = elapsedTime f + 2
          \<and> currentGesture (animate f s) = 0
          \<and> gesturePhase (animate f s) = 0
          \<and> gestureTransitionProgress (animate f s) = 1)
       \<and> (\<not> isSpeaking (animate f s) \<and> isSpeaking (animate f' (animate f s))
            \<and> elapsedTime f' < elapsedTime f + 2 \<longrightarrow>
            currentGesture (animate f' (animate f s)) = 0
          \<and> nextGestureTime (animate f' (animate f s)) = elapsedTime f + 2
          \<and> previousGesture (animate f' (animate f s)) = previousGesture (animate f s)
          \<and> previousHeadRotation (animate f' (animate f s)) = previousHeadRotation (animate f s)
          \<and> gestureTransitionProgress (animate f' (animate f s)) = 1)
       \<and> (\<forall>k. \<lfloor>rndGesture f * 7\<rfloor> = k
              \<longleftrightarrow> real_of_int k / 7 \<le> rndGesture f \<and> rndGesture f < (real_of_int k + 1) / 7)"
proof -
  note rig = assms(1-3)
  have due: "previousHeadRotation (animate f s) = targetHeadRotation s
          \<and> previousGesture (animate f s) = currentGesture s
          \<and> currentGesture (animate f s) = \<lfloor>rndGesture f * 7\<rfloor>
          \<and> 0 \<le> currentGesture (animate f s) \<and> currentGesture (animate f s) \<le> 6
          \<and> nextGestureTime (animate f s) = elapsedTime f + 2 + rndGestureTime f * 2
          \<and> elapsedTime f + 2 \<le> nextGestureTime (animate f s)
          \<and> nextGestureTime (animate f s) < elapsedTime f + 4
          \<and> gesturePhase (selectGesture f s) = 0
          \<and> gestureTransitionProgress (selectGesture f s) = 0
          \<and> gesturePhase (animate f s) = deltaTime f
          \<and> gestureTransitionProgress (animate f s) = min 1 (deltaTime f * 1.5)"
    if sp: "isSpeaking (animate f s)" and d: "nextGestureTime s \<le> elapsedTime f"
    using floor_seven [OF assms(4,5)] assms(6,7) d
    by (simp add: animate_speaking_gesture [OF rig sp] selectGesture_due Let_def)
  have wait: "previousHeadRotation (animate f s) = previousHeadRotation s
          \<and> previousGesture (animate f s) = previousGesture s
          \<and> currentGesture (animate f s) = currentGesture s
          \<and> nextGestureTime (animate f s) = nextGestureTime s
          \<and> gesturePhase (animate f s) = gesturePhase s + deltaTime f"
    if sp: "isSpeaking (animate f s)" and d: "elapsedTime f < nextGestureTime s"
    using d by (simp add: animate_speaking_gesture [OF rig sp])
  have idle: "nextGestureTime (animate f s) = elapsedTime f + 2
          \<and> currentGesture (animate f s) = 0
          \<and> gesturePhase (animate f s) = 0
          \<and> gestureTransitionProgress (animate f s) = 1"
    if q: "\<not> isSpeaking (animate f s)"
    using animate_idle_gesture [OF rig q] by simp
  have entry: "currentGesture (animate f' (animate f s)) = 0
          \<and> nextGestureTime (animate f' (animate f s)) = elapsedTime f + 2
          \<and> previousGesture (animate f' (animate f s)) = previousGesture (animate f s)
          \<and> previousHeadRotation (animate f' (animate f s)) = previousHeadRotation (animate f s)
          \<and> gestureTransitionProgress (animate f' (animate f s)) = 1"
    if q: "\<not> isSpeaking (animate f s)" and sp: "isSpeaking (animate f' (animate f s))"
      and soon: "elapsedTime f' < elapsedTime f + 2"
  proof -
    have "hasHead s" using rig by (simp add: hasHead_def)
    then have "hasHead (animate f s)" by simp
    then obtain v1 b1 h1 where rig1: "vrm (animate f s) = Some v1" "humanoid v1 = Some b1"
        "b1 ''head'' = Some h1"
      by (auto simp: hasHead_def split: option.splits)
    show ?thesis
      using animate_speaking_gesture [OF rig1 sp] idle [OF q] soon by simp
  qed
  have uni: "\<forall>k. \<lfloor>rndGesture f * 7\<rfloor> = k
              \<longleftrightarrow> real_of_int k / 7 \<le> rndGesture f \<and> rndGesture f < (real_of_int k + 1) / 7"
    by (auto simp: floor_eq_iff field_simps)
  show ?thesis using due wait idle entry uni by blast
qed

lemma sampleRig_head:
  "vrm sampleScene = Some sampleRig"
  "humanoid sampleRig = Some [''head'' \<mapsto> V 0 0 0, ''neck'' \<mapsto> V 0 0 0, ''spine'' \<mapsto> V 0 0 0,
                       ''chest'' \<mapsto> V 0 0 0, ''hips'' \<mapsto> V 0 0 0,
                       ''leftUpperArm'' \<mapsto> V 0 0 0, ''leftShoulder'' \<mapsto> V 0 0 0,
                       ''leftIndexProximal'' \<mapsto> V 0 0 0]"
  "hasHead sampleScene"
  by (simp_all add: sampleScene_def onLoad_def sampleRig_def hasHead_def)

lemma sample_simps2:
  "nextGestureTime sampleScene = 0" "currentGesture sampleScene = 0"
  "rndGesture (sampleFrame t bins) = 1 / 2" "rndGestureTime (sampleFrame t bins) = 1 / 2"
  "length (dataArray sampleScene) = 128"
  by (simp_all add: sampleScene_def onLoad_def initialState_def sampleFrame_def)

text \<open>
  The first frame of the sample scene, at 1 second and loud: the timer starts at 0, so
  variant \<open>\<lfloor>7 / 2\<rfloor> = 3\<close> is selected and the timer moves to 4 seconds. The same
  frame with a silent spectrum is idle and sets the timer to 3 seconds.
\<close>

theorem gesture_selection_witness:
  "currentGesture (animate (sampleFrame 1 (Some (replicate 128 255))) sampleScene) = 3
   \<and> nextGestureTime (animate (sampleFrame 1 (Some (replicate 128 255))) sampleScene) = 4
   \<and> gesturePhase (animate (sampleFrame 1 (Some (replicate 128 255))) sampleScene) = 1 / 60
   \<and> nextGestureTime (animate (sampleFrame 1 (Some (replicate 128 0))) sampleScene) = 3"
proof -
  define f where "f = sampleFrame 1 (Some (replicate 128 255))"
  define g where "g = sampleFrame 1 (Some (replicate 128 0))"
  have sp: "isSpeaking (animate f sampleScene)"
    by (simp add: sampleRig_head f_def audio_loud sample_simps sample_simps2)
  have q: "\<not> isSpeaking (animate g sampleScene)"
    by (simp add: sampleRig_head g_def audio_silence sample_simps sample_simps2 detectSpeech_def)
  have due: "nextGestureTime sampleScene \<le> elapsedTime f"
    by (simp add: f_def sample_simps sample_simps2)
  have "currentGesture (animate f sampleScene) = \<lfloor>rndGesture f * 7\<rfloor>
      \<and> nextGestureTime (animate f sampleScene) = elapsedTime f + 2 + rndGestureTime f * 2
      \<and> gesturePhase (animate f sampleScene) = deltaTime f"
    using gesture_selection [OF sampleRig_head(1) sampleRig_head(2), of "V 0 0 0" f f] due sp
    by (simp add: f_def sample_simps2)
  then have a: "currentGesture (animate f sampleScene) = 3
      \<and> nextGestureTime (animate f sampleScene) = 4
      \<and> gesturePhase (animate f sampleScene) = 1 / 60"
    by (simp add: f_def sample_simps sample_simps2)
  have "nextGestureTime (animate g sampleScene) = elapsedTime g + 2"
    using gesture_selection [OF sampleRig_head(1) sampleRig_head(2), of "V 0 0 0" g g] q
    by (simp add: g_def sample_simps2)
  then have b: "nextGestureTime (animate g sampleScene) = 3"
    by (simp add: g_def sample_simps)
  show ?thesis using a b unfolding f_def g_def by simp
qed

text \<open>
  A silent frame at 1 second, then a loud frame one sixtieth of a second later: the
  avatar enters Speaking, and although the random value would give variant 3, the
  variant stays 0, the timer stays at 3 seconds and the transition progress stays at 1.
\<close>

theorem speaking_entry_counterexample:
  "\<not> isSpeaking (animate (sampleFrame 1 (Some (replicate 128 0))) sampleScene)
   \<and> isSpeaking (animate (sampleFrame (1 + 1 / 60) (Some (replicate 128 255)))
        (animate (sampleFrame 1 (Some (replicate 128 0))) sampleScene))
   \<and> \<lfloor>rndGesture (sampleFrame (1 + 1 / 60) (Some (replicate 128 255))) * 7\<rfloor> = 3
   \<and> currentGesture (animate (sampleFrame (1 + 1 / 60) (Some (replicate 128 255)))
        (animate (sampleFrame 1 (Some (replicate 128 0))) sampleScene)) = 0
   \<and> nextGestureTime (animate (sampleFrame (1 + 1 / 60) (Some (replicate 128 255)))
        (animate (sampleFrame 1 (Some (replicate 128 0))) sampleScene)) = 3
   \<and> gestureTransitionProgress (animate (sampleFrame (1 + 1 / 60) (Some (replicate 128 255)))
        (animate (sampleFrame 1 (Some (replicate 128 0))) sampleScene)) = 1"
proof -
  define f1 where "f1 = sampleFrame 1 (Some (replicate 128 0))"
  define f2 where "f2 = sampleFrame (1 + 1 / 60) (Some (replicate 128 255))"
  define s1 where "s1 = animate f1 sampleScene"
  have quiet: "\<not> isSpeaking s1"
    by (simp add: s1_def sampleRig_head f1_def audio_silence sample_simps sample_simps2
        detectSpeech_def)
  have idle: "currentGesture s1 = 0" "gestureTransitionProgress s1 = 1"
      "nextGestureTime s1 = 3"
    using animate_idle_gesture [OF sampleRig_head(1) sampleRig_head(2) _ quiet [unfolded s1_def],
        of "V 0 0 0"]
    by (simp_all add: s1_def f1_def sample_simps)
  have "hasHead s1" by (simp add: s1_def sampleRig_head)
  then obtain v1 b1 h1 where rig: "vrm s1 = Some v1" "humanoid v1 = Some b1" "b1 ''head'' = Some h1"
    by (auto simp: hasHead_def split: option.splits)
  have audio: "analyser s1" "length (dataArray s1) = 128"
    by (simp_all add: s1_def sample_simps sample_simps2)
  have loud: "isSpeaking (animate f2 s1)"
    using rig(1) audio by (simp add: f2_def audio_loud sample_simps)
  have after: "currentGesture (animate f2 s1) = 0" "nextGestureTime (animate f2 s1) = 3"
      "gestureTransitionProgress (animate f2 s1) = 1"
    using animate_speaking_gesture [OF rig loud] idle
    by (simp_all add: f2_def sample_simps)
  have three: "\<lfloor>rndGesture f2 * 7\<rfloor> = 3" by (simp add: f2_def sample_simps2)
  show ?thesis
    using quiet loud after three unfolding s1_def f1_def f2_def by simp
qed

subsection \<open>The mood over a frame\<close>

lemma arrayAt_expressions:
  "arrayAt expressions i \<in> {''happy'', ''surprised'', ''thinking'', ''relaxed'', ''undefined''}"
proof -
  consider "i < 0" | "i = 0" | "i = 1" | "i = 2" | "i = 3" | "4 \<le> i" by linarith
  then show ?thesis
    by cases (simp_all add: arrayAt_def expressions_def)
qed

lemma arrayAt_not_neutral: "arrayAt expressions i \<noteq> ''neutral''"
  using arrayAt_expressions [of i] by auto

lemma selectExpression_silent:
  assumes "\<not> isSpeaking s"
  shows "currentExpression (selectExpression f s) = ''neutral''"
    and "targetExpressionIntensity (selectExpression f s)
           = (if currentExpression s = ''neutral'' then targetExpressionIntensity s else 0)"
  using assms by (simp_all add: selectExpression_def)

lemma selectExpression_neutral_target:
  assumes "currentExpression s = ''neutral'' \<longrightarrow> targetExpressionIntensity s = 0"
  shows "currentExpression (selectExpression f s) = ''neutral''
           \<longrightarrow> targetExpressionIntensity (selectExpression f s) = 0"
  using assms by (simp add: selectExpression_def arrayAt_not_neutral)

lemma faceStep_mood:
  "currentExpression (snd (faceStep f s))
     = currentExpression (selectExpression f (smoothSpeech f (snd (audioAnalysis f s))))"
  "targetExpressionIntensity (snd (faceStep f s))
     = targetExpressionIntensity (selectExpression f (smoothSpeech f (snd (audioAnalysis f s))))"
  by (simp_all add: faceStep_def Let_def split_beta)

lemma animate_neutral_target:
  assumes "currentExpression s = ''neutral'' \<longrightarrow> targetExpressionIntensity s = 0"
  shows "currentExpression (animate f s) = ''neutral''
           \<longrightarrow> targetExpressionIntensity (animate f s) = 0"
proof (cases "vrm s")
  case None
  then show ?thesis using assms by (simp add: animate_not_loaded)
next
  case (Some v)
  have "currentExpression (smoothSpeech f (snd (audioAnalysis f s))) = ''neutral''
      \<longrightarrow> targetExpressionIntensity (smoothSpeech f (snd (audioAnalysis f s))) = 0"
    using assms by simp
  then show ?thesis
    using Some selectExpression_neutral_target [of "smoothSpeech f (snd (audioAnalysis f s))" f]
    by (simp add: faceStep_mood)
qed

lemma animate_silent_mood:
  assumes "vrm s = Some v" and "\<not> isSpeaking (animate f s)"
  shows "currentExpression (animate f s) = ''neutral''"
    and "targetExpressionIntensity (animate f s)
           = (if currentExpression s = ''neutral'' then targetExpressionIntensity s else 0)"
proof -
  have q: "\<not> isSpeaking (smoothSpeech f (snd (audioAnalysis f s)))"
    using assms by simp
  show "currentExpression (animate f s) = ''neutral''"
    using assms(1) selectExpression_silent(1) [OF q] by (simp add: faceStep_mood)
  show "targetExpressionIntensity (animate f s)
           = (if currentExpression s = ''neutral'' then targetExpressionIntensity s else 0)"
    using assms(1) selectExpression_silent(2) [OF q, of f] by (simp add: faceStep_mood)
qed

text \<open>What holds of every scene that can arise.\<close>

lemma reachable_invariant:
  assumes "reachable s"
  shows "(\<not> hasHead s \<longrightarrow> currentGesture s = 0)
       \<and> (currentExpression s = ''neutral'' \<longrightarrow> targetExpressionIntensity s = 0)
       \<and> (vrm s = None \<longrightarrow> \<not> isSpeaking s \<and> currentExpression s = ''neutral'')"
  using assms
proof (induction rule: reachable.induct)
  case (mounted r)
  show ?case by (simp add: initialState_def)
next
  case (loaded s v audio)
  have "\<not> hasHead s" using loaded.hyps(2) by (simp add: hasHead_def)
  then have "currentGesture s = 0" using loaded.IH by blast
  then show ?case using loaded.IH loaded.hyps(2) by (simp add: onLoad_def Let_def)
next
  case (frame s f)
  show ?case
  proof (cases "vrm s")
    case None
    then show ?thesis using frame.IH by (simp add: animate_not_loaded)
  next
    case (Some v)
    have a: "\<not> hasHead (animate f s) \<longrightarrow> currentGesture (animate f s) = 0"
      using frame.IH by (simp add: animate_no_head_gesture)
    have b: "currentExpression (animate f s) = ''neutral''
        \<longrightarrow> targetExpressionIntensity (animate f s) = 0"
      using frame.IH by (intro animate_neutral_target) blast
    have c: "vrm (animate f s) \<noteq> None" using Some by (simp add: vrm_animate)
    show ?thesis using a b c by blast
  qed
qed

text \<open>
  C6. After every frame on which \<open>isSpeaking\<close> is false, of any scene that can arise,
  the gesture variant is the idle variant 0, the mood is neutral and the target
  intensity of the mood is 0. Apart from that reset by a silent frame, the variant
  changes only on frames that are speaking and have \<open>elapsedTime \<ge> nextSelectTime\<close>.
\<close>

theorem silence_resets_variant_and_mood:
  "(reachable s \<and> \<not> isSpeaking (animate f s) \<longrightarrow>
      currentGesture (animate f s) = 0
    \<and> currentExpression (animate f s) = ''neutral''
    \<and> targetExpressionIntensity (animate f s) = 0)
   \<and> (currentGesture (animate f s) \<noteq> currentGesture s \<longrightarrow>
        (isSpeaking (animate f s) \<and> nextGestureTime s \<le> elapsedTime f)
        \<or> (\<not> isSpeaking (animate f s) \<and> currentGesture (animate f s) = 0))"
proof -
  have silent: "currentGesture (animate f s) = 0
    \<and> currentExpression (animate f s) = ''neutral''
    \<and> targetExpressionIntensity (animate f s) = 0"
    if r: "reachable s" and q: "\<not> isSpeaking (animate f s)"
  proof (cases "vrm s")
    case None
    then show ?thesis
      using reachable_invariant [OF r] by (simp add: animate_not_loaded hasHead_def)
  next
    case (Some v)
    have gesture: "currentGesture (animate f s) = 0"
    proof (cases "hasHead s")
      case True
      then obtain b h where "humanoid v = Some b" "b ''head'' = Some h"
        using Some by (auto simp: hasHead_bones)
      then show ?thesis using animate_idle_gesture(1) [OF Some _ _ q] by blast
    next
      case False
      then show ?thesis using reachable_invariant [OF r] by (simp add: animate_no_head_gesture)
    qed
    have mood: "currentExpression (animate f s) = ''neutral''"
      using animate_silent_mood(1) [OF Some q] .
    have "targetExpressionIntensity (animate f s) = 0"
      using animate_neutral_target [of s f] reachable_invariant [OF r] mood by blast
    then show ?thesis using gesture mood by simp
  qed
  have change: "(isSpeaking (animate f s) \<and> nextGestureTime s \<le> elapsedTime f)
        \<or> (\<not> isSpeaking (animate f s) \<and> currentGesture (animate f s) = 0)"
    if c: "currentGesture (animate f s) \<noteq> currentGesture s"
  proof -
    have h: "hasHead s" using c animate_no_head_gesture [of s f] by blast
    then obtain v b h where rig: "vrm s = Some v" "humanoid v = Some b" "b ''head'' = Some h"
      by (auto simp: hasHead_def split: option.splits)
    show ?thesis
    proof (cases "isSpeaking (animate f s)")
      case True
      then show ?thesis using animate_speaking_gesture(3) [OF rig True] c by (auto split: if_splits)
    next
      case False
      then show ?thesis using animate_idle_gesture(1) [OF rig False] by simp
    qed
  qed
  show ?thesis using silent change by blast
qed

lemma reachable_sampleScene: "reachable sampleScene"
  unfolding sampleScene_def
  by (rule reachable.loaded [OF reachable.mounted]) (simp add: initialState_def)

text \<open>
  The sample scene after a loud frame at 1 second has variant 3; a silent frame one
  sixtieth of a second later brings the variant back to 0 and the mood to neutral with
  target intensity 0.
\<close>

theorem silence_resets_variant_and_mood_witness:
  "currentGesture (animate (sampleFrame 1 (Some (replicate 128 255))) sampleScene) = 3
   \<and> currentGesture (animate (sampleFrame (1 + 1 / 60) (Some (replicate 128 0)))
        (animate (sampleFrame 1 (Some (replicate 128 255))) sampleScene)) = 0
   \<and> currentExpression (animate (sampleFrame (1 + 1 / 60) (Some (replicate 128 0)))
        (animate (sampleFrame 1 (Some (replicate 128 255))) sampleScene)) = ''neutral''
   \<and> targetExpressionIntensity (animate (sampleFrame (1 + 1 / 60) (Some (replicate 128 0)))
        (animate (sampleFrame 1 (Some (replicate 128 255))) sampleScene)) = 0"
proof -
  define f1 where "f1 = sampleFrame 1 (Some (replicate 128 255))"
  define f2 where "f2 = sampleFrame (1 + 1 / 60) (Some (replicate 128 0))"
  define s1 where "s1 = animate f1 sampleScene"
  have loud: "isSpeaking s1"
    by (simp add: s1_def sampleRig_head f1_def audio_loud sample_simps sample_simps2)
  have three: "currentGesture s1 = 3"
    using animate_speaking_gesture(3)
      [OF sampleRig_head(1) sampleRig_head(2) _ loud [unfolded s1_def], of "V 0 0 0"]
    by (simp add: s1_def f1_def sample_simps sample_simps2)
  have r: "reachable s1"
    unfolding s1_def by (rule reachable.frame [OF reachable_sampleScene])
  have "hasHead s1" by (simp add: s1_def sampleRig_head)
  then obtain v1 where rig: "vrm s1 = Some v1"
    by (auto simp: hasHead_def split: option.splits)
  have audio: "analyser s1" "length (dataArray s1) = 128"
    by (simp_all add: s1_def sample_simps sample_simps2)
  have quiet: "\<not> isSpeaking (animate f2 s1)"
    using rig audio loud
    by (simp add: f2_def audio_silence sample_simps detectSpeech_def)
  have "currentGesture (animate f2 s1) = 0
      \<and> currentExpression (animate f2 s1) = ''neutral''
      \<and> targetExpressionIntensity (animate f2 s1) = 0"
    using silence_resets_variant_and_mood [of s1 f2] r quiet by blast
  then show ?thesis using three unfolding s1_def f1_def f2_def by simp
qed

lemma faceStep_bands [simp]: "fst (faceStep f s) = fst (audioAnalysis f s)"
  by (simp add: faceStep_def Let_def split_beta)

lemma audioAnalysis_throws:
  "spectrum f = None \<Longrightarrow> audioAnalysis f s = (silentBands, s)"
  by (simp add: audioAnalysis_def)

lemma faceStep_speech:
  "speechIntensity (snd (faceStep f s))
     = smoothLerp (speechIntensity s) (targetSpeechIntensity (snd (audioAnalysis f s))) 0.15
         (deltaTime f)"
  "targetSpeechIntensity (snd (faceStep f s)) = targetSpeechIntensity (snd (audioAnalysis f s))"
  "dataArray (snd (faceStep f s)) = dataArray (snd (audioAnalysis f s))"
  by (simp_all add: faceStep_def Let_def split_beta smoothSpeech_def)

lemma faceStep_mouth_target:
  "targetMouthShapes (snd (faceStep f s))
     = (if isSpeaking (snd (audioAnalysis f s)) then
          \<lparr>aa = lowFreq (fst (audioAnalysis f s)) * 0.8,
           ih = highFreq (fst (audioAnalysis f s)) * 0.6,
           ou = midFreq (fst (audioAnalysis f s)) * 0.5,
           oh = (lowFreq (fst (audioAnalysis f s)) + midFreq (fst (audioAnalysis f s))) * 0.4\<rparr>
        else \<lparr>aa = 0, ih = 0, ou = 0, oh = 0\<rparr>)"
  by (simp add: faceStep_def Let_def split_beta weightsStep_def mouthStep_def)

text \<open>
  C8, as amended. When reading the spectrum throws on a frame, the frame goes on: the
  closure variables \<open>isSpeaking\<close>, the intensity target and the data array are those
  left by the frame before, and the smoothed intensity moves on towards that target;
  the volume and the three band values that the rest of the frame reads are 0, and so
  are the targets of the four mouth shapes.
\<close>

theorem read_failure_keeps_classification:
  assumes "vrm s = Some v" and "analyser s" and "dataArray s \<noteq> []" and "spectrum f = None"
  shows "audioAnalysis f s = (silentBands, s)
       \<and> isSpeaking (animate f s) = isSpeaking s
       \<and> targetSpeechIntensity (animate f s) = targetSpeechIntensity s
       \<and> dataArray (animate f s) = dataArray s
       \<and> speechIntensity (animate f s)
            = smoothLerp (speechIntensity s) (targetSpeechIntensity s) 0.15 (deltaTime f)
       \<and> fst (faceStep f s)
            = \<lparr>audioVolume = 0, lowFreq = 0, midFreq = 0, highFreq = 0\<rparr>
       \<and> targetMouthShapes (animate f s) = \<lparr>aa = 0, ih = 0, ou = 0, oh = 0\<rparr>"
  using assms
  by (simp add: audioAnalysis_throws faceStep_speech faceStep_mouth_target silentBands_def)

theorem read_failure_keeps_classification_witness:
  "isSpeaking (animate (sampleFrame (1 + 1 / 60) None)
      (animate (sampleFrame 1 (Some (replicate 128 255))) sampleScene))
   \<and> targetSpeechIntensity (animate (sampleFrame (1 + 1 / 60) None)
      (animate (sampleFrame 1 (Some (replicate 128 255))) sampleScene)) = 1"
proof -
  define f1 where "f1 = sampleFrame 1 (Some (replicate 128 255))"
  define f2 where "f2 = sampleFrame (1 + 1 / 60) None"
  define s1 where "s1 = animate f1 sampleScene"
  have loud: "isSpeaking s1" "targetSpeechIntensity s1 = 1"
    by (simp_all add: s1_def sampleRig_head f1_def audio_loud sample_simps sample_simps2
        faceStep_speech)
  have "hasHead s1" by (simp add: s1_def sampleRig_head)
  then obtain v1 where rig: "vrm s1 = Some v1"
    by (auto simp: hasHead_def split: option.splits)
  have audio: "analyser s1" "dataArray s1 \<noteq> []"
    using animate_length [of f1 sampleScene]
    by (auto simp: s1_def sample_simps sample_simps2 simp del: animate_length)
  have "isSpeaking (animate f2 s1) = isSpeaking s1
      \<and> targetSpeechIntensity (animate f2 s1) = targetSpeechIntensity s1"
    using read_failure_keeps_classification [OF rig audio, of f2]
    by (simp add: f2_def sample_simps)
  then show ?thesis using loud unfolding s1_def f1_def f2_def by simp
qed

text \<open>
  A frame with every bin at 255 has volume 1 and low band 1, and a mouth target of 0.8;
  on the next frame the read throws: the avatar is still speaking, but the volume and
  the low band that the frame uses are 0, not 1, and the mouth target drops to 0.
\<close>

theorem read_failure_bands_counterexample:
  "audioVolume (fst (faceStep (sampleFrame 1 (Some (replicate 128 255))) sampleScene)) = 1
   \<and> lowFreq (fst (faceStep (sampleFrame 1 (Some (replicate 128 255))) sampleScene)) = 1
   \<and> aa (targetMouthShapes (animate (sampleFrame 1 (Some (replicate 128 255))) sampleScene))
        = 4 / 5
   \<and> isSpeaking (animate (sampleFrame (1 + 1 / 60) None)
        (animate (sampleFrame 1 (Some (replicate 128 255))) sampleScene))
   \<and> audioVolume (fst (faceStep (sampleFrame (1 + 1 / 60) None)
        (animate (sampleFrame 1 (Some (replicate 128 255))) sampleScene))) = 0
   \<and> lowFreq (fst (faceStep (sampleFrame (1 + 1 / 60) None)
        (animate (sampleFrame 1 (Some (replicate 128 255))) sampleScene))) = 0
   \<and> aa (targetMouthShapes (animate (sampleFrame (1 + 1 / 60) None)
        (animate (sampleFrame 1 (Some (replicate 128 255))) sampleScene))) = 0"
proof -
  define f1 where "f1 = sampleFrame 1 (Some (replicate 128 255))"
  define f2 where "f2 = sampleFrame (1 + 1 / 60) None"
  define s1 where "s1 = animate f1 sampleScene"
  have first: "audioVolume (fst (faceStep f1 sampleScene)) = 1"
      "lowFreq (fst (faceStep f1 sampleScene)) = 1"
      "aa (targetMouthShapes s1) = 4 / 5" "isSpeaking s1"
    by (simp_all add: s1_def sampleRig_head f1_def audio_loud sample_simps sample_simps2
        faceStep_mouth_target)
  have "hasHead s1" by (simp add: s1_def sampleRig_head)
  then obtain v1 where rig: "vrm s1 = Some v1"
    by (auto simp: hasHead_def split: option.splits)
  have second: "audioVolume (fst (faceStep f2 s1)) = 0" "lowFreq (fst (faceStep f2 s1)) = 0"
      "aa (targetMouthShapes (animate f2 s1)) = 0" "isSpeaking (animate f2 s1)"
    using rig first(4)
    by (simp_all add: f2_def audioAnalysis_throws sample_simps silentBands_def
        faceStep_mouth_target)
  show ?thesis using first second unfolding s1_def f1_def f2_def by simp
qed

subsection \<open>Cleanup\<close>

text \<open>
  C9, as amended. Calling the teardown routine once on a mounted scene produces no
  error, and after it no live audio node remains: the source, if any, is disconnected
  and the context, if any, is closed. The routine is not idempotent: a second call
  leaves the audio nodes released, but throws \<^verbatim>\<open>NotFoundError\<close> when it removes the
  canvas, which is no longer a child of the container.
\<close>

theorem cleanup_once:
  "(canvasInContainer r \<longrightarrow> snd (cleanup r) = None)
   \<and> \<not> liveAudioNode (fst (cleanup r))
   \<and> snd (cleanup (fst (cleanup r))) = Some NotFoundError
   \<and> \<not> liveAudioNode (fst (cleanup (fst (cleanup r))))"
  by (simp add: cleanup_def liveAudioNode_def Let_def split: option.split)

theorem cleanup_once_witness:
  "liveAudioNode (mountedResources True)
   \<and> snd (cleanup (mountedResources True)) = None
   \<and> \<not> liveAudioNode (fst (cleanup (mountedResources True)))"
proof -
  have "canvasInContainer (mountedResources True)" "liveAudioNode (mountedResources True)"
    by (simp_all add: mountedResources_def liveAudioNode_def)
  then show ?thesis using cleanup_once [of "mountedResources True"] by simp
qed

text \<open>The second of two calls in succession throws.\<close>

theorem cleanup_twice_counterexample:
  "snd (cleanup (fst (cleanup (mountedResources True)))) = Some NotFoundError
   \<and> snd (cleanup (fst (cleanup (mountedResources False)))) = Some NotFoundError"
  by (simp add: cleanup_def mountedResources_def Let_def)

subsection \<open>The weights applied to the rig\<close>

lemma humanoidStep_manager:
  assumes "humanoid v = Some b"
  shows "expressionManager (fst (humanoidStep f v s))
           = fst (eyebrowStep f (expressionManager v)
                   (snd (neckStep f (fst (headStep f (breathStep f s b) s))
                           (snd (headStep f (breathStep f s b) s)))))"
  using assms by (simp add: humanoidStep_def Let_def split_beta)

lemma humanoidStep_eyebrow:
  assumes "humanoid v = Some b"
  shows "eyebrowIntensity (snd (humanoidStep f v s))
           = smoothLerp (eyebrowIntensity s) (targetEyebrowIntensity (snd (humanoidStep f v s)))
               0.08 (deltaTime f)"
  using assms
  by (simp add: humanoidStep_def Let_def split_beta eyebrowStep_def split: option.split)

lemma eyebrowStep_manager:
  "fst (eyebrowStep f (Some m) s)
     = Some (if isSpeaking s \<and> currentExpression s = ''neutral''
             then setValue ''surprised''
                    (smoothLerp (eyebrowIntensity s) (targetEyebrowIntensity s) 0.08 (deltaTime f)
                       * 0.15) m
             else m)"
  by (simp add: eyebrowStep_def Let_def)

lemma applyExpressions_surprised:
  "expressionManager v = Some em \<Longrightarrow>
   \<exists>m. expressionManager (applyExpressions s v) = Some m
      \<and> m ''surprised'' = Some (surprised (expressionValues s))"
  by (simp add: applyExpressions_def setValue_def)

lemma faceStep_weights:
  "expressionValues (snd (faceStep f s))
     = smoothWeights (expressionValues s) (targetExpressionValues (snd (faceStep f s)))
         (deltaTime f)"
  by (simp add: faceStep_def Let_def split_beta weightsStep_def)

lemma appliedWeight_animate:
  "vrm s = Some v \<Longrightarrow>
   appliedWeight (animate f s) name
     = (case expressionManager (fst (frameBody f v s)) of None \<Rightarrow> None | Some em \<Rightarrow> em name)"
  by (simp add: appliedWeight_def vrm_animate)

text \<open>
  C10. On every frame of a model with an expression manager and a humanoid where
  \<open>isSpeaking\<close> is true and the mood is neutral, the \<^verbatim>\<open>surprised\<close> weight finally
  applied to the rig is \<open>eyebrowIntensity * 0.15\<close>, the later write replacing the
  smoothed \<^verbatim>\<open>expressionValues.surprised\<close> written earlier in the frame; on all other
  frames it is the smoothed \<^verbatim>\<open>expressionValues.surprised\<close>.
\<close>

theorem surprised_weight_applied:
  assumes "vrm s = Some v" and "expressionManager v = Some em" and "humanoid v = Some b"
  shows "appliedWeight (animate f s) ''surprised''
           = Some (if isSpeaking (animate f s) \<and> currentExpression (animate f s) = ''neutral''
                   then eyebrowIntensity (animate f s) * 0.15
                   else surprised (expressionValues (animate f s)))
       \<and> surprised (expressionValues (animate f s))
           = smoothLerp (surprised (expressionValues s))
               (surprised (targetExpressionValues (animate f s))) 0.1 (deltaTime f)
       \<and> eyebrowIntensity (animate f s)
           = smoothLerp (eyebrowIntensity s) (targetEyebrowIntensity (animate f s)) 0.08
               (deltaTime f)"
proof -
  define s1 where "s1 = snd (faceStep f s)"
  define v1 where "v1 = applyExpressions s1 v"
  define sn where "sn = snd (neckStep f (fst (headStep f (breathStep f s1 b) s1))
                           (snd (headStep f (breathStep f s1 b) s1)))"
  obtain m where m: "expressionManager v1 = Some m"
      "m ''surprised'' = Some (surprised (expressionValues s1))"
    using applyExpressions_surprised [OF assms(2), of s1] unfolding v1_def by blast
  have hv1: "humanoid v1 = Some b" by (simp add: v1_def assms(3))
  have fb: "frameBody f v s = humanoidStep f v1 s1"
    by (simp add: frameBody_def Let_def s1_def v1_def)
  have sn_fields: "isSpeaking sn = isSpeaking (animate f s)"
      "currentExpression sn = currentExpression (animate f s)"
      "eyebrowIntensity sn = eyebrowIntensity s"
      "targetEyebrowIntensity sn = targetEyebrowIntensity (animate f s)"
    using assms(1) hv1
    by (simp_all add: sn_def s1_def fb humanoidStep_gesture)
  have eb: "eyebrowIntensity (animate f s)
      = smoothLerp (eyebrowIntensity s) (targetEyebrowIntensity (animate f s)) 0.08 (deltaTime f)"
    using assms(1) humanoidStep_eyebrow [OF hv1, of f s1] by (simp add: fb s1_def)
  have "expressionManager (fst (frameBody f v s)) = fst (eyebrowStep f (Some m) sn)"
    unfolding fb humanoidStep_manager [OF hv1] m(1) sn_def ..
  then have "appliedWeight (animate f s) ''surprised''
      = (if isSpeaking sn \<and> currentExpression sn = ''neutral''
         then Some (smoothLerp (eyebrowIntensity sn) (targetEyebrowIntensity sn) 0.08
                      (deltaTime f) * 0.15)
         else Some (surprised (expressionValues s1)))"
    using assms(1) m(2)
    by (simp add: appliedWeight_animate eyebrowStep_manager setValue_def)
  then have applied: "appliedWeight (animate f s) ''surprised''
           = Some (if isSpeaking (animate f s) \<and> currentExpression (animate f s) = ''neutral''
                   then eyebrowIntensity (animate f s) * 0.15
                   else surprised (expressionValues (animate f s)))"
    using assms(1) eb by (simp add: sn_fields s1_def)
  have sm: "surprised (expressionValues (animate f s))
           = smoothLerp (surprised (expressionValues s))
               (surprised (targetExpressionValues (animate f s))) 0.1 (deltaTime f)"
    using assms(1) by (simp add: faceStep_weights smoothWeights_def)
  show ?thesis using applied sm eb by blast
qed

lemma humanoidStep_manager_presence:
  "(expressionManager (fst (humanoidStep f v s)) = None) = (expressionManager v = None)"
  by (simp add: humanoidStep_def Let_def split_beta eyebrowStep_def
      split: option.split)

lemma applyExpressions_presence:
  "(expressionManager (applyExpressions s v) = None) = (expressionManager v = None)"
  by (simp add: applyExpressions_def split: option.split)

lemma rig_kept:
  assumes "vrm s = Some v" and "expressionManager v = Some em" and "humanoid v = Some b"
  shows "\<exists>v' em' b'. vrm (animate f s) = Some v' \<and> expressionManager v' = Some em'
           \<and> humanoid v' = Some b'"
proof -
  have "expressionManager (fst (frameBody f v s)) \<noteq> None"
    using assms(2)
    by (simp add: frameBody_def Let_def humanoidStep_manager_presence applyExpressions_presence)
  moreover have "humanoid (fst (frameBody f v s)) \<noteq> None"
    using frameBody_bones [of f v s] assms(3) by auto
  ultimately show ?thesis using assms(1) by (auto simp: vrm_animate)
qed

lemma animate_mood:
  assumes "vrm s = Some v"
  shows "currentExpression (animate f s)
           = (if isSpeaking (animate f s) \<and> nextExpressionTime s \<le> elapsedTime f
                 \<and> 1 \<le> expressionTransitionProgress s
              then arrayAt expressions \<lfloor>rndExpression f * real (length expressions)\<rfloor>
              else if \<not> isSpeaking (animate f s) \<and> currentExpression s \<noteq> ''neutral''
              then ''neutral'' else currentExpression s)"
    and "expressionTransitionProgress (animate f s)
           = (let p = (if (isSpeaking (animate f s) \<and> nextExpressionTime s \<le> elapsedTime f
                            \<and> 1 \<le> expressionTransitionProgress s)
                          \<or> (\<not> isSpeaking (animate f s) \<and> currentExpression s \<noteq> ''neutral'')
                       then 0 else expressionTransitionProgress s)
              in if p < 1 then min 1 (p + deltaTime f * 0.8) else p)"
    and "nextExpressionTime (animate f s)
           = (if isSpeaking (animate f s) \<and> nextExpressionTime s \<le> elapsedTime f
                 \<and> 1 \<le> expressionTransitionProgress s
              then elapsedTime f + 2.5 + rndExpressionTime f * 3 else nextExpressionTime s)"
  using assms
  by (simp_all add: faceStep_def Let_def split_beta advanceExpression_def selectExpression_def)

lemma sampleRig_manager: "expressionManager sampleRig = Some Map.empty"
  by (simp add: sampleRig_def)

lemma sample_simps3:
  "nextExpressionTime sampleScene = 0" "expressionTransitionProgress sampleScene = 1"
  "currentExpression sampleScene = ''neutral''"
  "rndExpression (sampleFrame t bins) = 1 / 2" "rndExpressionTime (sampleFrame t bins) = 1 / 2"
  by (simp_all add: sampleScene_def onLoad_def initialState_def sampleFrame_def)

text \<open>
  Three frames of the sample scene, one sixtieth of a second apart: loud, silent, loud.
  The first picks the mood \<^verbatim>\<open>thinking\<close>, the second forces the mood back to neutral,
  and on the third the avatar speaks with the neutral mood.
\<close>

lemma loud_silent_loud:
  defines "s1 \<equiv> animate (sampleFrame 1 (Some (replicate 128 255))) sampleScene"
  defines "s2 \<equiv> animate (sampleFrame (1 + 1 / 60) (Some (replicate 128 0))) s1"
  defines "s3 \<equiv> animate (sampleFrame (1 + 2 / 60) (Some (replicate 128 255))) s2"
  shows "\<exists>v em b. vrm s2 = Some v \<and> expressionManager v = Some em \<and> humanoid v = Some b"
    and "isSpeaking s3" and "currentExpression s3 = ''neutral''"
    and "isSpeaking s1" and "\<not> isSpeaking s2"
    and "analyser s2" and "length (dataArray s2) = 128"
proof -
  have sp1: "isSpeaking s1"
    by (simp add: s1_def sampleRig_head audio_loud sample_simps sample_simps2)
  obtain v1 em1 b1 where rig1: "vrm s1 = Some v1" "expressionManager v1 = Some em1"
      "humanoid v1 = Some b1"
    using rig_kept [OF sampleRig_head(1) sampleRig_manager sampleRig_head(2)]
    unfolding s1_def by blast
  have mood1: "currentExpression s1 = ''thinking''"
    using sp1 unfolding s1_def
    by (simp add: animate_mood [OF sampleRig_head(1)] sample_simps sample_simps3
        expressions_def arrayAt_def)
  have audio1: "analyser s1" "length (dataArray s1) = 128"
    by (simp_all add: s1_def sample_simps sample_simps2)
  have q2: "\<not> isSpeaking s2"
    using rig1(1) audio1 sp1
    by (simp add: s2_def audio_silence sample_simps detectSpeech_def)
  have mood2: "currentExpression s2 = ''neutral''"
    using q2 unfolding s2_def by (simp add: animate_mood [OF rig1(1)])
  have prog2: "expressionTransitionProgress s2 = 1 / 75"
    using q2 mood1 unfolding s2_def
    by (simp add: animate_mood [OF rig1(1)] sample_simps Let_def)
  show rig2: "\<exists>v em b. vrm s2 = Some v \<and> expressionManager v = Some em \<and> humanoid v = Some b"
    using rig_kept [OF rig1] unfolding s2_def by blast
  then obtain v2 where v2: "vrm s2 = Some v2" by blast
  show audio2: "analyser s2" "length (dataArray s2) = 128"
    using audio1 by (simp_all add: s2_def)
  show sp3: "isSpeaking s3"
    using v2 audio2 by (simp add: s3_def audio_loud sample_simps)
  show "currentExpression s3 = ''neutral''"
    using sp3 mood2 prog2 unfolding s3_def by (simp add: animate_mood [OF v2])
  show "isSpeaking s1" by (rule sp1)
  show "\<not> isSpeaking s2" by (rule q2)
qed

theorem surprised_weight_applied_witness:
  "isSpeaking (animate (sampleFrame (1 + 2 / 60) (Some (replicate 128 255)))
      (animate (sampleFrame (1 + 1 / 60) (Some (replicate 128 0)))
        (animate (sampleFrame 1 (Some (replicate 128 255))) sampleScene)))
   \<and> currentExpression (animate (sampleFrame (1 + 2 / 60) (Some (replicate 128 255)))
      (animate (sampleFrame (1 + 1 / 60) (Some (replicate 128 0)))
        (animate (sampleFrame 1 (Some (replicate 128 255))) sampleScene))) = ''neutral''
   \<and> appliedWeight (animate (sampleFrame (1 + 2 / 60) (Some (replicate 128 255)))
      (animate (sampleFrame (1 + 1 / 60) (Some (replicate 128 0)))
        (animate (sampleFrame 1 (Some (replicate 128 255))) sampleScene))) ''surprised''
       = Some (eyebrowIntensity (animate (sampleFrame (1 + 2 / 60) (Some (replicate 128 255)))
          (animate (sampleFrame (1 + 1 / 60) (Some (replicate 128 0)))
            (animate (sampleFrame 1 (Some (replicate 128 255))) sampleScene))) * 0.15)"
proof -
  define s2 where "s2 = animate (sampleFrame (1 + 1 / 60) (Some (replicate 128 0)))
        (animate (sampleFrame 1 (Some (replicate 128 255))) sampleScene)"
  define f3 where "f3 = sampleFrame (1 + 2 / 60) (Some (replicate 128 255))"
  obtain v em b where rig: "vrm s2 = Some v" "expressionManager v = Some em" "humanoid v = Some b"
    using loud_silent_loud(1) unfolding s2_def by blast
  have sp: "isSpeaking (animate f3 s2)" and mood: "currentExpression (animate f3 s2) = ''neutral''"
    using loud_silent_loud(2,3) unfolding s2_def f3_def by simp_all
  have "appliedWeight (animate f3 s2) ''surprised'' = Some (eyebrowIntensity (animate f3 s2) * 0.15)"
    using surprised_weight_applied [OF rig, of f3] sp mood by simp
  then show ?thesis using sp mood unfolding s2_def f3_def by simp
qed

subsection \<open>The rotations written to the bones\<close>

lemma withBone_apply:
  "withBone n g b m = (if m = n then map_option g (b m) else b m)"
  by (simp add: withBone_def split: option.split)

lemma fold_withBone_other:
  "n \<notin> snd ` set xs \<Longrightarrow> fold (\<lambda>(i, m). withBone m (g i)) xs b n = b n"
proof (induction xs arbitrary: b)
  case Nil
  then show ?case by simp
next
  case (Cons x xs)
  have "n \<noteq> snd x" and rest: "n \<notin> snd ` set xs" using Cons.prems by auto
  then have "withBone (snd x) (g (fst x)) b n = b n" by (simp only: withBone_apply) simp
  then show ?case using Cons.IH [OF rest, of "withBone (snd x) (g (fst x)) b"]
    by (simp add: split_beta)
qed

lemma fold_withBone_at:
  "distinct (map snd xs) \<Longrightarrow> (i, n) \<in> set xs \<Longrightarrow>
   fold (\<lambda>(i, m). withBone m (g i)) xs b n = map_option (g i) (b n)"
proof (induction xs arbitrary: b)
  case Nil
  then show ?case by simp
next
  case (Cons x xs)
  obtain j m where x: "x = (j, m)" by (cases x)
  show ?case
  proof (cases "(i, n) = (j, m)")
    case True
    then have "n \<notin> snd ` set xs" using Cons.prems(1) x by auto
    then have "fold (\<lambda>(i, m). withBone m (g i)) xs (withBone m (g j) b) n
        = withBone m (g j) b n"
      by (rule fold_withBone_other)
    also have "\<dots> = map_option (g i) (b n)"
      using True by (simp only: withBone_apply) simp
    finally show ?thesis using x by simp
  next
    case False
    then have mem: "(i, n) \<in> set xs" using Cons.prems(2) x by auto
    then have "n \<in> snd ` set xs" by force
    then have "n \<noteq> m" using Cons.prems(1) x by auto
    then have "withBone m (g j) b n = b n" by (simp only: withBone_apply) simp
    moreover have "fold (\<lambda>(i, m). withBone m (g i)) xs (withBone m (g j) b) n
        = map_option (g i) (withBone m (g j) b n)"
      using Cons.prems(1) by (intro Cons.IH mem) simp
    ultimately show ?thesis using x by simp
  qed
qed

lemma distinct_fingerBones: "distinct fingerBones"
  by (simp add: fingerBones_def)

lemma snd_enumerate: "snd ` set (enumerate k xs) = set xs"
  using set_map [of snd "enumerate k xs"] by simp

lemma fingersStep_other: "n \<notin> set fingerBones \<Longrightarrow> fingersStep f s b n = b n"
  unfolding fingersStep_def by (rule fold_withBone_other) (simp add: snd_enumerate)

lemma fingersStep_at:
  assumes "i < length fingerBones"
  shows "fingersStep f s b (fingerBones ! i)
           = map_option (\<lambda>node. node\<lparr>vec_z :=
               smoothLerp (vec_z node) (fingerTarget f s i) 0.1 (deltaTime f)\<rparr>)
             (b (fingerBones ! i))"
  unfolding fingersStep_def
  by (rule fold_withBone_at) (use assms in \<open>simp_all add: distinct_fingerBones in_set_enumerate_eq\<close>)

lemma finger_names:
  assumes "n \<in> set fingerBones"
  shows "n \<notin> {''spine'', ''chest'', ''head'', ''neck'', ''hips'', ''leftUpperArm'',
           ''rightUpperArm'', ''leftLowerArm'', ''rightLowerArm'', ''leftHand'', ''rightHand'',
           ''leftShoulder'', ''rightShoulder''}"
  using assms by (auto simp: fingerBones_def)

lemma other_names:
  "''spine'' \<notin> set fingerBones" "''chest'' \<notin> set fingerBones" "''hips'' \<notin> set fingerBones"
  "''leftUpperArm'' \<notin> set fingerBones" "''rightUpperArm'' \<notin> set fingerBones"
  "''leftLowerArm'' \<notin> set fingerBones" "''rightLowerArm'' \<notin> set fingerBones"
  "''leftHand'' \<notin> set fingerBones" "''rightHand'' \<notin> set fingerBones"
  "''leftShoulder'' \<notin> set fingerBones" "''rightShoulder'' \<notin> set fingerBones"
  by (simp_all add: fingerBones_def)

lemma breathStep_apply:
  "breathStep f s b m
     = (if m = ''spine'' then
          map_option (\<lambda>node. node\<lparr>vec_x := sin (elapsedTime f * 1.2) * 0.008
                + (if isSpeaking s then speechIntensity s * 0.015 else 0),
              vec_z := sin (elapsedTime f * 0.6) * 0.006\<rparr>) (b m)
        else if m = ''chest'' then
          map_option (\<lambda>node. node\<lparr>vec_x := (sin (elapsedTime f * 1.2) * 0.008
                + (if isSpeaking s then speechIntensity s * 0.015 else 0)) * 0.5\<rparr>) (b m)
        else b m)"
  by (simp add: breathStep_def Let_def split: option.split)

lemma headStep_apply: "m \<noteq> ''head'' \<Longrightarrow> fst (headStep f b s) m = b m"
  by (simp add: headStep_def Let_def split: option.split)

lemma neckStep_apply: "m \<noteq> ''neck'' \<Longrightarrow> fst (neckStep f b s) m = b m"
  by (simp add: neckStep_def Let_def split: option.split)

lemma frameBody_humanoid:
  assumes "humanoid v = Some b"
  shows "humanoid (fst (frameBody f v s))
           = Some (fingersStep f (snd (frameBody f v s))
               (hipsStep f (shouldersStep f (snd (frameBody f v s))
                 (applyArms (snd (frameBody f v s))
                   (fst (neckStep f (fst (headStep f (breathStep f (snd (faceStep f s)) b)
                                       (snd (faceStep f s))))
                          (snd (headStep f (breathStep f (snd (faceStep f s)) b)
                                 (snd (faceStep f s))))))))))"
  using assms by (simp add: frameBody_def humanoidStep_def Let_def split_beta)

lemma boneRotation_animate:
  assumes "vrm s = Some v" and "humanoid v = Some b"
  shows "boneRotation (animate f s) n
           = fingersStep f (snd (frameBody f v s))
               (hipsStep f (shouldersStep f (snd (frameBody f v s))
                 (applyArms (snd (frameBody f v s))
                   (fst (neckStep f (fst (headStep f (breathStep f (snd (faceStep f s)) b)
                                       (snd (faceStep f s))))
                          (snd (headStep f (breathStep f (snd (faceStep f s)) b)
                                 (snd (faceStep f s))))))))) n"
  using assms by (simp add: boneRotation_def vrm_animate frameBody_humanoid)

lemma frameBody_arms:
  assumes "humanoid v = Some b"
  shows "leftArmRotation (snd (frameBody f v s))
           = smoothVec (leftArmRotation s) (targetLeftArmRotation (snd (frameBody f v s))) 0.1
               (deltaTime f)"
    and "rightArmRotation (snd (frameBody f v s))
           = smoothVec (rightArmRotation s) (targetRightArmRotation (snd (frameBody f v s))) 0.1
               (deltaTime f)"
    and "leftLowerArmRotation (snd (frameBody f v s))
           = smoothLerp (leftLowerArmRotation s)
               (targetLeftLowerArmRotation (snd (frameBody f v s))) 0.1 (deltaTime f)"
    and "rightLowerArmRotation (snd (frameBody f v s))
           = smoothLerp (rightLowerArmRotation s)
               (targetRightLowerArmRotation (snd (frameBody f v s))) 0.1 (deltaTime f)"
    and "handRotation (snd (frameBody f v s))
           = \<lparr>left = smoothVec (left (handRotation s))
                      (left (targetHandRotation (snd (frameBody f v s)))) 0.1 (deltaTime f),
              right = smoothVec (right (handRotation s))
                      (right (targetHandRotation (snd (frameBody f v s)))) 0.1 (deltaTime f)\<rparr>"
  using assms
  by (simp_all add: frameBody_def humanoidStep_def Let_def split_beta smoothArms_def)

lemma fingerTarget_animate:
  "vrm s = Some v \<Longrightarrow> fingerTarget f (snd (frameBody f v s)) i = fingerTarget f (animate f s) i"
  by (simp add: fingerTarget_def)

text \<open>
  C7, as amended. On every frame of a model with a humanoid, the shoulder, upper-arm,
  lower-arm, hand and finger channels pass through the smoothing step before they are
  written to the bones the model has: the shoulders at rate 0.08 and the fingers at rate
  0.1 from the bone's own rotation, the arms and hands at rate 0.1 from the scene's own
  current value. The spine and chest breathing and the hip sway are written to the bones
  as computed on the frame, without smoothing.
\<close>

theorem body_channels:
  assumes "vrm s = Some v" and "humanoid v = Some b"
  shows "(\<forall>r. b ''spine'' = Some r \<longrightarrow>
            boneRotation (animate f s) ''spine''
              = Some (r\<lparr>vec_x := sin (elapsedTime f * 1.2) * 0.008
                          + (if isSpeaking (animate f s)
                             then speechIntensity (animate f s) * 0.015 else 0),
                        vec_z := sin (elapsedTime f * 0.6) * 0.006\<rparr>))
       \<and> (\<forall>r. b ''chest'' = Some r \<longrightarrow>
            boneRotation (animate f s) ''chest''
              = Some (r\<lparr>vec_x := (sin (elapsedTime f * 1.2) * 0.008
                          + (if isSpeaking (animate f s)
                             then speechIntensity (animate f s) * 0.015 else 0)) * 0.5\<rparr>))
       \<and> (\<forall>r. b ''hips'' = Some r \<longrightarrow>
            boneRotation (animate f s) ''hips''
              = Some (r\<lparr>vec_y := sin (elapsedTime f * 0.5) * 0.005\<rparr>))
       \<and> (\<forall>r. b ''leftShoulder'' = Some r \<longrightarrow>
            boneRotation (animate f s) ''leftShoulder''
              = Some (r\<lparr>vec_z := smoothLerp (vec_z r)
                            (if isSpeaking (animate f s) \<and> speechIntensity (animate f s) > 0.35
                             then sin (elapsedTime f * 1.3) * 0.03 else 0) 0.08 (deltaTime f),
                        vec_y := smoothLerp (vec_y r)
                            (if isSpeaking (animate f s) \<and> speechIntensity (animate f s) > 0.35
                             then cos (elapsedTime f * 1.1) * 0.015 else 0) 0.08 (deltaTime f)\<rparr>))
       \<and> (\<forall>r. b ''rightShoulder'' = Some r \<longrightarrow>
            boneRotation (animate f s) ''rightShoulder''
              = Some (r\<lparr>vec_z := smoothLerp (vec_z r)
                            (if isSpeaking (animate f s) \<and> speechIntensity (animate f s) > 0.35
                             then - sin (elapsedTime f * 1.3) * 0.03 else 0) 0.08 (deltaTime f),
                        vec_y := smoothLerp (vec_y r)
                            (if isSpeaking (animate f s) \<and> speechIntensity (animate f s) > 0.35
                             then - cos (elapsedTime f * 1.1) * 0.015 else 0) 0.08 (deltaTime f)\<rparr>))
       \<and> (b ''leftUpperArm'' \<noteq> None \<longrightarrow>
            boneRotation (animate f s) ''leftUpperArm''
              = Some (smoothVec (leftArmRotation s) (targetLeftArmRotation (animate f s)) 0.1
                        (deltaTime f)))
       \<and> (b ''rightUpperArm'' \<noteq> None \<longrightarrow>
            boneRotation (animate f s) ''rightUpperArm''
              = Some (smoothVec (rightArmRotation s) (targetRightArmRotation (animate f s)) 0.1
                        (deltaTime f)))
       \<and> (\<forall>r. b ''leftLowerArm'' = Some r \<longrightarrow>
            boneRotation (animate f s) ''leftLowerArm''
              = Some (r\<lparr>vec_x := smoothLerp (leftLowerArmRotation s)
                            (targetLeftLowerArmRotation (animate f s)) 0.1 (deltaTime f)\<rparr>))
       \<and> (\<forall>r. b ''rightLowerArm'' = Some r \<longrightarrow>
            boneRotation (animate f s) ''rightLowerArm''
              = Some (r\<lparr>vec_x := smoothLerp (rightLowerArmRotation s)
                            (targetRightLowerArmRotation (animate f s)) 0.1 (deltaTime f)\<rparr>))
       \<and> (b ''leftHand'' \<noteq> None \<longrightarrow>
            boneRotation (animate f s) ''leftHand''
              = Some (smoothVec (left (handRotation s)) (left (targetHandRotation (animate f s)))
                        0.1 (deltaTime f)))
       \<and> (b ''rightHand'' \<noteq> None \<longrightarrow>
            boneRotation (animate f s) ''rightHand''
              = Some (smoothVec (right (handRotation s)) (right (targetHandRotation (animate f s)))
                        0.1 (deltaTime f)))
       \<and> (\<forall>i r. i < length fingerBones \<and> b (fingerBones ! i) = Some r \<longrightarrow>
            boneRotation (animate f s) (fingerBones ! i)
              = Some (r\<lparr>vec_z := smoothLerp (vec_z r) (fingerTarget f (animate f s) i) 0.1
                            (deltaTime f)\<rparr>))"
proof -
  note bone = boneRotation_animate [OF assms]
  note pointwise = fingersStep_other other_names hipsStep_def shouldersStep_def applyArms_def
    withBone_apply neckStep_apply headStep_apply breathStep_apply Let_def
  have direct: "\<And>r. b ''spine'' = Some r \<Longrightarrow>
            boneRotation (animate f s) ''spine''
              = Some (r\<lparr>vec_x := sin (elapsedTime f * 1.2) * 0.008
                          + (if isSpeaking (animate f s)
                             then speechIntensity (animate f s) * 0.015 else 0),
                        vec_z := sin (elapsedTime f * 0.6) * 0.006\<rparr>)"
    "\<And>r. b ''chest'' = Some r \<Longrightarrow>
            boneRotation (animate f s) ''chest''
              = Some (r\<lparr>vec_x := (sin (elapsedTime f * 1.2) * 0.008
                          + (if isSpeaking (animate f s)
                             then speechIntensity (animate f s) * 0.015 else 0)) * 0.5\<rparr>)"
    "\<And>r. b ''hips'' = Some r \<Longrightarrow>
            boneRotation (animate f s) ''hips''
              = Some (r\<lparr>vec_y := sin (elapsedTime f * 0.5) * 0.005\<rparr>)"
    using assms(1) by (simp_all add: bone pointwise)
  have shoulders: "\<And>r. b ''leftShoulder'' = Some r \<Longrightarrow>
            boneRotation (animate f s) ''leftShoulder''
              = Some (r\<lparr>vec_z := smoothLerp (vec_z r)
                            (if isSpeaking (animate f s) \<and> speechIntensity (animate f s) > 0.35
                             then sin (elapsedTime f * 1.3) * 0.03 else 0) 0.08 (deltaTime f),
                        vec_y := smoothLerp (vec_y r)
                            (if isSpeaking (animate f s) \<and> speechIntensity (animate f s) > 0.35
                             then cos (elapsedTime f * 1.1) * 0.015 else 0) 0.08 (deltaTime f)\<rparr>)"
    "\<And>r. b ''rightShoulder'' = Some r \<Longrightarrow>
            boneRotation (animate f s) ''rightShoulder''
              = Some (r\<lparr>vec_z := smoothLerp (vec_z r)
                            (if isSpeaking (animate f s) \<and> speechIntensity (animate f s) > 0.35
                             then - sin (elapsedTime f * 1.3) * 0.03 else 0) 0.08 (deltaTime f),
                        vec_y := smoothLerp (vec_y r)
                            (if isSpeaking (animate f s) \<and> speechIntensity (animate f s) > 0.35
                             then - cos (elapsedTime f * 1.1) * 0.015 else 0) 0.08 (deltaTime f)\<rparr>)"
    using assms(1) by (simp_all add: bone pointwise shoulderTowards_def)
  have arms: "b ''leftUpperArm'' \<noteq> None \<Longrightarrow>
            boneRotation (animate f s) ''leftUpperArm''
              = Some (smoothVec (leftArmRotation s) (targetLeftArmRotation (animate f s)) 0.1
                        (deltaTime f))"
    "b ''rightUpperArm'' \<noteq> None \<Longrightarrow>
            boneRotation (animate f s) ''rightUpperArm''
              = Some (smoothVec (rightArmRotation s) (targetRightArmRotation (animate f s)) 0.1
                        (deltaTime f))"
    "\<And>r. b ''leftLowerArm'' = Some r \<Longrightarrow>
            boneRotation (animate f s) ''leftLowerArm''
              = Some (r\<lparr>vec_x := smoothLerp (leftLowerArmRotation s)
                            (targetLeftLowerArmRotation (animate f s)) 0.1 (deltaTime f)\<rparr>)"
    "\<And>r. b ''rightLowerArm'' = Some r \<Longrightarrow>
            boneRotation (animate f s) ''rightLowerArm''
              = Some (r\<lparr>vec_x := smoothLerp (rightLowerArmRotation s)
                            (targetRightLowerArmRotation (animate f s)) 0.1 (deltaTime f)\<rparr>)"
    "b ''leftHand'' \<noteq> None \<Longrightarrow>
            boneRotation (animate f s) ''leftHand''
              = Some (smoothVec (left (handRotation s)) (left (targetHandRotation (animate f s)))
                        0.1 (deltaTime f))"
    "b ''rightHand'' \<noteq> None \<Longrightarrow>
            boneRotation (animate f s) ''rightHand''
              = Some (smoothVec (right (handRotation s)) (right (targetHandRotation (animate f s)))
                        0.1 (deltaTime f))"
    using assms(1) by (auto simp: bone pointwise frameBody_arms [OF assms(2)])
  have fingers: "boneRotation (animate f s) (fingerBones ! i)
              = Some (r\<lparr>vec_z := smoothLerp (vec_z r) (fingerTarget f (animate f s) i) 0.1
                            (deltaTime f)\<rparr>)"
    if i: "i < length fingerBones" and r: "b (fingerBones ! i) = Some r" for i r
  proof -
    have "fingerBones ! i \<in> set fingerBones" using i by simp
    note names = finger_names [OF this]
    have "hipsStep f (shouldersStep f (snd (frameBody f v s))
                 (applyArms (snd (frameBody f v s))
                   (fst (neckStep f (fst (headStep f (breathStep f (snd (faceStep f s)) b)
                                       (snd (faceStep f s))))
                          (snd (headStep f (breathStep f (snd (faceStep f s)) b)
                                 (snd (faceStep f s)))))))) (fingerBones ! i) = Some r"
      using names r
      by (simp add: hipsStep_def shouldersStep_def applyArms_def withBone_apply neckStep_apply
          headStep_apply breathStep_apply Let_def)
    then show ?thesis
      using assms(1) by (simp add: bone fingersStep_at [OF i] fingerTarget_animate)
  qed
  show ?thesis
    using direct shoulders arms fingers by blast
qed

lemma sample_bones:
  "boneRotation sampleScene ''hips'' = Some (V 0 0 0)"
  "boneRotation sampleScene ''spine'' = Some (V 0 0 0)"
  by (simp_all add: boneRotation_def sampleScene_def onLoad_def sampleRig_def)

lemma sample_quiet:
  "\<not> isSpeaking (animate (sampleFrame t None) sampleScene)"
  by (simp add: sampleRig_head audioAnalysis_throws sample_simps)

text \<open>
  A frame of the sample scene at \<open>pi\<close> seconds with no spectrum read: the hips turn to
  the sway of the frame, and the left shoulder, at rest with a target of 0, stays at rest.
\<close>

theorem body_channels_witness:
  "boneRotation (animate (sampleFrame pi None) sampleScene) ''hips'' = Some (V 0 (5 / 1000) 0)
   \<and> boneRotation (animate (sampleFrame pi None) sampleScene) ''leftShoulder''
        = Some (V 0 0 0)"
proof -
  define f where "f = sampleFrame pi None"
  note all = body_channels [OF sampleRig_head(1) sampleRig_head(2), of f]
  have quiet: "\<not> isSpeaking (animate f sampleScene)"
    unfolding f_def by (rule sample_quiet)
  have "boneRotation (animate f sampleScene) ''hips''
      = Some ((V 0 0 0)\<lparr>vec_y := sin (elapsedTime f * 0.5) * 0.005\<rparr>)"
    using all by simp
  then have hips: "boneRotation (animate f sampleScene) ''hips'' = Some (V 0 (5 / 1000) 0)"
    by (simp add: f_def sample_simps)
  have "boneRotation (animate f sampleScene) ''leftShoulder''
      = Some ((V 0 0 0)\<lparr>vec_z := smoothLerp (vec_z (V 0 0 0))
                 (if isSpeaking (animate f sampleScene) \<and> speechIntensity (animate f sampleScene) > 0.35
                  then sin (elapsedTime f * 1.3) * 0.03 else 0) 0.08 (deltaTime f),
               vec_y := smoothLerp (vec_y (V 0 0 0))
                 (if isSpeaking (animate f sampleScene) \<and> speechIntensity (animate f sampleScene) > 0.35
                  then cos (elapsedTime f * 1.1) * 0.015 else 0) 0.08 (deltaTime f)\<rparr>)"
    using all by simp
  then have shoulder: "boneRotation (animate f sampleScene) ''leftShoulder'' = Some (V 0 0 0)"
    using quiet by (simp add: smoothLerp_def)
  show ?thesis using hips shoulder unfolding f_def by simp
qed

text \<open>
  The hips of the sample scene are at rest; after one frame of a sixtieth of a second
  at \<open>pi\<close> seconds their rotation about y is the whole sway target 0.005 of that frame,
  where a smoothing step at rate 0.1 would have moved a tenth of the way; and at
  \<open>5 pi / 12\<close> seconds the spine is at the whole breathing target 0.008.
\<close>

theorem direct_write_counterexample:
  "boneRotation sampleScene ''hips'' = Some (V 0 0 0)
   \<and> boneRotation (animate (sampleFrame pi None) sampleScene) ''hips'' = Some (V 0 (5 / 1000) 0)
   \<and> smoothLerp 0 (5 / 1000) (1 / 10) (1 / 60) = 5 / 10000
   \<and> map_option vec_x (boneRotation sampleScene ''spine'') = Some 0
   \<and> map_option vec_x (boneRotation (animate (sampleFrame (5 * pi / 12) None) sampleScene) ''spine'')
        = Some (8 / 1000)"
proof -
  note pointwise = fingersStep_other other_names hipsStep_def shouldersStep_def applyArms_def
    withBone_apply neckStep_apply headStep_apply breathStep_apply Let_def
  note bone = boneRotation_animate [OF sampleRig_head(1) sampleRig_head(2)]
  have hips: "boneRotation (animate (sampleFrame pi None) sampleScene) ''hips''
      = Some (V 0 (5 / 1000) 0)"
    by (simp add: bone pointwise sample_simps)
  have "isSpeaking (snd (faceStep (sampleFrame (5 * pi / 12) None) sampleScene)) = False"
    by (simp add: audioAnalysis_throws sample_simps)
  then have spine: "map_option vec_x
      (boneRotation (animate (sampleFrame (5 * pi / 12) None) sampleScene) ''spine'')
        = Some (8 / 1000)"
    by (simp add: bone pointwise sample_simps)
  have lerp: "smoothLerp 0 (5 / 1000) (1 / 10) (1 / 60) = 5 / 10000"
    by (simp add: smoothLerp_def Math_pow_def)
  show ?thesis using hips spine lerp by (simp add: sample_bones)
qed

end
